theory Spec2Isabelle
  imports Main
begin

section \<open>Primitive types of the Go program\<close>

text \<open>
  Identifiers are Go \<open>uint64\<close> values. The program only compares them (with each other
  and with 0) and never computes with them, so they are natural numbers here; the one
  place where the 64-bit range shows, \<open>ParseUint64\<close>, checks it explicitly.

  A \<open>time.Time\<close> is an instant in nanoseconds since the Unix epoch and a
  \<open>time.Duration\<close> a number of nanoseconds. Every service call is given the reading
  \<open>now\<close> of \<open>time.Now()\<close> as an argument: the readings taken inside one call are
  identified.
\<close>

type_synonym time = int
type_synonym duration = int

definition Unix :: "time \<Rightarrow> int" where
  \<comment> \<open>\<open>t.Unix()\<close>: whole seconds since the epoch.\<close>
  "Unix t = t div 1000000000"

text \<open>
  \<open>d.Seconds()\<close> is \<open>float64(sec) + float64(nsec)/1e9\<close> with \<open>sec = d / Second\<close> and
  \<open>nsec = d % Second\<close>, and the conversion to \<open>int\<close> truncates. A \<open>float64\<close> is a
  fraction here; each operation rounds its exact result to the nearest value with a
  53-bit significand, ties to the even one. The magnitudes met lie between \<open>2 ^ -30\<close> and \<open>2 ^ 34\<close>,
  far from the exponent limits. Rounding is symmetric, so the sign is set aside.
\<close>

definition round_half_even :: "int \<Rightarrow> int \<Rightarrow> int" where
  \<comment> \<open>The integer nearest to \<open>p / q\<close> for \<open>q > 0\<close>, the even one of two equally near.\<close>
  "round_half_even p q =
     (let n = p div q; r = p mod q
      in if 2 * r < q then n else if q < 2 * r then n + 1 else if even n then n else n + 1)"

definition float64 :: "int \<times> int \<Rightarrow> int \<times> int" where
  \<comment> \<open>The \<open>float64\<close> nearest to the fraction \<open>p / q\<close> with \<open>0 \<le> p\<close>, \<open>0 < q\<close>, as a
      fraction: \<open>k - 64\<close> is the binary exponent of \<open>p / q\<close>, and the significand is
      \<open>p / q\<close> scaled to 53 bits and rounded.\<close>
  "float64 x =
     (case x of (p, q) \<Rightarrow>
        if p = 0 then (0, 1)
        else case find (\<lambda>k. p * 2 ^ 64 < q * 2 ^ Suc k) [0 ..< 128] of
               None \<Rightarrow> (p, q)
             | Some k \<Rightarrow>
                 if k \<le> 116 then (round_half_even (p * 2 ^ (116 - k)) q, 2 ^ (116 - k))
                 else (round_half_even p (q * 2 ^ (k - 116)) * 2 ^ (k - 116), 1))"

definition Seconds :: "duration \<Rightarrow> int" where
  \<comment> \<open>\<open>int(d.Seconds())\<close>\<close>
  "Seconds d =
     (let a = \<bar>d\<bar>;
          sec = a div 1000000000;
          nsec = a mod 1000000000;
          (fp, fq) = float64 (nsec, 1000000000);
          (xp, xq) = float64 (sec * fq + fp, fq)
      in sgn d * (xp div xq))"

definition int_add :: "int \<Rightarrow> int \<Rightarrow> int" where
  \<comment> \<open>\<open>+\<close> on Go's 64-bit \<open>int\<close>: two's complement wrap-around.\<close>
  "int_add a b = (a + b + 2 ^ 63) mod 2 ^ 64 - 2 ^ 63"

definition MaxInt64 :: int where
  "MaxInt64 = 2 ^ 63 - 1"

subsection \<open>Strings\<close>

text \<open>
  A Go string is a byte sequence, a \<open>char\<close> being a byte. \<open>strings.TrimSpace\<close> removes
  the leading and the trailing white space characters of Unicode, which it decodes
  from UTF-8. A byte that starts no valid encoding decodes to U+FFFD, which is no white
  space, so the characters removed at either end are exactly the encodings listed.
  Decoding backwards from the end finds the same characters: the bytes after the first
  of an encoding are continuation bytes.
\<close>

definition space_encodings :: "string list" where
  \<comment> \<open>The UTF-8 encodings of the characters of \<open>unicode.IsSpace\<close>: tab to carriage
      return and space, U+0085, U+00A0, U+1680, U+2000 to U+200A, U+2028, U+2029,
      U+202F, U+205F and U+3000.\<close>
  "space_encodings =
     [[CHR 0x09], [CHR 0x0A], [CHR 0x0B], [CHR 0x0C], [CHR 0x0D], [CHR 0x20],
      [CHR 0xC2, CHR 0x85], [CHR 0xC2, CHR 0xA0],
      [CHR 0xE1, CHR 0x9A, CHR 0x80],
      [CHR 0xE2, CHR 0x80, CHR 0x80], [CHR 0xE2, CHR 0x80, CHR 0x81],
      [CHR 0xE2, CHR 0x80, CHR 0x82], [CHR 0xE2, CHR 0x80, CHR 0x83],
      [CHR 0xE2, CHR 0x80, CHR 0x84], [CHR 0xE2, CHR 0x80, CHR 0x85],
      [CHR 0xE2, CHR 0x80, CHR 0x86], [CHR 0xE2, CHR 0x80, CHR 0x87],
      [CHR 0xE2, CHR 0x80, CHR 0x88], [CHR 0xE2, CHR 0x80, CHR 0x89],
      [CHR 0xE2, CHR 0x80, CHR 0x8A],
      [CHR 0xE2, CHR 0x80, CHR 0xA8], [CHR 0xE2, CHR 0x80, CHR 0xA9],
      [CHR 0xE2, CHR 0x80, CHR 0xAF], [CHR 0xE2, CHR 0x81, CHR 0x9F],
      [CHR 0xE3, CHR 0x80, CHR 0x80]]"

definition leading_space :: "string \<Rightarrow> nat" where
  \<comment> \<open>The width in bytes of the white space character a string starts with, 0 when
      it starts with none.\<close>
  "leading_space s =
     (case find (\<lambda>e. take (length e) s = e) space_encodings of
        None \<Rightarrow> 0 | Some e \<Rightarrow> length e)"

definition trailing_space :: "string \<Rightarrow> nat" where
  \<comment> \<open>The same for the character a string ends with.\<close>
  "trailing_space s =
     (case find (\<lambda>e. drop (length s - length e) s = e) space_encodings of
        None \<Rightarrow> 0 | Some e \<Rightarrow> length e)"

lemma space_encodings_nonempty: "e \<in> set space_encodings \<Longrightarrow> e \<noteq> []"
  by (auto simp: space_encodings_def)

lemma find_Some_set: "find P xs = Some x \<Longrightarrow> x \<in> set xs \<and> P x"
  by (induction xs) (auto split: if_splits)

lemma leading_space_le: "leading_space s \<le> length s"
proof (cases "find (\<lambda>e. take (length e) s = e) space_encodings")
  case None
  then show ?thesis by (simp add: leading_space_def)
next
  case (Some e)
  from find_Some_set [OF Some] have "take (length e) s = e" by blast
  then have "length (take (length e) s) = length e" by simp
  then have "length e \<le> length s" by simp
  with Some show ?thesis by (simp add: leading_space_def)
qed

lemma trailing_space_le: "trailing_space s \<le> length s"
proof (cases "find (\<lambda>e. drop (length s - length e) s = e) space_encodings")
  case None
  then show ?thesis by (simp add: trailing_space_def)
next
  case (Some e)
  from find_Some_set [OF Some] have "drop (length s - length e) s = e" by blast
  then have "length (drop (length s - length e) s) = length e" by simp
  then have "length e \<le> length s" by simp
  with Some show ?thesis by (simp add: trailing_space_def)
qed

function TrimLeft :: "string \<Rightarrow> string" where
  "TrimLeft s = (if leading_space s = 0 then s else TrimLeft (drop (leading_space s) s))"
  by pat_completeness auto

termination
proof (relation "measure length")
  fix s :: string
  assume "leading_space s \<noteq> 0"
  moreover have "leading_space s \<le> length s" by (rule leading_space_le)
  ultimately show "(drop (leading_space s) s, s) \<in> measure length" by simp
qed simp

declare TrimLeft.simps [simp del]

function TrimRight :: "string \<Rightarrow> string" where
  "TrimRight s = (if trailing_space s = 0 then s
                  else TrimRight (take (length s - trailing_space s) s))"
  by pat_completeness auto

termination
proof (relation "measure length")
  fix s :: string
  assume "trailing_space s \<noteq> 0"
  moreover have "trailing_space s \<le> length s" by (rule trailing_space_le)
  ultimately show "(take (length s - trailing_space s) s, s) \<in> measure length" by simp
qed simp

declare TrimRight.simps [simp del]

definition TrimSpace :: "string \<Rightarrow> string" where
  \<comment> \<open>\<open>strings.TrimSpace\<close>, which is \<open>TrimRightFunc(TrimLeftFunc(s, IsSpace), IsSpace)\<close>
      behind a fast path for ASCII.\<close>
  "TrimSpace s = TrimRight (TrimLeft s)"

fun decimal :: "nat \<Rightarrow> string" where
  \<comment> \<open>The verb \<open>%d\<close> of \<open>fmt\<close> on a number that is not negative.\<close>
  "decimal n = (if n < 10 then [char_of (48 + n)]
                else decimal (n div 10) @ [char_of (48 + n mod 10)])"

declare decimal.simps [simp del]

text \<open>
  \<open>utils.ParseUint64\<close> belongs to the shared core library; it is taken to be
  \<open>strconv.ParseUint(s, 10, 64)\<close>: a non-empty string of decimal digits whose value
  fits 64 bits.
\<close>

definition digit_val :: "char \<Rightarrow> nat option" where
  "digit_val c = (let n = (of_char c :: nat) in
     if 48 \<le> n \<and> n \<le> 57 then Some (n - 48) else None)"

fun parse_digits :: "string \<Rightarrow> nat \<Rightarrow> nat option" where
  "parse_digits [] acc = Some acc"
| "parse_digits (c # cs) acc =
     (case digit_val c of None \<Rightarrow> None | Some d \<Rightarrow> parse_digits cs (10 * acc + d))"

definition ParseUint64 :: "string \<Rightarrow> nat option" where
  "ParseUint64 s =
     (if s = [] then None
      else case parse_digits s 0 of
             None \<Rightarrow> None
           | Some n \<Rightarrow> if n < 2 ^ 64 then Some n else None)"

subsection \<open>Errors\<close>

datatype error =
    ErrInvalidCredentials
  | ErrAccountLocked
  | ErrAccountInactive
  | ErrUserExists
  | ErrInvalidToken
  | ErrOrganizationNotFound
  | ErrDepartmentNotFound
  | ErrUserNotFound
  | Errorf string \<comment> \<open>an error made by \<open>fmt.Errorf\<close>, with its message\<close>
  | Wrap string error \<comment> \<open>\<open>fmt.Errorf("...: %w", err)\<close>\<close>
  | ErrSyntax \<comment> \<open>the parse error of \<open>ParseUint64\<close>\<close>
  | ErrDuplicatedKey string \<comment> \<open>a unique index of the store refuses the write\<close>
  | ErrBcrypt string

subsection \<open>Password hashing\<close>

text \<open>
  \<open>bcrypt\<close> is modelled symbolically: a hash records the cost, the salt and the password
  it was made from, and a password verifies against a hash exactly when it is the
  password hashed. The salt, which the library draws at random, is an argument.
  \<open>NotAHash\<close> stands for a stored string that is no bcrypt hash; nothing verifies
  against it.
\<close>

datatype password_hash = BCrypt int nat string | NotAHash string

definition GenerateFromPassword :: "nat \<Rightarrow> string \<Rightarrow> int \<Rightarrow> error + password_hash" where
  "GenerateFromPassword salt password cost =
     (if 72 < length password then Inl (ErrBcrypt ''password length exceeds 72 bytes'')
      else if 31 < cost then Inl (ErrBcrypt ''invalid cost'')
      else Inr (BCrypt (if cost < 4 then 10 else cost) salt password))"

fun CompareHashAndPassword :: "password_hash \<Rightarrow> string \<Rightarrow> bool" where
  \<comment> \<open>True when the library returns a nil error.\<close>
  "CompareHashAndPassword (BCrypt cost salt p) password = (p = password)"
| "CompareHashAndPassword (NotAHash s) password = False"

section \<open>Token codec\<close>

text \<open>
  The claims of a token are a JSON object. \<open>jwt.MapClaims\<close> is serialised by
  \<open>encoding/json\<close>: a Go string becomes a JSON string, every Go integer (also a
  \<open>uint64\<close> and a \<open>*uint64\<close>) a JSON number, a bool a JSON boolean, a slice an array and
  a map an object. Parsing gives back a \<open>map[string]interface{}\<close> whose values carry
  the JSON kind: a type assertion \<open>.(string)\<close> succeeds on \<open>JString\<close> only.
  Numbers are the integral ones.
\<close>

datatype json =
    JString string
  | JNumber int
  | JBool bool
  | JArray "json list"
  | JObject "(string \<times> json) list"

type_synonym claims = "(string \<times> json) list"

text \<open>
  The signature is symbolic, as in the protocol models of the distribution: the MAC of
  claims under a key and an algorithm is a term that records all three, so two MACs are
  equal exactly when algorithm, key and signed content are. A token string is either the
  compact serialisation of a header algorithm, claims and a signature, or a string with
  no such reading.
\<close>

datatype signature = MAC string string claims | NoSignature string

datatype token_string = Compact string claims signature | Unparsable string

definition SignedString :: "string \<Rightarrow> claims \<Rightarrow> token_string" where
  \<comment> \<open>\<open>jwt.NewWithClaims(jwt.SigningMethodHS256, claims).SignedString(key)\<close>\<close>
  "SignedString key cl = Compact ''HS256'' cl (MAC ''HS256'' key cl)"

definition exp_ok :: "time \<Rightarrow> claims \<Rightarrow> bool" where
  \<comment> \<open>The library's check of \<open>exp\<close>: optional, a number, and \<open>now\<close> before it.\<close>
  "exp_ok now cl =
     (case map_of cl ''exp'' of
        None \<Rightarrow> True
      | Some (JNumber e) \<Rightarrow> e = 0 \<or> now < e * 1000000000
      | Some _ \<Rightarrow> False)"

definition nbf_ok :: "time \<Rightarrow> claims \<Rightarrow> bool" where
  \<comment> \<open>The library's check of \<open>nbf\<close>: optional, a number, and \<open>now\<close> not before it.\<close>
  "nbf_ok now cl =
     (case map_of cl ''nbf'' of
        None \<Rightarrow> True
      | Some (JNumber n) \<Rightarrow> n = 0 \<or> n * 1000000000 \<le> now
      | Some _ \<Rightarrow> False)"

definition jwt_Parse :: "string \<Rightarrow> time \<Rightarrow> token_string \<Rightarrow> claims option" where
  \<comment> \<open>\<open>jwt.Parse\<close> with the key function both callers pass: the method must be of the
      HMAC family, the key is the configured secret. \<open>None\<close> when the library returns an
      error or \<open>token.Valid\<close> is false.\<close>
  "jwt_Parse secret now tok =
     (case tok of
        Unparsable s \<Rightarrow> None
      | Compact alg cl sg \<Rightarrow>
          if alg \<notin> set [''HS256'', ''HS384'', ''HS512''] then None
          else if sg \<noteq> MAC alg secret cl then None
          else if \<not> exp_ok now cl then None
          else if \<not> nbf_ok now cl then None
          else Some cl)"

section \<open>Data model\<close>

text \<open>
  The structs of \<open>internal/models\<close>, one record each, with the columns the services
  read or write. Fields are prefixed with the struct they belong to. The timestamps
  the ORM maintains (\<open>created_at\<close>, \<open>updated_at\<close>, \<open>deleted_at\<close>) and the reset and
  verification tokens, which no modelled function touches, are left out.
\<close>

record Organization =
  o_ID :: nat
  o_Name :: string
  o_Description :: string
  o_Domain :: string
  o_IsActive :: bool
  o_ParentID :: "nat option"

record Department =
  d_ID :: nat
  d_OrganizationID :: nat
  d_Code :: "string option"
  d_Name :: string
  d_Kind :: string
  d_Description :: string
  d_Function :: string
  d_IsActive :: bool
  d_ParentID :: "nat option"

record User =
  u_ID :: nat
  u_Email :: string
  u_Username :: string
  u_Password :: password_hash
  u_FirstName :: string
  u_LastName :: string
  u_IsActive :: bool
  u_IsVerified :: bool
  u_IsSuperAdmin :: bool
  u_PrimaryOrganizationID :: "nat option"
  u_PrimaryDepartmentID :: "nat option"
  u_LastLogin :: "time option"
  u_LoginAttempts :: int
  u_LockedUntil :: "time option"
  u_MFAEnabled :: bool

text \<open>
  \<open>User\<close> holds the columns of the struct. Its two belongs-to associations,
  \<open>PrimaryOrganization\<close> and \<open>PrimaryDepartment\<close>, which every query of the user
  repository preloads, are kept beside it: the projections and the tokens do not read
  them, \<open>db.Save\<close> does.
\<close>

record UserAssociations =
  ua_PrimaryOrganization :: "Organization option"
  ua_PrimaryDepartment :: "Department option"

text \<open>
  A membership row; \<open>uo_Organization\<close> and \<open>ud_Department\<close> are the associations a
  query may preload (absent in a stored row).
\<close>

record UserOrganization =
  uo_UserID :: nat
  uo_OrganizationID :: nat
  uo_Role :: string
  uo_IsPrimary :: bool
  uo_Organization :: "Organization option"

record UserDepartment =
  ud_UserID :: nat
  ud_DepartmentID :: nat
  ud_Role :: string
  ud_IsPrimary :: bool
  ud_Department :: "Department option"

definition OrganizationRoleSystemAdmin :: string where
  "OrganizationRoleSystemAdmin = ''SYSTEM_ADMIN''"

record OrganizationMembershipInfo =
  omi_OrganizationID :: nat
  omi_OrganizationName :: string
  omi_Role :: string
  omi_IsPrimary :: bool

record DepartmentMembershipInfo =
  dmi_DepartmentID :: nat
  dmi_DepartmentName :: string
  dmi_Role :: string
  dmi_IsPrimary :: bool

record UserInfo =
  ui_ID :: nat
  ui_Email :: string
  ui_Username :: string
  ui_FirstName :: string
  ui_LastName :: string
  ui_PrimaryOrganizationID :: "nat option"
  ui_PrimaryDepartmentID :: "nat option"
  ui_IsSuperAdmin :: bool
  ui_MFAEnabled :: bool
  ui_Organizations :: "OrganizationMembershipInfo list"
  ui_Departments :: "DepartmentMembershipInfo list"

record LoginRequest =
  req_Username :: string
  req_Password :: string
  req_OrganizationID :: nat
  req_DepartmentID :: nat
  req_RoleID :: nat

record LoginResponse =
  resp_AccessToken :: token_string
  resp_RefreshToken :: token_string
  resp_ExpiresIn :: int
  resp_TokenType :: string
  resp_User :: UserInfo
  resp_LoggedOrganization :: "Organization option"
  resp_LoggedDepartment :: "Department option"

record AuthConfig =
  cfg_ServiceName :: string
  cfg_JWTSecret :: string
  cfg_TokenExpiration :: duration
  cfg_RefreshExpiration :: duration
  cfg_PasswordMinLength :: int
  cfg_MaxLoginAttempts :: int
  cfg_LockoutDuration :: duration
  cfg_BCryptCost :: int

record BootstrapAdminInput =
  in_OrganizationName :: string
  in_OrganizationDescription :: string
  in_OrganizationDomain :: string
  in_AdminEmail :: string
  in_AdminUsername :: string
  in_AdminPassword :: string
  in_AdminFirstName :: string
  in_AdminLastName :: string
  in_ForcePasswordReset :: bool

record AssignUserOrganizationInput =
  auo_UserID :: nat
  auo_OrganizationID :: nat
  auo_Role :: string
  auo_IsPrimary :: bool

record AssignUserDepartmentInput =
  aud_UserID :: "nat option"
  aud_DepartmentID :: "nat option"
  aud_Role :: string
  aud_IsPrimary :: bool

text \<open>What the login handler writes: the status family and the message or body.\<close>

datatype http_response =
    BadRequest string
  | ValidationError string
  | Unauthorized string
  | Forbidden string
  | Internal string
  | StatusOK LoginResponse

section \<open>The store\<close>

text \<open>
  The relational store behind the two repositories: one list of rows per table, in
  primary-key order. A query that returns one row returns the first match; an update
  changes every row its \<open>WHERE\<close> selects. The store of the model does not fail, except
  where a unique index declared on a model refuses a write; connection and driver
  failures are outside the model.
\<close>

record db =
  users :: "User list"
  organizations :: "Organization list"
  departments :: "Department list"
  user_organizations :: "UserOrganization list"
  user_departments :: "UserDepartment list"

definition next_id :: "nat list \<Rightarrow> nat" where
  \<comment> \<open>The key the store gives a new row: above every key of the table, never 0.\<close>
  "next_id ids = Suc (foldr max ids 0)"

subsection \<open>UserRepository\<close>

definition update_users :: "nat \<Rightarrow> (User \<Rightarrow> User) \<Rightarrow> db \<Rightarrow> db" where
  \<comment> \<open>\<open>db.Model(&models.User{}).Where("id = ?", userID).Update(s)(...)\<close>\<close>
  "update_users userID f st =
     st\<lparr>users := map (\<lambda>u. if u_ID u = userID then f u else u) (users st)\<rparr>"

definition GetByID :: "db \<Rightarrow> nat \<Rightarrow> User option" where
  "GetByID st userID = find (\<lambda>u. u_ID u = userID) (users st)"

definition GetByEmail :: "db \<Rightarrow> string \<Rightarrow> User option" where
  "GetByEmail st email = find (\<lambda>u. u_Email u = email) (users st)"

definition GetByEmailOrUsername :: "db \<Rightarrow> string \<Rightarrow> User option" where
  "GetByEmailOrUsername st identifier =
     find (\<lambda>u. u_Email u = identifier \<or> u_Username u = identifier) (users st)"

definition Create :: "User \<Rightarrow> db \<Rightarrow> (error + User) \<times> db" where
  \<comment> \<open>\<open>db.Create(user)\<close>: email and username carry a unique index; the new row gets
      its key, which the caller sees in the struct it passed.\<close>
  "Create user st =
     (if list_ex (\<lambda>u. u_Email u = u_Email user) (users st)
        then (Inl (ErrDuplicatedKey ''users.email''), st)
      else if list_ex (\<lambda>u. u_Username u = u_Username user) (users st)
        then (Inl (ErrDuplicatedKey ''users.username''), st)
      else let user' = user\<lparr>u_ID := next_id (map u_ID (users st))\<rparr>
           in (Inr user', st\<lparr>users := users st @ [user']\<rparr>))"

definition baseQuery :: "db \<Rightarrow> User \<Rightarrow> UserAssociations" where
  \<comment> \<open>The two \<open>Preload\<close> clauses of \<open>baseQuery\<close>: the rows that the two foreign keys
      of the user read name, when there are such rows.\<close>
  "baseQuery st u =
     \<lparr>ua_PrimaryOrganization =
        (case u_PrimaryOrganizationID u of
           None \<Rightarrow> None
         | Some orgID \<Rightarrow> find (\<lambda>r. o_ID r = orgID) (organizations st)),
      ua_PrimaryDepartment =
        (case u_PrimaryDepartmentID u of
           None \<Rightarrow> None
         | Some deptID \<Rightarrow> find (\<lambda>d. d_ID d = deptID) (departments st))\<rparr>"

definition save_organization :: "Organization \<Rightarrow> db \<Rightarrow> db" where
  \<comment> \<open>\<open>INSERT ... ON CONFLICT DO NOTHING\<close> of an organization that has its key: a row
      with that key, or with its domain (unique), keeps the table as it is.\<close>
  "save_organization org st =
     (if list_ex (\<lambda>r. o_ID r = o_ID org \<or> o_Domain r = o_Domain org) (organizations st)
      then st else st\<lparr>organizations := organizations st @ [org]\<rparr>)"

definition save_department :: "Department \<Rightarrow> db \<Rightarrow> db" where
  "save_department dept st =
     (if list_ex (\<lambda>d. d_ID d = d_ID dept) (departments st)
      then st else st\<lparr>departments := departments st @ [dept]\<rparr>)"

definition Update :: "User \<Rightarrow> UserAssociations \<Rightarrow> db \<Rightarrow> (error + User) \<times> db" where
  \<comment> \<open>\<open>db.Save(user)\<close> of a user that was read from the store, \<open>assoc\<close> being the
      associations the struct carries. Save first saves each association that is not
      nil and sets the user's foreign key from the association's key, in the struct
      too; then all columns of the row with the user's key are written. One
      transaction: a refused write leaves the store as it was. The user returned is
      the struct after the call.\<close>
  "Update user assoc st =
     (let (user1, st1) =
            (case ua_PrimaryOrganization assoc of
               None \<Rightarrow> (user, st)
             | Some org \<Rightarrow>
                 (user\<lparr>u_PrimaryOrganizationID := Some (o_ID org)\<rparr>, save_organization org st));
          (user2, st2) =
            (case ua_PrimaryDepartment assoc of
               None \<Rightarrow> (user1, st1)
             | Some dept \<Rightarrow>
                 (user1\<lparr>u_PrimaryDepartmentID := Some (d_ID dept)\<rparr>, save_department dept st1))
      in if list_ex (\<lambda>u. u_ID u \<noteq> u_ID user2 \<and> u_Email u = u_Email user2) (users st2)
           then (Inl (ErrDuplicatedKey ''users.email''), st)
         else if list_ex (\<lambda>u. u_ID u \<noteq> u_ID user2 \<and> u_Username u = u_Username user2)
                   (users st2)
           then (Inl (ErrDuplicatedKey ''users.username''), st)
         else (Inr user2, update_users (u_ID user2) (\<lambda>_. user2) st2))"

definition UpdateLastLogin :: "time \<Rightarrow> nat \<Rightarrow> db \<Rightarrow> db" where
  "UpdateLastLogin now userID st =
     update_users userID (\<lambda>u. u\<lparr>u_LastLogin := Some now, u_LoginAttempts := 0\<rparr>) st"

definition IncrementLoginAttempts :: "nat \<Rightarrow> db \<Rightarrow> db" where
  \<comment> \<open>\<open>login_attempts + 1\<close> is computed by the store on a 64-bit column; at the
      largest value the statement fails and the row stays (Login drops the error).\<close>
  "IncrementLoginAttempts userID st =
     update_users userID
       (\<lambda>u. if u_LoginAttempts u < MaxInt64
             then u\<lparr>u_LoginAttempts := u_LoginAttempts u + 1\<rparr> else u) st"

definition LockAccount :: "nat \<Rightarrow> time \<Rightarrow> db \<Rightarrow> db" where
  "LockAccount userID until st =
     update_users userID (\<lambda>u. u\<lparr>u_LockedUntil := Some until\<rparr>) st"

definition UnlockAccount :: "nat \<Rightarrow> db \<Rightarrow> db" where
  "UnlockAccount userID st =
     update_users userID (\<lambda>u. u\<lparr>u_LockedUntil := None, u_LoginAttempts := 0\<rparr>) st"

subsection \<open>OrganizationRepository\<close>

definition GetOrganizationByID :: "db \<Rightarrow> nat \<Rightarrow> Organization option" where
  "GetOrganizationByID st orgID = find (\<lambda>r. o_ID r = orgID) (organizations st)"

definition GetDepartmentByID :: "db \<Rightarrow> nat \<Rightarrow> Department option" where
  "GetDepartmentByID st deptID = find (\<lambda>d. d_ID d = deptID) (departments st)"

definition CreateOrganization :: "Organization \<Rightarrow> db \<Rightarrow> (error + Organization) \<times> db" where
  \<comment> \<open>\<open>db.Create(org)\<close>: the domain carries a unique index.\<close>
  "CreateOrganization org st =
     (if list_ex (\<lambda>r. o_Domain r = o_Domain org) (organizations st)
        then (Inl (ErrDuplicatedKey ''organizations.domain''), st)
      else let org' = org\<lparr>o_ID := next_id (map o_ID (organizations st))\<rparr>
           in (Inr org', st\<lparr>organizations := organizations st @ [org']\<rparr>))"

definition updateOrganizationDefaults ::
  "Organization \<Rightarrow> string \<Rightarrow> string \<Rightarrow> bool \<Rightarrow> db \<Rightarrow> (error + Organization) \<times> db" where
  \<comment> \<open>The \<open>updates\<close> map always holds \<open>is_active\<close>; description and domain join it
      when the caller's value is not blank and differs from the one read. The row is
      read again after the write.\<close>
  "updateOrganizationDefaults org description domain isActive st =
     (let setDescription = (TrimSpace description \<noteq> [] \<and> o_Description org \<noteq> description);
          setDomain = (TrimSpace domain \<noteq> [] \<and> o_Domain org \<noteq> TrimSpace domain)
      in if setDomain \<and>
            list_ex (\<lambda>r. o_ID r \<noteq> o_ID org \<and> o_Domain r = TrimSpace domain) (organizations st)
           then (Inl (ErrDuplicatedKey ''organizations.domain''), st)
         else
           let st' = st\<lparr>organizations :=
                 map (\<lambda>r. if o_ID r = o_ID org
                           then r\<lparr>o_IsActive := isActive,
                                  o_Description :=
                                    (if setDescription then TrimSpace description
                                     else o_Description r),
                                  o_Domain :=
                                    (if setDomain then TrimSpace domain else o_Domain r)\<rparr>
                           else r)
                     (organizations st)\<rparr>
           in case find (\<lambda>r. o_ID r = o_ID org) (organizations st') of
                None \<Rightarrow> (Inl (Errorf ''record not found''), st')
              | Some org' \<Rightarrow> (Inr org', st'))"

definition EnsureOrganization ::
  "string \<Rightarrow> string \<Rightarrow> string \<Rightarrow> db \<Rightarrow> (error + Organization) \<times> db" where
  "EnsureOrganization name description domain st =
     (if TrimSpace name = [] then (Inl (Errorf ''organization name is required''), st)
      else
        let cleanDomain = TrimSpace domain;
            cleanName = TrimSpace name
        in case (if cleanDomain \<noteq> []
                 then find (\<lambda>r. o_Domain r = cleanDomain) (organizations st) else None) of
             Some org \<Rightarrow> updateOrganizationDefaults org description cleanDomain True st
           | None \<Rightarrow>
               (case find (\<lambda>r. o_Name r = cleanName) (organizations st) of
                  Some org \<Rightarrow> updateOrganizationDefaults org description cleanDomain True st
                | None \<Rightarrow>
                    CreateOrganization
                      \<lparr>o_ID = 0, o_Name = cleanName, o_Description = TrimSpace description,
                       o_Domain = cleanDomain, o_IsActive = True, o_ParentID = None\<rparr> st))"

text \<open>
  The two list queries order their rows by \<open>is_primary DESC, updated_at DESC\<close>.
  \<open>updated_at\<close> is not modelled, and the model returns the rows in table order. A
  table holds at most one row per (user, unit) key, so the search of a list for a unit
  finds the same row in either order; the order itself shows only in the lists copied
  into the token and the user projection.
\<close>

definition preload_Organization :: "db \<Rightarrow> UserOrganization \<Rightarrow> UserOrganization" where
  "preload_Organization st m =
     m\<lparr>uo_Organization := find (\<lambda>r. o_ID r = uo_OrganizationID m) (organizations st)\<rparr>"

definition preload_Department :: "db \<Rightarrow> UserDepartment \<Rightarrow> UserDepartment" where
  "preload_Department st m =
     m\<lparr>ud_Department := find (\<lambda>d. d_ID d = ud_DepartmentID m) (departments st)\<rparr>"

definition ListUserOrganizations :: "db \<Rightarrow> nat \<Rightarrow> UserOrganization list" where
  "ListUserOrganizations st userID =
     map (preload_Organization st) (filter (\<lambda>m. uo_UserID m = userID) (user_organizations st))"

definition ListUserDepartments :: "db \<Rightarrow> nat \<Rightarrow> UserDepartment list" where
  "ListUserDepartments st userID =
     map (preload_Department st) (filter (\<lambda>m. ud_UserID m = userID) (user_departments st))"

definition UpsertUserOrganization :: "nat \<Rightarrow> nat \<Rightarrow> string \<Rightarrow> bool \<Rightarrow> db \<Rightarrow> db" where
  \<comment> \<open>\<open>INSERT ... ON CONFLICT (user_id, organization_id) DO UPDATE\<close> of role and
      primary flag.\<close>
  "UpsertUserOrganization userID orgID role isPrimary st =
     (if list_ex (\<lambda>m. uo_UserID m = userID \<and> uo_OrganizationID m = orgID) (user_organizations st)
      then st\<lparr>user_organizations :=
             map (\<lambda>m. if uo_UserID m = userID \<and> uo_OrganizationID m = orgID
                       then m\<lparr>uo_Role := role, uo_IsPrimary := isPrimary\<rparr> else m)
                 (user_organizations st)\<rparr>
      else st\<lparr>user_organizations := user_organizations st @
             [\<lparr>uo_UserID = userID, uo_OrganizationID = orgID, uo_Role = role,
               uo_IsPrimary = isPrimary, uo_Organization = None\<rparr>]\<rparr>)"

definition UpsertUserDepartment :: "nat \<Rightarrow> nat \<Rightarrow> string \<Rightarrow> bool \<Rightarrow> db \<Rightarrow> db" where
  "UpsertUserDepartment userID deptID role isPrimary st =
     (if list_ex (\<lambda>m. ud_UserID m = userID \<and> ud_DepartmentID m = deptID) (user_departments st)
      then st\<lparr>user_departments :=
             map (\<lambda>m. if ud_UserID m = userID \<and> ud_DepartmentID m = deptID
                       then m\<lparr>ud_Role := role, ud_IsPrimary := isPrimary\<rparr> else m)
                 (user_departments st)\<rparr>
      else st\<lparr>user_departments := user_departments st @
             [\<lparr>ud_UserID = userID, ud_DepartmentID = deptID, ud_Role = role,
               ud_IsPrimary = isPrimary, ud_Department = None\<rparr>]\<rparr>)"

definition GetUserOrganization :: "db \<Rightarrow> nat \<Rightarrow> nat \<Rightarrow> UserOrganization option" where
  "GetUserOrganization st userID orgID =
     map_option (preload_Organization st)
       (find (\<lambda>m. uo_UserID m = userID \<and> uo_OrganizationID m = orgID) (user_organizations st))"

definition GetUserDepartment :: "db \<Rightarrow> nat \<Rightarrow> nat \<Rightarrow> UserDepartment option" where
  "GetUserDepartment st userID deptID =
     map_option (preload_Department st)
       (find (\<lambda>m. ud_UserID m = userID \<and> ud_DepartmentID m = deptID) (user_departments st))"

definition ClearPrimaryOrganization :: "nat \<Rightarrow> db \<Rightarrow> db" where
  "ClearPrimaryOrganization userID st =
     st\<lparr>user_organizations :=
          map (\<lambda>m. if uo_UserID m = userID then m\<lparr>uo_IsPrimary := False\<rparr> else m)
              (user_organizations st)\<rparr>"

definition ClearPrimaryDepartment :: "nat \<Rightarrow> db \<Rightarrow> db" where
  "ClearPrimaryDepartment userID st =
     st\<lparr>user_departments :=
          map (\<lambda>m. if ud_UserID m = userID then m\<lparr>ud_IsPrimary := False\<rparr> else m)
              (user_departments st)\<rparr>"

definition SetUserPrimaryOrganization :: "nat \<Rightarrow> nat \<Rightarrow> db \<Rightarrow> db" where
  "SetUserPrimaryOrganization userID orgID st =
     update_users userID (\<lambda>u. u\<lparr>u_PrimaryOrganizationID := Some orgID\<rparr>) st"

definition SetUserPrimaryDepartment :: "nat \<Rightarrow> nat \<Rightarrow> db \<Rightarrow> db" where
  "SetUserPrimaryDepartment userID deptID st =
     update_users userID (\<lambda>u. u\<lparr>u_PrimaryDepartmentID := Some deptID\<rparr>) st"

section \<open>AuthenticationService\<close>

subsection \<open>Claims and tokens\<close>

fun uniqueStrings_loop :: "string list \<Rightarrow> string list \<Rightarrow> string list" where
  \<comment> \<open>The loop of \<open>uniqueStrings\<close>; the set \<open>seen\<close> holds what \<open>result\<close> holds.\<close>
  "uniqueStrings_loop [] result = result"
| "uniqueStrings_loop (val # values) result =
     (let trimmed = TrimSpace val
      in if trimmed = [] then uniqueStrings_loop values result
         else if trimmed \<in> set result then uniqueStrings_loop values result
         else uniqueStrings_loop values (result @ [trimmed]))"

definition uniqueStrings :: "string list \<Rightarrow> string list" where
  "uniqueStrings values = (if values = [] then [] else uniqueStrings_loop values [])"

definition organization_claim :: "UserOrganization \<Rightarrow> json" where
  "organization_claim membership =
     JObject ([(''id'', JNumber (int (uo_OrganizationID membership))),
               (''is_primary'', JBool (uo_IsPrimary membership))]
              @ (case uo_Organization membership of
                   None \<Rightarrow> [] | Some org \<Rightarrow> [(''name'', JString (o_Name org))])
              @ (if uo_Role membership \<noteq> [] then [(''role'', JString (uo_Role membership))]
                 else []))"

definition department_claim :: "UserDepartment \<Rightarrow> json" where
  "department_claim membership =
     JObject ([(''id'', JNumber (int (ud_DepartmentID membership))),
               (''is_primary'', JBool (ud_IsPrimary membership))]
              @ (case ud_Department membership of
                   None \<Rightarrow> [] | Some dept \<Rightarrow> [(''name'', JString (d_Name dept))])
              @ (if ud_Role membership \<noteq> [] then [(''role'', JString (ud_Role membership))]
                 else []))"

definition access_claims ::
  "AuthConfig \<Rightarrow> time \<Rightarrow> string \<Rightarrow> User \<Rightarrow> UserOrganization list \<Rightarrow> UserDepartment list
    \<Rightarrow> claims" where
  \<comment> \<open>The \<open>jwt.MapClaims\<close> that \<open>generateAccessToken\<close> fills, as serialised:
      \<open>sub\<close>, \<open>user_id\<close> and \<open>org_id\<close> are \<open>uint64\<close> values, hence numbers.\<close>
  "access_claims cfg now jti user orgMemberships deptMemberships =
     [(''iss'', JString (cfg_ServiceName cfg)),
      (''sub'', JNumber (int (u_ID user))),
      (''aud'', JArray [JString (cfg_ServiceName cfg)]),
      (''exp'', JNumber (Unix (now + cfg_TokenExpiration cfg))),
      (''iat'', JNumber (Unix now)),
      (''nbf'', JNumber (Unix now)),
      (''jti'', JString jti),
      (''type'', JString ''access''),
      (''user_id'', JNumber (int (u_ID user))),
      (''email'', JString (u_Email user)),
      (''username'', JString (u_Username user))]
     @ (case u_PrimaryOrganizationID user of
          None \<Rightarrow> [] | Some orgID \<Rightarrow> [(''org_id'', JNumber (int orgID))])
     @ (if u_IsSuperAdmin user then [(''is_super_admin'', JBool True)] else [])
     @ (if orgMemberships \<noteq> []
        then [(''organizations'', JArray (map organization_claim orgMemberships))]
             @ (let roles = filter (\<lambda>r. r \<noteq> []) (map uo_Role orgMemberships)
                in if roles \<noteq> [] then [(''roles'', JArray (map JString (uniqueStrings roles)))]
                   else [])
        else [])
     @ (if deptMemberships \<noteq> []
        then [(''departments'', JArray (map department_claim deptMemberships))]
        else [])"

definition generateAccessToken ::
  "AuthConfig \<Rightarrow> time \<Rightarrow> string \<Rightarrow> User \<Rightarrow> UserOrganization list \<Rightarrow> UserDepartment list
    \<Rightarrow> token_string" where
  \<comment> \<open>\<open>jti\<close> is the value of \<open>uuid.NewString()\<close>. Signing a map of these values with
      a byte-slice key does not fail.\<close>
  "generateAccessToken cfg now jti user orgMemberships deptMemberships =
     SignedString (cfg_JWTSecret cfg)
       (access_claims cfg now jti user orgMemberships deptMemberships)"

definition refresh_claims :: "AuthConfig \<Rightarrow> time \<Rightarrow> string \<Rightarrow> User \<Rightarrow> claims" where
  "refresh_claims cfg now jti user =
     [(''iss'', JString (cfg_ServiceName cfg)),
      (''sub'', JNumber (int (u_ID user))),
      (''aud'', JArray [JString (cfg_ServiceName cfg)]),
      (''exp'', JNumber (Unix (now + cfg_RefreshExpiration cfg))),
      (''iat'', JNumber (Unix now)),
      (''nbf'', JNumber (Unix now)),
      (''jti'', JString jti),
      (''type'', JString ''refresh''),
      (''user_id'', JNumber (int (u_ID user)))]"

definition generateRefreshToken :: "AuthConfig \<Rightarrow> time \<Rightarrow> string \<Rightarrow> User \<Rightarrow> token_string" where
  "generateRefreshToken cfg now jti user =
     SignedString (cfg_JWTSecret cfg) (refresh_claims cfg now jti user)"

definition ValidateToken :: "AuthConfig \<Rightarrow> time \<Rightarrow> token_string \<Rightarrow> error + nat" where
  "ValidateToken cfg now tokenString =
     (case jwt_Parse (cfg_JWTSecret cfg) now tokenString of
        None \<Rightarrow> Inl ErrInvalidToken
      | Some cl \<Rightarrow>
          (case map_of cl ''type'' of
             Some (JString tokenType) \<Rightarrow>
               if tokenType \<noteq> ''access'' then Inl ErrInvalidToken
               else (case map_of cl ''user_id'' of
                       Some (JString userIDStr) \<Rightarrow>
                         (case ParseUint64 userIDStr of
                            None \<Rightarrow> Inl ErrSyntax
                          | Some userId \<Rightarrow> Inr userId)
                     | _ \<Rightarrow> Inl ErrInvalidToken)
           | _ \<Rightarrow> Inl ErrInvalidToken))"

subsection \<open>User projection\<close>

definition ToUserInfo :: "User \<Rightarrow> UserInfo" where
  "ToUserInfo u =
     \<lparr>ui_ID = u_ID u, ui_Email = u_Email u, ui_Username = u_Username u,
      ui_FirstName = u_FirstName u, ui_LastName = u_LastName u,
      ui_PrimaryOrganizationID = u_PrimaryOrganizationID u,
      ui_PrimaryDepartmentID = u_PrimaryDepartmentID u,
      ui_IsSuperAdmin = u_IsSuperAdmin u, ui_MFAEnabled = u_MFAEnabled u,
      ui_Organizations = [], ui_Departments = []\<rparr>"

definition organization_membership_info :: "UserOrganization \<Rightarrow> OrganizationMembershipInfo" where
  "organization_membership_info membership =
     \<lparr>omi_OrganizationID = uo_OrganizationID membership,
      omi_OrganizationName =
        (case uo_Organization membership of None \<Rightarrow> [] | Some org \<Rightarrow> o_Name org),
      omi_Role = uo_Role membership,
      omi_IsPrimary = uo_IsPrimary membership\<rparr>"

definition department_membership_info :: "UserDepartment \<Rightarrow> DepartmentMembershipInfo" where
  "department_membership_info membership =
     \<lparr>dmi_DepartmentID = ud_DepartmentID membership,
      dmi_DepartmentName =
        (case ud_Department membership of None \<Rightarrow> [] | Some dept \<Rightarrow> d_Name dept),
      dmi_Role = ud_Role membership,
      dmi_IsPrimary = ud_IsPrimary membership\<rparr>"

definition composeUserInfo ::
  "User \<Rightarrow> UserOrganization list \<Rightarrow> UserDepartment list \<Rightarrow> UserInfo" where
  "composeUserInfo user orgs depts =
     (ToUserInfo user)
       \<lparr>ui_Organizations := map organization_membership_info orgs,
        ui_Departments := map department_membership_info depts\<rparr>"

definition collectMemberships :: "db \<Rightarrow> nat \<Rightarrow> UserOrganization list \<times> UserDepartment list" where
  "collectMemberships st userID = (ListUserOrganizations st userID, ListUserDepartments st userID)"

subsection \<open>Login\<close>

definition is_locked :: "time \<Rightarrow> User \<Rightarrow> bool" where
  \<comment> \<open>\<open>user.LockedUntil != nil && user.LockedUntil.After(time.Now())\<close>\<close>
  "is_locked now user = (case u_LockedUntil user of None \<Rightarrow> False | Some until \<Rightarrow> now < until)"

definition Login ::
  "AuthConfig \<Rightarrow> time \<Rightarrow> string \<Rightarrow> string \<Rightarrow> LoginRequest \<Rightarrow> db
    \<Rightarrow> (error + LoginResponse) \<times> db" where
  \<comment> \<open>\<open>jtiA\<close> and \<open>jtiR\<close> are the fresh token ids of the two tokens. Each of the two
      loops stops at the first membership of the requested unit: \<open>find\<close>.\<close>
  "Login cfg now jtiA jtiR req st =
     (case GetByEmailOrUsername st (req_Username req) of
        None \<Rightarrow> (Inl ErrInvalidCredentials, st)
      | Some user \<Rightarrow>
          if is_locked now user then (Inl ErrAccountLocked, st)
          else if \<not> u_IsActive user then (Inl ErrAccountInactive, st)
          else if \<not> CompareHashAndPassword (u_Password user) (req_Password req) then
            (let st1 = IncrementLoginAttempts (u_ID user) st;
                 st2 = (if cfg_MaxLoginAttempts cfg \<le> int_add (u_LoginAttempts user) 1
                        then LockAccount (u_ID user) (now + cfg_LockoutDuration cfg) st1
                        else st1)
             in (Inl ErrInvalidCredentials, st2))
          else
            (let (orgMemberships, deptMemberships) = collectMemberships st (u_ID user);
                 orgMember = find (\<lambda>m. uo_OrganizationID m = req_OrganizationID req) orgMemberships
             in if (case orgMember of
                      None \<Rightarrow> False
                    | Some member \<Rightarrow>
                        uo_Role member \<noteq> [] \<and> uo_Role member \<noteq> OrganizationRoleSystemAdmin)
                then (Inl (Errorf ''user does not have the required role in the organization''), st)
                else
                  let loggedOrganization =
                        (case orgMember of
                           None \<Rightarrow> None
                         | Some member \<Rightarrow> GetOrganizationByID st (uo_OrganizationID member));
                      loggedDepartment =
                        (case find (\<lambda>m. ud_DepartmentID m = req_DepartmentID req) deptMemberships of
                           None \<Rightarrow> None
                         | Some member \<Rightarrow> GetDepartmentByID st (ud_DepartmentID member))
                  in if loggedOrganization = None
                     then (Inl (Errorf ''organization not found or user not a member''), st)
                     else
                       (Inr \<lparr>resp_AccessToken =
                               generateAccessToken cfg now jtiA user orgMemberships deptMemberships,
                             resp_RefreshToken = generateRefreshToken cfg now jtiR user,
                             resp_ExpiresIn = Seconds (cfg_TokenExpiration cfg),
                             resp_TokenType = ''Bearer'',
                             resp_User = composeUserInfo user orgMemberships deptMemberships,
                             resp_LoggedOrganization = loggedOrganization,
                             resp_LoggedDepartment = loggedDepartment\<rparr>,
                        UpdateLastLogin now (u_ID user) st)))"

subsection \<open>RefreshToken\<close>

definition RefreshToken ::
  "AuthConfig \<Rightarrow> time \<Rightarrow> string \<Rightarrow> string \<Rightarrow> token_string \<Rightarrow> db \<Rightarrow> error + LoginResponse" where
  "RefreshToken cfg now jtiA jtiR refreshToken st =
     (case jwt_Parse (cfg_JWTSecret cfg) now refreshToken of
        None \<Rightarrow> Inl ErrInvalidToken
      | Some cl \<Rightarrow>
          (case map_of cl ''type'' of
             Some (JString tokenType) \<Rightarrow>
               if tokenType \<noteq> ''refresh'' then Inl ErrInvalidToken
               else (case map_of cl ''user_id'' of
                       Some (JString userIDStr) \<Rightarrow>
                         (case ParseUint64 userIDStr of
                            None \<Rightarrow> Inl ErrInvalidToken
                          | Some userID \<Rightarrow>
                              (case GetByID st userID of
                                 None \<Rightarrow> Inl ErrInvalidToken
                               | Some user \<Rightarrow>
                                   if \<not> u_IsActive user then Inl ErrInvalidToken
                                   else
                                     let (orgMemberships, deptMemberships) =
                                           collectMemberships st (u_ID user)
                                     in Inr \<lparr>resp_AccessToken =
                                               generateAccessToken cfg now jtiA user
                                                 orgMemberships deptMemberships,
                                             resp_RefreshToken =
                                               generateRefreshToken cfg now jtiR user,
                                             resp_ExpiresIn = Seconds (cfg_TokenExpiration cfg),
                                             resp_TokenType = ''Bearer'',
                                             resp_User =
                                               composeUserInfo user orgMemberships deptMemberships,
                                             resp_LoggedOrganization = None,
                                             resp_LoggedDepartment = None\<rparr>))
                     | _ \<Rightarrow> Inl ErrInvalidToken)
           | _ \<Rightarrow> Inl ErrInvalidToken))"

subsection \<open>The login handler\<close>

definition AuthenticationHandler_Login ::
  "AuthConfig \<Rightarrow> time \<Rightarrow> string \<Rightarrow> string \<Rightarrow> LoginRequest option \<Rightarrow> db
    \<Rightarrow> http_response \<times> db" where
  \<comment> \<open>The body is the decoded request, \<open>None\<close> when decoding fails; a field the JSON
      omits decodes to its zero value.\<close>
  "AuthenticationHandler_Login cfg now jtiA jtiR body st =
     (case body of
        None \<Rightarrow> (BadRequest ''Invalid request body'', st)
      | Some req \<Rightarrow>
          if req_Username req = [] \<or> req_Password req = []
            then (ValidationError ''Username and password are required'', st)
          else if req_OrganizationID req = 0 \<or> req_RoleID req = 0
            then (ValidationError ''Organization ID and Role ID are required'', st)
          else
            (case Login cfg now jtiA jtiR req st of
               (Inr response, st') \<Rightarrow> (StatusOK response, st')
             | (Inl err, st') \<Rightarrow>
                 (if err = ErrInvalidCredentials
                    then Unauthorized ''Invalid username or password''
                  else if err = ErrAccountLocked
                    then Forbidden ''Account is locked due to too many failed attempts''
                  else if err = ErrAccountInactive
                    then Forbidden ''Account is not active''
                  else Internal ''An error occurred during login'', st')))"

subsection \<open>BootstrapAdmin\<close>

definition createAdmin ::
  "AuthConfig \<Rightarrow> nat \<Rightarrow> BootstrapAdminInput \<Rightarrow> Organization \<Rightarrow> string \<Rightarrow> string \<Rightarrow> db
    \<Rightarrow> (error + User) \<times> db" where
  \<comment> \<open>The branch \<open>user == nil\<close> of BootstrapAdmin.\<close>
  "createAdmin cfg salt input org email username st =
     (case GenerateFromPassword salt (in_AdminPassword input) (cfg_BCryptCost cfg) of
        Inl err \<Rightarrow> (Inl (Wrap ''hash password'' err), st)
      | Inr hashedPassword \<Rightarrow>
          let firstName = (if TrimSpace (in_AdminFirstName input) = [] then ''System''
                           else TrimSpace (in_AdminFirstName input));
              lastName = (if TrimSpace (in_AdminLastName input) = [] then ''Administrator''
                          else TrimSpace (in_AdminLastName input))
          in (case Create
                     \<lparr>u_ID = 0, u_Email = email, u_Username = username,
                      u_Password = hashedPassword, u_FirstName = firstName,
                      u_LastName = lastName, u_IsActive = True, u_IsVerified = True,
                      u_IsSuperAdmin = True, u_PrimaryOrganizationID = Some (o_ID org),
                      u_PrimaryDepartmentID = None, u_LastLogin = None,
                      u_LoginAttempts = 0, u_LockedUntil = None,
                      u_MFAEnabled = False\<rparr> st of
                (Inl err, st') \<Rightarrow> (Inl (Wrap ''create admin user'' err), st')
              | (Inr user, st') \<Rightarrow> (Inr user, st')))"

definition updateAdmin ::
  "AuthConfig \<Rightarrow> nat \<Rightarrow> BootstrapAdminInput \<Rightarrow> Organization \<Rightarrow> string \<Rightarrow> User
    \<Rightarrow> UserAssociations \<Rightarrow> db \<Rightarrow> (error + User) \<times> db" where
  \<comment> \<open>The branch \<open>user != nil\<close> of BootstrapAdmin; \<open>user0\<close> is the account found and
      \<open>assoc\<close> what the query preloaded into it.\<close>
  "updateAdmin cfg salt input org username user0 assoc st =
     (let firstName = (if TrimSpace (in_AdminFirstName input) = [] then u_FirstName user0
                       else TrimSpace (in_AdminFirstName input));
          lastName = (if TrimSpace (in_AdminLastName input) = [] then u_LastName user0
                      else TrimSpace (in_AdminLastName input));
          user1 = user0\<lparr>u_Username := username, u_FirstName := firstName,
                        u_LastName := lastName, u_IsActive := True,
                        u_IsVerified := True, u_IsSuperAdmin := True,
                        u_PrimaryOrganizationID := Some (o_ID org)\<rparr>;
          needPasswordUpdate =
            (in_ForcePasswordReset input
             \<or> \<not> CompareHashAndPassword (u_Password user1) (in_AdminPassword input))
      in (case (if needPasswordUpdate
                then (case GenerateFromPassword salt (in_AdminPassword input)
                             (cfg_BCryptCost cfg) of
                        Inl err \<Rightarrow> Inl err
                      | Inr hashedPassword \<Rightarrow> Inr (user1\<lparr>u_Password := hashedPassword\<rparr>))
                else Inr user1) of
            Inl err \<Rightarrow> (Inl (Wrap ''hash password'' err), st)
          | Inr user2 \<Rightarrow>
              (case Update user2 assoc st of
                 (Inl err, st') \<Rightarrow> (Inl (Wrap ''update admin user'' err), st')
               | (Inr user3, st') \<Rightarrow> (Inr user3, st'))))"

text \<open>
  In both branches \<open>user.PrimaryOrganizationID\<close> is the pointer \<open>&org.ID\<close>: the user's
  field and the key of \<open>org\<close> are one memory cell. What Save writes into the field it
  writes into \<open>org.ID\<close>, and the statements after the branch, which read \<open>org.ID\<close>,
  read what the user's field holds.
\<close>

definition BootstrapAdmin ::
  "AuthConfig \<Rightarrow> nat \<Rightarrow> BootstrapAdminInput option \<Rightarrow> db
    \<Rightarrow> (error + Organization \<times> User) \<times> db" where
  \<comment> \<open>\<open>salt\<close> is the randomness of a password hash made in this call. A failure
      after the first write leaves the writes made so far.\<close>
  "BootstrapAdmin cfg salt input_opt st =
     (case input_opt of
        None \<Rightarrow> (Inl (Errorf ''bootstrap input is required''), st)
      | Some input \<Rightarrow>
     (case EnsureOrganization (in_OrganizationName input) (in_OrganizationDescription input)
             (in_OrganizationDomain input) st of
        (Inl err, st1) \<Rightarrow> (Inl (Wrap ''ensure organization'' err), st1)
      | (Inr org, st1) \<Rightarrow>
          let email = TrimSpace (in_AdminEmail input)
          in if email = [] then (Inl (Errorf ''bootstrap admin email is required''), st1)
          else
          let username = (if TrimSpace (in_AdminUsername input) = [] then email
                          else TrimSpace (in_AdminUsername input));
              minPasswordLength = (if cfg_PasswordMinLength cfg \<le> 0 then 8
                                   else cfg_PasswordMinLength cfg)
          in if int (length (in_AdminPassword input)) < minPasswordLength
             then (Inl (Errorf (''bootstrap admin password must be at least ''
                                 @ decimal (nat minPasswordLength) @ '' characters'')), st1)
          else
            (case (case GetByEmail st1 email of
                     None \<Rightarrow> createAdmin cfg salt input org email username st1
                   | Some user0 \<Rightarrow>
                       updateAdmin cfg salt input org username user0 (baseQuery st1 user0) st1) of
               (Inl err, st2) \<Rightarrow> (Inl err, st2)
             | (Inr user, st2) \<Rightarrow>
                 let org' = org\<lparr>o_ID := (case u_PrimaryOrganizationID user of
                                            None \<Rightarrow> o_ID org | Some orgID \<Rightarrow> orgID)\<rparr>
                 in (Inr (org', user),
                     SetUserPrimaryOrganization (u_ID user) (o_ID org')
                       (UpsertUserOrganization (u_ID user) (o_ID org')
                          OrganizationRoleSystemAdmin True st2)))))"

section \<open>OrganizationService\<close>

definition AssignUserToOrganization ::
  "AssignUserOrganizationInput option \<Rightarrow> db \<Rightarrow> (error + UserOrganization option) \<times> db" where
  "AssignUserToOrganization input_opt st =
     (case input_opt of
        None \<Rightarrow> (Inl (Errorf ''input required''), st)
      | Some input \<Rightarrow>
          if auo_UserID input = 0 then (Inl (Errorf ''user_id is required''), st)
          else if auo_OrganizationID input = 0
            then (Inl (Errorf ''organization_id is required''), st)
          else if GetByID st (auo_UserID input) = None then (Inl ErrUserNotFound, st)
          else if GetOrganizationByID st (auo_OrganizationID input) = None
            then (Inl ErrOrganizationNotFound, st)
          else
            let st1 = (if auo_IsPrimary input then ClearPrimaryOrganization (auo_UserID input) st
                       else st);
                st2 = UpsertUserOrganization (auo_UserID input) (auo_OrganizationID input)
                        (auo_Role input) (auo_IsPrimary input) st1;
                st3 = (if auo_IsPrimary input
                       then SetUserPrimaryOrganization (auo_UserID input)
                              (auo_OrganizationID input) st2
                       else st2)
            in (Inr (GetUserOrganization st3 (auo_UserID input) (auo_OrganizationID input)), st3))"

definition AssignUserToDepartment ::
  "AssignUserDepartmentInput option \<Rightarrow> db \<Rightarrow> (error + UserDepartment option) \<times> db" where
  "AssignUserToDepartment input_opt st =
     (case input_opt of
        None \<Rightarrow> (Inl (Errorf ''input required''), st)
      | Some input \<Rightarrow>
          (case aud_UserID input of
             None \<Rightarrow> (Inl (Errorf ''user_id is required''), st)
           | Some userID \<Rightarrow>
               (case aud_DepartmentID input of
                  None \<Rightarrow> (Inl (Errorf ''department_id is required''), st)
                | Some deptID \<Rightarrow>
                    if GetByID st userID = None then (Inl ErrUserNotFound, st)
                    else if GetDepartmentByID st deptID = None
                      then (Inl ErrDepartmentNotFound, st)
                    else
                      let st1 = (if aud_IsPrimary input then ClearPrimaryDepartment userID st
                                 else st);
                          st2 = UpsertUserDepartment userID deptID (aud_Role input)
                                  (aud_IsPrimary input) st1;
                          st3 = (if aud_IsPrimary input
                                 then SetUserPrimaryDepartment userID deptID st2 else st2)
                      in (Inr (GetUserDepartment st3 userID deptID), st3))))"

section \<open>Observations used by the properties\<close>

definition primary_organizations :: "db \<Rightarrow> nat \<Rightarrow> UserOrganization list" where
  \<comment> \<open>The organization memberships of a user that are marked primary.\<close>
  "primary_organizations st userID =
     filter (\<lambda>m. uo_UserID m = userID \<and> uo_IsPrimary m) (user_organizations st)"

definition primary_departments :: "db \<Rightarrow> nat \<Rightarrow> UserDepartment list" where
  "primary_departments st userID =
     filter (\<lambda>m. ud_UserID m = userID \<and> ud_IsPrimary m) (user_departments st)"

definition logged_department :: "db \<Rightarrow> nat \<Rightarrow> nat \<Rightarrow> Department option" where
  \<comment> \<open>The department Login reports: that of the user's membership in the requested
      department, when there is one.\<close>
  "logged_department st userID deptID =
     (case GetUserDepartment st userID deptID of
        None \<Rightarrow> None | Some member \<Rightarrow> GetDepartmentByID st deptID)"

subsection \<open>A bootstrapped system, for the concrete runs\<close>

definition ex_cfg :: AuthConfig where
  \<comment> \<open>The defaults of \<open>config.AuthConfig\<close>: 15 minutes, 7 days, 8, 5, 15 minutes, 10.\<close>
  "ex_cfg = \<lparr>cfg_ServiceName = ''authentication'', cfg_JWTSecret = ''s3cret'',
             cfg_TokenExpiration = 900000000000, cfg_RefreshExpiration = 604800000000000,
             cfg_PasswordMinLength = 8, cfg_MaxLoginAttempts = 5,
             cfg_LockoutDuration = 900000000000, cfg_BCryptCost = 10\<rparr>"

definition ex_org :: Organization where
  "ex_org = \<lparr>o_ID = 1, o_Name = ''Root Organization'',
             o_Description = ''System root organization'', o_Domain = ''root.local'',
             o_IsActive = True, o_ParentID = None\<rparr>"

definition ex_dept :: Department where
  "ex_dept = \<lparr>d_ID = 1, d_OrganizationID = 1, d_Code = None, d_Name = ''Sales'',
              d_Kind = ''DEPARTMENT'', d_Description = [], d_Function = [],
              d_IsActive = True, d_ParentID = None\<rparr>"

definition ex_user :: User where
  "ex_user = \<lparr>u_ID = 1, u_Email = ''admin@root.local'', u_Username = ''root-admin'',
              u_Password = BCrypt 10 7 ''ChangeMe123!'', u_FirstName = ''System'',
              u_LastName = ''Administrator'', u_IsActive = True, u_IsVerified = True,
              u_IsSuperAdmin = True, u_PrimaryOrganizationID = Some 1,
              u_PrimaryDepartmentID = None, u_LastLogin = None, u_LoginAttempts = 0,
              u_LockedUntil = None, u_MFAEnabled = False\<rparr>"

definition ex_db :: "User \<Rightarrow> string \<Rightarrow> db" where
  \<comment> \<open>One organization, one department, the given account, and its membership of
      the organization under the given role and of the department.\<close>
  "ex_db user role =
     \<lparr>users = [user], organizations = [ex_org], departments = [ex_dept],
      user_organizations =
        [\<lparr>uo_UserID = u_ID user, uo_OrganizationID = 1, uo_Role = role,
          uo_IsPrimary = True, uo_Organization = None\<rparr>],
      user_departments =
        [\<lparr>ud_UserID = u_ID user, ud_DepartmentID = 1, ud_Role = [],
          ud_IsPrimary = True, ud_Department = None\<rparr>]\<rparr>"

definition ex_req :: "string \<Rightarrow> LoginRequest" where
  "ex_req password =
     \<lparr>req_Username = ''root-admin'', req_Password = password, req_OrganizationID = 1,
      req_DepartmentID = 0, req_RoleID = 1\<rparr>"

definition ex_token :: "string \<Rightarrow> token_string" where
  \<comment> \<open>A token of the given type, signed with the configured secret, valid from second
      1 to second 901, whose \<open>user_id\<close> is the string the two parsers expect.\<close>
  "ex_token tokenType =
     SignedString ''s3cret''
       [(''exp'', JNumber 901), (''nbf'', JNumber 1), (''type'', JString tokenType),
        (''user_id'', JString ''1'')]"

definition empty_db :: db where
  "empty_db = \<lparr>users = [], organizations = [], departments = [], user_organizations = [],
               user_departments = []\<rparr>"

definition ex_input :: BootstrapAdminInput where
  \<comment> \<open>The bootstrap defaults of \<open>config.applyBootstrapDefaults\<close>.\<close>
  "ex_input =
     \<lparr>in_OrganizationName = ''Root Organization'',
      in_OrganizationDescription = ''System root organization'',
      in_OrganizationDomain = ''root.local'', in_AdminEmail = ''admin@root.local'',
      in_AdminUsername = ''root-admin'', in_AdminPassword = ''ChangeMe123!'',
      in_AdminFirstName = ''System'', in_AdminLastName = ''Administrator'',
      in_ForcePasswordReset = False\<rparr>"

subsection \<open>Predicates of the provisioning proofs\<close>

text \<open>
  What a successful \<open>EnsureOrganization\<close> and a successful \<open>BootstrapAdmin\<close> leave
  behind, stated on the store: the organization the lookups of \<open>EnsureOrganization\<close>
  find, already healed; the administrator account the lookup by email finds, already
  carrying the profile, the flags and a hash of the password, and pointing at an
  organization \<open>orgID\<close> of the store; and its administrator membership of \<open>orgID\<close>.
  \<open>org_update\<close> is the row update of \<open>updateOrganizationDefaults\<close>.
\<close>

definition ensured :: "string \<Rightarrow> string \<Rightarrow> string \<Rightarrow> db \<Rightarrow> Organization \<Rightarrow> bool" where
  "ensured name description domain st org \<longleftrightarrow>
     TrimSpace name \<noteq> []
     \<and> distinct (map o_ID (organizations st))
     \<and> o_IsActive org
     \<and> (if TrimSpace domain \<noteq> []
        then find (\<lambda>r. o_Domain r = TrimSpace domain) (organizations st) = Some org
        else find (\<lambda>r. o_Name r = TrimSpace name) (organizations st) = Some org)
     \<and> (TrimSpace description = [] \<or> o_Description org = TrimSpace description
        \<or> o_Description org = description)"

definition org_update :: "Organization \<Rightarrow> string \<Rightarrow> string \<Rightarrow> bool \<Rightarrow> Organization \<Rightarrow> Organization" where
  "org_update org description domain isActive r =
     r\<lparr>o_IsActive := isActive,
       o_Description :=
         (if TrimSpace description \<noteq> [] \<and> o_Description org \<noteq> description
          then TrimSpace description else o_Description r),
       o_Domain :=
         (if TrimSpace domain \<noteq> [] \<and> o_Domain org \<noteq> TrimSpace domain
          then TrimSpace domain else o_Domain r)\<rparr>"

definition org_updates :: "Organization \<Rightarrow> string \<Rightarrow> string \<Rightarrow> bool \<Rightarrow> Organization list \<Rightarrow> Organization list" where
  "org_updates org description domain isActive rows =
     map (\<lambda>r. if o_ID r = o_ID org then org_update org description domain isActive r else r) rows"

definition admin_email :: "BootstrapAdminInput \<Rightarrow> string" where
  "admin_email input = TrimSpace (in_AdminEmail input)"

definition admin_username :: "BootstrapAdminInput \<Rightarrow> string" where
  "admin_username input =
     (if TrimSpace (in_AdminUsername input) = [] then admin_email input
      else TrimSpace (in_AdminUsername input))"

definition admin_account :: "BootstrapAdminInput \<Rightarrow> nat \<Rightarrow> db \<Rightarrow> User \<Rightarrow> bool" where
  "admin_account input orgID st user \<longleftrightarrow>
     GetByEmail st (admin_email input) = Some user
     \<and> u_Username user = admin_username input
     \<and> (TrimSpace (in_AdminFirstName input) = []
        \<or> u_FirstName user = TrimSpace (in_AdminFirstName input))
     \<and> (TrimSpace (in_AdminLastName input) = []
        \<or> u_LastName user = TrimSpace (in_AdminLastName input))
     \<and> u_IsActive user \<and> u_IsVerified user \<and> u_IsSuperAdmin user
     \<and> u_PrimaryOrganizationID user = Some orgID
     \<and> find (\<lambda>r. o_ID r = orgID) (organizations st) \<noteq> None
     \<and> CompareHashAndPassword (u_Password user) (in_AdminPassword input)
     \<and> \<not> list_ex (\<lambda>u. u_ID u \<noteq> u_ID user \<and> u_Email u = admin_email input) (users st)
     \<and> \<not> list_ex (\<lambda>u. u_ID u \<noteq> u_ID user \<and> u_Username u = admin_username input) (users st)
     \<and> list_all (\<lambda>u. u_ID u = u_ID user \<longrightarrow> u = user) (users st)"

definition admin_membership :: "nat \<Rightarrow> db \<Rightarrow> User \<Rightarrow> bool" where
  "admin_membership orgID st user \<longleftrightarrow>
     list_ex (\<lambda>m. uo_UserID m = u_ID user \<and> uo_OrganizationID m = orgID)
       (user_organizations st)
     \<and> list_all (\<lambda>m. uo_UserID m = u_ID user \<and> uo_OrganizationID m = orgID \<longrightarrow>
                     uo_Role m = OrganizationRoleSystemAdmin \<and> uo_IsPrimary m)
         (user_organizations st)"

definition ex_bootstrapped :: db where
  \<comment> \<open>The store after the first bootstrap of an empty store with the defaults.\<close>
  "ex_bootstrapped =
     \<lparr>users = [ex_user], organizations = [ex_org], departments = [],
      user_organizations =
        [\<lparr>uo_UserID = 1, uo_OrganizationID = 1, uo_Role = ''SYSTEM_ADMIN'',
          uo_IsPrimary = True, uo_Organization = None\<rparr>],
      user_departments = []\<rparr>"

definition ex_input2 :: BootstrapAdminInput where
  \<comment> \<open>The defaults with the organization renamed, as the bootstrap utility's
      \<open>--org-name\<close> and \<open>--org-domain\<close> flags do.\<close>
  "ex_input2 = ex_input\<lparr>in_OrganizationName := ''Second Organization'',
                          in_OrganizationDomain := ''second.local''\<rparr>"

subsection \<open>Membership keys, and a reassigned administrator\<close>

definition organization_keys :: "db \<Rightarrow> (nat \<times> nat) list" where
  \<comment> \<open>The composite primary key of \<open>user_organizations\<close>, row by row.\<close>
  "organization_keys st = map (\<lambda>m. (uo_UserID m, uo_OrganizationID m)) (user_organizations st)"

definition department_keys :: "db \<Rightarrow> (nat \<times> nat) list" where
  "department_keys st = map (\<lambda>m. (ud_UserID m, ud_DepartmentID m)) (user_departments st)"

definition ex_reassigned :: db where
  \<comment> \<open>The bootstrapped store after a second organization was provisioned and the
      administrator was assigned to it as primary through the organization service.\<close>
  "ex_reassigned =
     snd (AssignUserToOrganization
            (Some \<lparr>auo_UserID = 1, auo_OrganizationID = 2, auo_Role = ''MANAGER'',
                   auo_IsPrimary = True\<rparr>)
            (snd (EnsureOrganization ''Branch'' [] ''branch.local'' ex_bootstrapped)))"

definition ex_interrupted :: db where
  \<comment> \<open>The same assignment cut short: the store after its first two statements, the
      flags cleared and the membership of organization 2 written as primary. The third
      statement, which points the account at organization 2, has not run; the three
      are separate statements, in no transaction.\<close>
  "ex_interrupted =
     UpsertUserOrganization 1 2 ''MANAGER'' True
       (ClearPrimaryOrganization 1
          (snd (EnsureOrganization ''Branch'' [] ''branch.local'' ex_bootstrapped)))"

definition ex_org2 :: Organization where
  "ex_org2 = \<lparr>o_ID = 2, o_Name = ''Second Organization'',
              o_Description = ''System root organization'', o_Domain = ''second.local'',
              o_IsActive = True, o_ParentID = None\<rparr>"

definition ex_rotated :: db where
  \<comment> \<open>The bootstrapped store with the second organization beside the first.\<close>
  "ex_rotated = ex_bootstrapped\<lparr>organizations := [ex_org, ex_org2]\<rparr>"

section \<open>Lemmas about the store\<close>

lemmas ex_defs = ex_db_def ex_user_def ex_org_def ex_dept_def ex_req_def ex_cfg_def
  ex_token_def OrganizationRoleSystemAdmin_def

lemmas query_defs = GetByEmailOrUsername_def GetByID_def GetByEmail_def
  GetUserOrganization_def GetUserDepartment_def GetOrganizationByID_def GetDepartmentByID_def
  preload_Organization_def preload_Department_def logged_department_def is_locked_def

lemma find_map_update:
  assumes "find P xs = Some x" and "\<And>y. P (g y) = P y"
  shows "find P (map g xs) = Some (g x)"
  using assms by (induction xs) (auto split: if_splits)

lemma find_filter_conj: "find P (filter Q xs) = find (\<lambda>x. Q x \<and> P x) xs"
  by (induction xs) auto

lemma find_map_comp: "find P (map f xs) = map_option f (find (P \<circ> f) xs)"
  by (induction xs) auto

lemma find_SomeD: "find P xs = Some x \<Longrightarrow> P x"
  by (induction xs) (auto split: if_splits)

lemma int_add_no_wrap:
  "- (2 ^ 63) \<le> a + b \<Longrightarrow> a + b < 2 ^ 63 \<Longrightarrow> int_add a b = a + b"
  unfolding int_add_def by (simp add: mod_pos_pos_trivial)

lemma users_update_users [simp]:
  "users (update_users uid f st) = map (\<lambda>u. if u_ID u = uid then f u else u) (users st)"
  by (simp add: update_users_def)

lemma update_users_twice:
  assumes "\<And>u. u_ID (g u) = u_ID u"
  shows "update_users uid f (update_users uid g st) = update_users uid (f \<circ> g) st"
  using assms by (simp add: update_users_def comp_def cong: if_cong)

lemma GetByEmailOrUsername_update_users:
  assumes "GetByEmailOrUsername st ident = Some user"
      and "\<And>u. u_Email (f u) = u_Email u" "\<And>u. u_Username (f u) = u_Username u"
  shows "GetByEmailOrUsername (update_users (u_ID user) f st) ident = Some (f user)"
proof -
  let ?g = "\<lambda>u. if u_ID u = u_ID user then f u else u"
  have "find (\<lambda>u. u_Email u = ident \<or> u_Username u = ident) (map ?g (users st)) = Some (?g user)"
    by (rule find_map_update) (use assms in \<open>auto simp: GetByEmailOrUsername_def\<close>)
  then show ?thesis by (simp add: GetByEmailOrUsername_def)
qed

lemma find_ListUserOrganizations:
  "find (\<lambda>m. uo_OrganizationID m = orgID) (ListUserOrganizations st userID)
     = GetUserOrganization st userID orgID"
  by (simp add: ListUserOrganizations_def GetUserOrganization_def find_map_comp
        find_filter_conj comp_def preload_Organization_def)

lemma find_ListUserDepartments:
  "find (\<lambda>m. ud_DepartmentID m = deptID) (ListUserDepartments st userID)
     = GetUserDepartment st userID deptID"
  by (simp add: ListUserDepartments_def GetUserDepartment_def find_map_comp
        find_filter_conj comp_def preload_Department_def)

lemma GetUserOrganization_key:
  "GetUserOrganization st userID orgID = Some m \<Longrightarrow> uo_OrganizationID m = orgID"
  by (auto simp: GetUserOrganization_def preload_Organization_def dest!: find_SomeD)

lemma GetUserDepartment_key:
  "GetUserDepartment st userID deptID = Some m \<Longrightarrow> ud_DepartmentID m = deptID"
  by (auto simp: GetUserDepartment_def preload_Department_def dest!: find_SomeD)

section \<open>Login: the paths through the function\<close>

lemma Login_wrong_password:
  assumes "GetByEmailOrUsername st (req_Username req) = Some user"
      and "\<not> is_locked now user" and "u_IsActive user"
      and "\<not> CompareHashAndPassword (u_Password user) (req_Password req)"
  shows "Login cfg now jtiA jtiR req st =
           (Inl ErrInvalidCredentials,
            if cfg_MaxLoginAttempts cfg \<le> int_add (u_LoginAttempts user) 1
            then LockAccount (u_ID user) (now + cfg_LockoutDuration cfg)
                   (IncrementLoginAttempts (u_ID user) st)
            else IncrementLoginAttempts (u_ID user) st)"
  using assms by (simp add: Login_def Let_def)

lemma Login_password_ok:
  assumes "GetByEmailOrUsername st (req_Username req) = Some user"
      and "\<not> is_locked now user" and "u_IsActive user"
      and "CompareHashAndPassword (u_Password user) (req_Password req)"
  shows "Login cfg now jtiA jtiR req st =
     (case GetUserOrganization st (u_ID user) (req_OrganizationID req) of
        None \<Rightarrow> (Inl (Errorf ''organization not found or user not a member''), st)
      | Some member \<Rightarrow>
          if uo_Role member \<noteq> [] \<and> uo_Role member \<noteq> OrganizationRoleSystemAdmin
          then (Inl (Errorf ''user does not have the required role in the organization''), st)
          else (case GetOrganizationByID st (req_OrganizationID req) of
                  None \<Rightarrow> (Inl (Errorf ''organization not found or user not a member''), st)
                | Some org \<Rightarrow>
                   (Inr \<lparr>resp_AccessToken =
                           generateAccessToken cfg now jtiA user
                             (ListUserOrganizations st (u_ID user))
                             (ListUserDepartments st (u_ID user)),
                         resp_RefreshToken = generateRefreshToken cfg now jtiR user,
                         resp_ExpiresIn = Seconds (cfg_TokenExpiration cfg),
                         resp_TokenType = ''Bearer'',
                         resp_User = composeUserInfo user
                             (ListUserOrganizations st (u_ID user))
                             (ListUserDepartments st (u_ID user)),
                         resp_LoggedOrganization = Some org,
                         resp_LoggedDepartment =
                           logged_department st (u_ID user) (req_DepartmentID req)\<rparr>,
                    UpdateLastLogin now (u_ID user) st)))"
  using assms
  by (auto simp: Login_def Let_def collectMemberships_def find_ListUserOrganizations
        find_ListUserDepartments logged_department_def
        dest: GetUserOrganization_key GetUserDepartment_key
        split: option.splits)

lemma Login_success:
  assumes found: "GetByEmailOrUsername st (req_Username req) = Some user"
      and unlocked: "\<not> is_locked now user"
      and active: "u_IsActive user"
      and password: "CompareHashAndPassword (u_Password user) (req_Password req)"
      and member: "GetUserOrganization st (u_ID user) (req_OrganizationID req) = Some member"
      and role: "uo_Role member = [] \<or> uo_Role member = OrganizationRoleSystemAdmin"
      and org: "GetOrganizationByID st (req_OrganizationID req) = Some org"
  shows "\<exists>resp. Login cfg now jtiA jtiR req st = (Inr resp, UpdateLastLogin now (u_ID user) st)
           \<and> resp_LoggedOrganization resp = Some org
           \<and> resp_LoggedDepartment resp = logged_department st (u_ID user) (req_DepartmentID req)
           \<and> resp_TokenType resp = ''Bearer''"
  using member role org by (auto simp: Login_password_ok [OF found unlocked active password])

section \<open>Lockout policy\<close>

text \<open>
  C6. When the account found for the login has \<open>locked_until\<close> set to an instant after
  the current time, Login fails with \<open>ErrAccountLocked\<close> and returns the store as it
  was: no attempt is counted and \<open>locked_until\<close> keeps its value.
\<close>

theorem Login_locked_account_unchanged:
  assumes "GetByEmailOrUsername st (req_Username req) = Some user"
      and "u_LockedUntil user = Some until"
      and "now < until"
  shows "Login cfg now jtiA jtiR req st = (Inl ErrAccountLocked, st)"
  using assms by (simp add: Login_def is_locked_def)

theorem Login_locked_account_unchanged_witness:
  "GetByEmailOrUsername (ex_db (ex_user\<lparr>u_LoginAttempts := 5, u_LockedUntil := Some 2000\<rparr>) [])
       (req_Username (ex_req ''ChangeMe123!''))
     = Some (ex_user\<lparr>u_LoginAttempts := 5, u_LockedUntil := Some 2000\<rparr>)
   \<and> u_LockedUntil (ex_user\<lparr>u_LoginAttempts := 5, u_LockedUntil := Some 2000\<rparr>) = Some 2000
   \<and> (1000 :: int) < 2000
   \<and> Login ex_cfg 1000 ''a'' ''r'' (ex_req ''ChangeMe123!'')
        (ex_db (ex_user\<lparr>u_LoginAttempts := 5, u_LockedUntil := Some 2000\<rparr>) [])
      = (Inl ErrAccountLocked,
         ex_db (ex_user\<lparr>u_LoginAttempts := 5, u_LockedUntil := Some 2000\<rparr>) [])"
proof -
  let ?u = "ex_user\<lparr>u_LoginAttempts := 5, u_LockedUntil := Some 2000\<rparr>"
  have h1: "GetByEmailOrUsername (ex_db ?u []) (req_Username (ex_req ''ChangeMe123!'')) = Some ?u"
    by (simp add: GetByEmailOrUsername_def ex_db_def ex_req_def ex_user_def)
  have h2: "u_LockedUntil ?u = Some 2000" by simp
  have h3: "(1000 :: int) < 2000" by simp
  from Login_locked_account_unchanged [OF h1 h2 h3] h1 h2 h3 show ?thesis by simp
qed

text \<open>
  C5. For an account that is not locked (and active, so that the password is checked),
  a failed password check adds one to the attempt counter, and \<open>locked_until\<close> is set
  to \<open>now + LockoutDuration\<close> exactly when the counter after this failure has reached
  \<open>MaxLoginAttempts\<close>; otherwise \<open>locked_until\<close> keeps its value. The counter is a
  non-negative Go \<open>int\<close> below the largest one, so that the program's \<open>+ 1\<close> does not
  wrap. With the threshold 5 and four failures counted, the fifth failure locks.
\<close>

theorem Login_failed_attempt_locks_at_threshold:
  assumes found: "GetByEmailOrUsername st (req_Username req) = Some user"
      and unlocked: "\<not> is_locked now user"
      and active: "u_IsActive user"
      and wrong: "\<not> CompareHashAndPassword (u_Password user) (req_Password req)"
      and counter: "0 \<le> u_LoginAttempts user" "u_LoginAttempts user < MaxInt64"
  shows "\<exists>st'. Login cfg now jtiA jtiR req st = (Inl ErrInvalidCredentials, st') \<and>
           GetByEmailOrUsername st' (req_Username req) =
             Some (user\<lparr>u_LoginAttempts := u_LoginAttempts user + 1,
                        u_LockedUntil :=
                          (if cfg_MaxLoginAttempts cfg \<le> u_LoginAttempts user + 1
                           then Some (now + cfg_LockoutDuration cfg)
                           else u_LockedUntil user)\<rparr>)"
proof -
  have add: "int_add (u_LoginAttempts user) 1 = u_LoginAttempts user + 1"
    using counter by (intro int_add_no_wrap) (simp_all add: MaxInt64_def)
  let ?inc = "\<lambda>u. if u_LoginAttempts u < MaxInt64
                   then u\<lparr>u_LoginAttempts := u_LoginAttempts u + 1\<rparr> else u"
  let ?lock = "\<lambda>u. u\<lparr>u_LockedUntil := Some (now + cfg_LockoutDuration cfg)\<rparr>"
  show ?thesis
  proof (cases "cfg_MaxLoginAttempts cfg \<le> u_LoginAttempts user + 1")
    case True
    have st: "LockAccount (u_ID user) (now + cfg_LockoutDuration cfg)
                (IncrementLoginAttempts (u_ID user) st)
              = update_users (u_ID user) (?lock \<circ> ?inc) st"
      unfolding LockAccount_def IncrementLoginAttempts_def
      by (rule update_users_twice) simp
    have "GetByEmailOrUsername (update_users (u_ID user) (?lock \<circ> ?inc) st) (req_Username req)
            = Some ((?lock \<circ> ?inc) user)"
      by (rule GetByEmailOrUsername_update_users [OF found]) simp_all
    with True add st counter show ?thesis
      by (simp add: Login_wrong_password [OF found unlocked active wrong])
  next
    case False
    have "GetByEmailOrUsername (update_users (u_ID user) ?inc st) (req_Username req)
            = Some (?inc user)"
      by (rule GetByEmailOrUsername_update_users [OF found]) simp_all
    with False add counter show ?thesis
      by (simp add: Login_wrong_password [OF found unlocked active wrong]
            IncrementLoginAttempts_def)
  qed
qed

theorem Login_failed_attempt_locks_at_threshold_witness:
  "GetByEmailOrUsername (ex_db (ex_user\<lparr>u_LoginAttempts := 4\<rparr>) []) (req_Username (ex_req ''wrong''))
     = Some (ex_user\<lparr>u_LoginAttempts := 4\<rparr>)
   \<and> \<not> is_locked 1000 (ex_user\<lparr>u_LoginAttempts := 4\<rparr>)
   \<and> u_IsActive (ex_user\<lparr>u_LoginAttempts := 4\<rparr>)
   \<and> \<not> CompareHashAndPassword (u_Password (ex_user\<lparr>u_LoginAttempts := 4\<rparr>))
          (req_Password (ex_req ''wrong''))
   \<and> 0 \<le> u_LoginAttempts (ex_user\<lparr>u_LoginAttempts := 4\<rparr>)
   \<and> u_LoginAttempts (ex_user\<lparr>u_LoginAttempts := 4\<rparr>) < MaxInt64
   \<and> cfg_MaxLoginAttempts ex_cfg = 5
   \<and> fst (Login ex_cfg 1000 ''a'' ''r'' (ex_req ''wrong'')
            (ex_db (ex_user\<lparr>u_LoginAttempts := 4\<rparr>) [])) = Inl ErrInvalidCredentials
   \<and> GetByEmailOrUsername
        (snd (Login ex_cfg 1000 ''a'' ''r'' (ex_req ''wrong'')
               (ex_db (ex_user\<lparr>u_LoginAttempts := 4\<rparr>) [])))
        ''root-admin''
      = Some (ex_user\<lparr>u_LoginAttempts := 5, u_LockedUntil := Some 900000001000\<rparr>)"
proof -
  let ?u = "ex_user\<lparr>u_LoginAttempts := 4\<rparr>"
  have h1: "GetByEmailOrUsername (ex_db ?u []) (req_Username (ex_req ''wrong'')) = Some ?u"
    by (simp add: GetByEmailOrUsername_def ex_db_def ex_req_def ex_user_def)
  have h2: "\<not> is_locked 1000 ?u" by (simp add: is_locked_def ex_user_def)
  have h3: "u_IsActive ?u" by (simp add: ex_user_def)
  have h4: "\<not> CompareHashAndPassword (u_Password ?u) (req_Password (ex_req ''wrong''))"
    by (simp add: ex_user_def ex_req_def)
  have h5: "0 \<le> u_LoginAttempts ?u" by simp
  have h6: "u_LoginAttempts ?u < MaxInt64" by (simp add: MaxInt64_def)
  have name: "req_Username (ex_req ''wrong'') = ''root-admin''" by (simp add: ex_req_def)
  from Login_failed_attempt_locks_at_threshold [OF h1 h2 h3 h4 h5 h6, of ex_cfg "''a''" "''r''"]
  obtain st' where
    run: "Login ex_cfg 1000 ''a'' ''r'' (ex_req ''wrong'') (ex_db ?u []) = (Inl ErrInvalidCredentials, st')"
    and after: "GetByEmailOrUsername st' ''root-admin''
      = Some (?u\<lparr>u_LoginAttempts := u_LoginAttempts ?u + 1,
                 u_LockedUntil := (if cfg_MaxLoginAttempts ex_cfg \<le> u_LoginAttempts ?u + 1
                                   then Some (1000 + cfg_LockoutDuration ex_cfg)
                                   else u_LockedUntil ?u)\<rparr>)"
    unfolding name by blast
  have cfg: "cfg_MaxLoginAttempts ex_cfg = 5" "cfg_LockoutDuration ex_cfg = 900000000000"
    by (simp_all add: ex_cfg_def)
  from after have "GetByEmailOrUsername st' ''root-admin''
      = Some (ex_user\<lparr>u_LoginAttempts := 5, u_LockedUntil := Some 900000001000\<rparr>)"
    by (simp add: cfg)
  with run h1 h2 h3 h4 h5 h6 cfg show ?thesis by simp
qed

text \<open>
  C2 (as amended). A login that succeeds (the account is found, not locked, which
  includes a \<open>locked_until\<close> that has passed, active, the password verifies, and the
  membership in the requested organization passes the organization-scoped check) leaves
  the account with \<open>login_attempts = 0\<close> and \<open>last_login = now\<close>; every other column,
  \<open>locked_until\<close> among them, keeps the value it had.
\<close>

theorem Login_success_resets_attempts:
  assumes found: "GetByEmailOrUsername st (req_Username req) = Some user"
      and unlocked: "\<not> is_locked now user"
      and active: "u_IsActive user"
      and password: "CompareHashAndPassword (u_Password user) (req_Password req)"
      and member: "GetUserOrganization st (u_ID user) (req_OrganizationID req) = Some member"
      and role: "uo_Role member = [] \<or> uo_Role member = OrganizationRoleSystemAdmin"
      and org: "GetOrganizationByID st (req_OrganizationID req) = Some org"
  shows "\<exists>resp st'. Login cfg now jtiA jtiR req st = (Inr resp, st') \<and>
           GetByEmailOrUsername st' (req_Username req) =
             Some (user\<lparr>u_LastLogin := Some now, u_LoginAttempts := 0\<rparr>)"
proof -
  from Login_success [OF assms] obtain resp where
    run: "Login cfg now jtiA jtiR req st = (Inr resp, UpdateLastLogin now (u_ID user) st)"
    by blast
  have "GetByEmailOrUsername (UpdateLastLogin now (u_ID user) st) (req_Username req)
          = Some (user\<lparr>u_LastLogin := Some now, u_LoginAttempts := 0\<rparr>)"
    unfolding UpdateLastLogin_def
    by (rule GetByEmailOrUsername_update_users [OF found]) simp_all
  with run show ?thesis by blast
qed

theorem Login_success_resets_attempts_witness:
  "GetByEmailOrUsername
      (ex_db (ex_user\<lparr>u_LoginAttempts := 5, u_LockedUntil := Some 500\<rparr>) ''SYSTEM_ADMIN'')
      (req_Username (ex_req ''ChangeMe123!''))
     = Some (ex_user\<lparr>u_LoginAttempts := 5, u_LockedUntil := Some 500\<rparr>)
   \<and> \<not> is_locked 1000 (ex_user\<lparr>u_LoginAttempts := 5, u_LockedUntil := Some 500\<rparr>)
   \<and> u_IsActive (ex_user\<lparr>u_LoginAttempts := 5, u_LockedUntil := Some 500\<rparr>)
   \<and> CompareHashAndPassword
        (u_Password (ex_user\<lparr>u_LoginAttempts := 5, u_LockedUntil := Some 500\<rparr>))
        (req_Password (ex_req ''ChangeMe123!''))
   \<and> GetUserOrganization
        (ex_db (ex_user\<lparr>u_LoginAttempts := 5, u_LockedUntil := Some 500\<rparr>) ''SYSTEM_ADMIN'')
        (u_ID (ex_user\<lparr>u_LoginAttempts := 5, u_LockedUntil := Some 500\<rparr>))
        (req_OrganizationID (ex_req ''ChangeMe123!''))
       = Some \<lparr>uo_UserID = 1, uo_OrganizationID = 1, uo_Role = ''SYSTEM_ADMIN'',
               uo_IsPrimary = True, uo_Organization = Some ex_org\<rparr>
   \<and> GetOrganizationByID
        (ex_db (ex_user\<lparr>u_LoginAttempts := 5, u_LockedUntil := Some 500\<rparr>) ''SYSTEM_ADMIN'')
        (req_OrganizationID (ex_req ''ChangeMe123!'')) = Some ex_org
   \<and> \<not> isl (fst (Login ex_cfg 1000 ''a'' ''r'' (ex_req ''ChangeMe123!'')
        (ex_db (ex_user\<lparr>u_LoginAttempts := 5, u_LockedUntil := Some 500\<rparr>) ''SYSTEM_ADMIN'')))
   \<and> GetByEmailOrUsername
        (snd (Login ex_cfg 1000 ''a'' ''r'' (ex_req ''ChangeMe123!'')
           (ex_db (ex_user\<lparr>u_LoginAttempts := 5, u_LockedUntil := Some 500\<rparr>) ''SYSTEM_ADMIN'')))
        ''root-admin''
       = Some (ex_user\<lparr>u_LastLogin := Some 1000, u_LoginAttempts := 0,
                       u_LockedUntil := Some 500\<rparr>)"
proof -
  let ?u = "ex_user\<lparr>u_LoginAttempts := 5, u_LockedUntil := Some 500\<rparr>"
  let ?req = "ex_req ''ChangeMe123!''"
  let ?m = "\<lparr>uo_UserID = 1, uo_OrganizationID = 1, uo_Role = ''SYSTEM_ADMIN'',
             uo_IsPrimary = True, uo_Organization = Some ex_org\<rparr>"
  have found: "GetByEmailOrUsername (ex_db ?u ''SYSTEM_ADMIN'') (req_Username ?req) = Some ?u"
    by (simp add: ex_defs query_defs)
  have unlocked: "\<not> is_locked 1000 ?u" by (simp add: is_locked_def)
  have active: "u_IsActive ?u" by (simp add: ex_defs)
  have password: "CompareHashAndPassword (u_Password ?u) (req_Password ?req)"
    by (simp add: ex_defs)
  have member: "GetUserOrganization (ex_db ?u ''SYSTEM_ADMIN'') (u_ID ?u) (req_OrganizationID ?req)
                  = Some ?m"
    by (simp add: ex_defs query_defs)
  have role: "uo_Role ?m = [] \<or> uo_Role ?m = OrganizationRoleSystemAdmin"
    by (simp add: OrganizationRoleSystemAdmin_def)
  have org: "GetOrganizationByID (ex_db ?u ''SYSTEM_ADMIN'') (req_OrganizationID ?req) = Some ex_org"
    by (simp add: ex_defs query_defs)
  have name: "req_Username ?req = ''root-admin''" by (simp add: ex_req_def)
  from Login_success_resets_attempts [OF found unlocked active password member role org,
      where cfg = ex_cfg and jtiA = "''a''" and jtiR = "''r''"]
  obtain resp st' where
    run: "Login ex_cfg 1000 ''a'' ''r'' ?req (ex_db ?u ''SYSTEM_ADMIN'') = (Inr resp, st')"
    and after: "GetByEmailOrUsername st' ''root-admin''
                  = Some (?u\<lparr>u_LastLogin := Some 1000, u_LoginAttempts := 0\<rparr>)"
    unfolding name by blast
  have same: "?u\<lparr>u_LastLogin := Some 1000, u_LoginAttempts := 0\<rparr>
      = ex_user\<lparr>u_LastLogin := Some 1000, u_LoginAttempts := 0, u_LockedUntil := Some 500\<rparr>"
    by simp
  from found unlocked active password member org run after same show ?thesis by simp
qed

text \<open>
  C2 as the specification states it fails in two ways. An account whose lock has
  passed (\<open>locked_until = 500\<close>, login at 1000) logs in with the right password: the
  login succeeds and \<open>locked_until\<close> is still 500, not cleared. And a login whose
  password check succeeds but whose membership carries the role \<open>CEO\<close> is rejected
  after the check, with the attempt counter still at 3.
\<close>

theorem Login_success_keeps_locked_until:
  "CompareHashAndPassword (u_Password (ex_user\<lparr>u_LoginAttempts := 3, u_LockedUntil := Some 500\<rparr>))
     (req_Password (ex_req ''ChangeMe123!''))
   \<and> \<not> isl (fst (Login ex_cfg 1000 ''a'' ''r'' (ex_req ''ChangeMe123!'')
            (ex_db (ex_user\<lparr>u_LoginAttempts := 3, u_LockedUntil := Some 500\<rparr>)
               OrganizationRoleSystemAdmin)))
   \<and> map u_LockedUntil (users (snd (Login ex_cfg 1000 ''a'' ''r'' (ex_req ''ChangeMe123!'')
            (ex_db (ex_user\<lparr>u_LoginAttempts := 3, u_LockedUntil := Some 500\<rparr>)
               OrganizationRoleSystemAdmin)))) = [Some 500]
   \<and> fst (Login ex_cfg 1000 ''a'' ''r'' (ex_req ''ChangeMe123!'')
            (ex_db (ex_user\<lparr>u_LoginAttempts := 3, u_LockedUntil := Some 500\<rparr>) ''CEO''))
       = Inl (Errorf ''user does not have the required role in the organization'')
   \<and> map u_LoginAttempts (users (snd (Login ex_cfg 1000 ''a'' ''r'' (ex_req ''ChangeMe123!'')
            (ex_db (ex_user\<lparr>u_LoginAttempts := 3, u_LockedUntil := Some 500\<rparr>) ''CEO''))))
       = [3]"
proof -
  let ?u = "ex_user\<lparr>u_LoginAttempts := 3, u_LockedUntil := Some 500\<rparr>"
  have found: "GetByEmailOrUsername (ex_db ?u role) (req_Username (ex_req ''ChangeMe123!'')) = Some ?u"
    for role by (simp add: ex_defs query_defs)
  have unlocked: "\<not> is_locked 1000 ?u" by (simp add: is_locked_def)
  have active: "u_IsActive ?u" by (simp add: ex_user_def)
  have password: "CompareHashAndPassword (u_Password ?u) (req_Password (ex_req ''ChangeMe123!''))"
    by (simp add: ex_user_def ex_req_def)
  note run = Login_password_ok [where cfg = ex_cfg and jtiA = "''a''" and jtiR = "''r''",
      OF found unlocked active password]
  have a: "\<not> isl (fst (Login ex_cfg 1000 ''a'' ''r'' (ex_req ''ChangeMe123!'')
            (ex_db ?u OrganizationRoleSystemAdmin)))"
    unfolding run by (simp add: ex_defs query_defs)
  have b: "map u_LockedUntil (users (snd (Login ex_cfg 1000 ''a'' ''r'' (ex_req ''ChangeMe123!'')
            (ex_db ?u OrganizationRoleSystemAdmin)))) = [Some 500]"
    unfolding run by (simp add: ex_defs query_defs UpdateLastLogin_def)
  have c: "Login ex_cfg 1000 ''a'' ''r'' (ex_req ''ChangeMe123!'') (ex_db ?u ''CEO'')
       = (Inl (Errorf ''user does not have the required role in the organization''), ex_db ?u ''CEO'')"
    unfolding run by (simp add: ex_defs query_defs)
  have d: "map u_LoginAttempts (users (ex_db ?u ''CEO'')) = [3]" by (simp add: ex_db_def)
  from password a b c d show ?thesis by simp
qed

section \<open>Organization-scoped login\<close>

text \<open>
  C8. A login with correct credentials (account found, not locked, active, password
  verified) by a user who holds a membership in the requested organization is rejected
  with the role error when the role of that membership is neither empty nor
  \<open>SYSTEM_ADMIN\<close>; when the role is empty or \<open>SYSTEM_ADMIN\<close> the role error is not
  raised, and if the organization row exists the login succeeds and reports it as the
  logged organization.
\<close>

theorem Login_organization_role_check:
  assumes found: "GetByEmailOrUsername st (req_Username req) = Some user"
      and unlocked: "\<not> is_locked now user"
      and active: "u_IsActive user"
      and password: "CompareHashAndPassword (u_Password user) (req_Password req)"
      and member: "GetUserOrganization st (u_ID user) (req_OrganizationID req) = Some member"
  shows "(uo_Role member \<noteq> [] \<and> uo_Role member \<noteq> OrganizationRoleSystemAdmin \<longrightarrow>
            Login cfg now jtiA jtiR req st =
              (Inl (Errorf ''user does not have the required role in the organization''), st))
       \<and> (uo_Role member = [] \<or> uo_Role member = OrganizationRoleSystemAdmin \<longrightarrow>
            fst (Login cfg now jtiA jtiR req st)
              \<noteq> Inl (Errorf ''user does not have the required role in the organization'')
            \<and> (\<forall>org. GetOrganizationByID st (req_OrganizationID req) = Some org \<longrightarrow>
                  (\<exists>resp. Login cfg now jtiA jtiR req st
                             = (Inr resp, UpdateLastLogin now (u_ID user) st)
                           \<and> resp_LoggedOrganization resp = Some org)))"
  using member
  by (auto simp: Login_password_ok [OF found unlocked active password] split: option.splits)

theorem Login_organization_role_check_witness:
  "GetByEmailOrUsername (ex_db ex_user ''CEO'') (req_Username (ex_req ''ChangeMe123!'')) = Some ex_user
   \<and> GetByEmailOrUsername (ex_db ex_user ''SYSTEM_ADMIN'') (req_Username (ex_req ''ChangeMe123!''))
       = Some ex_user
   \<and> \<not> is_locked 1000 ex_user \<and> u_IsActive ex_user
   \<and> CompareHashAndPassword (u_Password ex_user) (req_Password (ex_req ''ChangeMe123!''))
   \<and> GetUserOrganization (ex_db ex_user ''CEO'') (u_ID ex_user)
         (req_OrganizationID (ex_req ''ChangeMe123!''))
       = Some \<lparr>uo_UserID = 1, uo_OrganizationID = 1, uo_Role = ''CEO'', uo_IsPrimary = True,
               uo_Organization = Some ex_org\<rparr>
   \<and> Login ex_cfg 1000 ''a'' ''r'' (ex_req ''ChangeMe123!'') (ex_db ex_user ''CEO'')
      = (Inl (Errorf ''user does not have the required role in the organization''),
         ex_db ex_user ''CEO'')
   \<and> GetUserOrganization (ex_db ex_user ''SYSTEM_ADMIN'') (u_ID ex_user)
         (req_OrganizationID (ex_req ''ChangeMe123!''))
       = Some \<lparr>uo_UserID = 1, uo_OrganizationID = 1, uo_Role = ''SYSTEM_ADMIN'',
               uo_IsPrimary = True, uo_Organization = Some ex_org\<rparr>
   \<and> GetOrganizationByID (ex_db ex_user ''SYSTEM_ADMIN'')
         (req_OrganizationID (ex_req ''ChangeMe123!'')) = Some ex_org
   \<and> \<not> isl (fst (Login ex_cfg 1000 ''a'' ''r'' (ex_req ''ChangeMe123!'')
                   (ex_db ex_user ''SYSTEM_ADMIN'')))
   \<and> resp_LoggedOrganization
         (projr (fst (Login ex_cfg 1000 ''a'' ''r'' (ex_req ''ChangeMe123!'')
                        (ex_db ex_user ''SYSTEM_ADMIN'')))) = Some ex_org"
proof -
  let ?req = "ex_req ''ChangeMe123!''"
  let ?ceo = "\<lparr>uo_UserID = 1, uo_OrganizationID = 1, uo_Role = ''CEO'', uo_IsPrimary = True,
               uo_Organization = Some ex_org\<rparr>"
  let ?adm = "\<lparr>uo_UserID = 1, uo_OrganizationID = 1, uo_Role = ''SYSTEM_ADMIN'',
               uo_IsPrimary = True, uo_Organization = Some ex_org\<rparr>"
  have found: "GetByEmailOrUsername (ex_db ex_user role) (req_Username ?req) = Some ex_user"
    for role by (simp add: ex_defs query_defs)
  have unlocked: "\<not> is_locked 1000 ex_user" by (simp add: ex_defs query_defs)
  have active: "u_IsActive ex_user" by (simp add: ex_defs)
  have password: "CompareHashAndPassword (u_Password ex_user) (req_Password ?req)"
    by (simp add: ex_defs)
  have ceo: "GetUserOrganization (ex_db ex_user ''CEO'') (u_ID ex_user) (req_OrganizationID ?req)
               = Some ?ceo"
    by (simp add: ex_defs query_defs)
  have adm: "GetUserOrganization (ex_db ex_user ''SYSTEM_ADMIN'') (u_ID ex_user)
               (req_OrganizationID ?req) = Some ?adm"
    by (simp add: ex_defs query_defs)
  have org: "GetOrganizationByID (ex_db ex_user ''SYSTEM_ADMIN'') (req_OrganizationID ?req)
               = Some ex_org"
    by (simp add: ex_defs query_defs)
  have rejected: "Login ex_cfg 1000 ''a'' ''r'' ?req (ex_db ex_user ''CEO'')
      = (Inl (Errorf ''user does not have the required role in the organization''),
         ex_db ex_user ''CEO'')"
    using Login_organization_role_check [OF found unlocked active password ceo,
        where cfg = ex_cfg and jtiA = "''a''" and jtiR = "''r''"]
    by (simp add: OrganizationRoleSystemAdmin_def)
  have "\<exists>resp. Login ex_cfg 1000 ''a'' ''r'' ?req (ex_db ex_user ''SYSTEM_ADMIN'')
                 = (Inr resp, UpdateLastLogin 1000 (u_ID ex_user) (ex_db ex_user ''SYSTEM_ADMIN''))
               \<and> resp_LoggedOrganization resp = Some ex_org"
    using Login_organization_role_check [OF found unlocked active password adm,
        where cfg = ex_cfg and jtiA = "''a''" and jtiR = "''r''"] org
    by (simp add: OrganizationRoleSystemAdmin_def)
  then have passed: "\<not> isl (fst (Login ex_cfg 1000 ''a'' ''r'' ?req (ex_db ex_user ''SYSTEM_ADMIN'')))"
    "resp_LoggedOrganization
       (projr (fst (Login ex_cfg 1000 ''a'' ''r'' ?req (ex_db ex_user ''SYSTEM_ADMIN''))))
     = Some ex_org"
    by auto
  from found unlocked active password ceo adm org rejected passed show ?thesis by simp
qed

text \<open>
  C10 (as amended). In a login with correct credentials and a membership in the
  requested organization whose role is empty or \<open>SYSTEM_ADMIN\<close>, the organization
  being in the store, a \<open>department_id\<close> that is the department of none of the user's
  department memberships (a department that does not exist, or 0 when the field is
  omitted) is no error: the login succeeds and the response has no logged department.
\<close>

theorem Login_unmatched_department:
  assumes found: "GetByEmailOrUsername st (req_Username req) = Some user"
      and unlocked: "\<not> is_locked now user"
      and active: "u_IsActive user"
      and password: "CompareHashAndPassword (u_Password user) (req_Password req)"
      and member: "GetUserOrganization st (u_ID user) (req_OrganizationID req) = Some member"
      and role: "uo_Role member = [] \<or> uo_Role member = OrganizationRoleSystemAdmin"
      and org: "GetOrganizationByID st (req_OrganizationID req) = Some org"
      and unmatched: "\<not> list_ex (\<lambda>m. ud_DepartmentID m = req_DepartmentID req)
                          (ListUserDepartments st (u_ID user))"
  shows "\<exists>resp. Login cfg now jtiA jtiR req st = (Inr resp, UpdateLastLogin now (u_ID user) st)
           \<and> resp_LoggedDepartment resp = None"
proof -
  have "find (\<lambda>m. ud_DepartmentID m = req_DepartmentID req) (ListUserDepartments st (u_ID user))
          = None"
    using unmatched by (simp add: find_None_iff list_ex_iff)
  then have "logged_department st (u_ID user) (req_DepartmentID req) = None"
    by (simp add: find_ListUserDepartments logged_department_def)
  with member role org show ?thesis
    by (auto simp: Login_password_ok [OF found unlocked active password])
qed

theorem Login_unmatched_department_witness:
  "GetByEmailOrUsername (ex_db ex_user ''SYSTEM_ADMIN'') (req_Username (ex_req ''ChangeMe123!''))
     = Some ex_user
   \<and> \<not> is_locked 1000 ex_user \<and> u_IsActive ex_user
   \<and> CompareHashAndPassword (u_Password ex_user) (req_Password (ex_req ''ChangeMe123!''))
   \<and> GetUserOrganization (ex_db ex_user ''SYSTEM_ADMIN'') (u_ID ex_user)
         (req_OrganizationID (ex_req ''ChangeMe123!''))
       = Some \<lparr>uo_UserID = 1, uo_OrganizationID = 1, uo_Role = ''SYSTEM_ADMIN'',
               uo_IsPrimary = True, uo_Organization = Some ex_org\<rparr>
   \<and> GetOrganizationByID (ex_db ex_user ''SYSTEM_ADMIN'')
         (req_OrganizationID (ex_req ''ChangeMe123!'')) = Some ex_org
   \<and> map ud_DepartmentID (ListUserDepartments (ex_db ex_user ''SYSTEM_ADMIN'') (u_ID ex_user)) = [1]
   \<and> req_DepartmentID (ex_req ''ChangeMe123!'') = 0
   \<and> \<not> list_ex (\<lambda>m. ud_DepartmentID m = req_DepartmentID (ex_req ''ChangeMe123!''))
          (ListUserDepartments (ex_db ex_user ''SYSTEM_ADMIN'') (u_ID ex_user))
   \<and> \<not> isl (fst (Login ex_cfg 1000 ''a'' ''r'' (ex_req ''ChangeMe123!'')
                   (ex_db ex_user ''SYSTEM_ADMIN'')))
   \<and> resp_LoggedDepartment
         (projr (fst (Login ex_cfg 1000 ''a'' ''r'' (ex_req ''ChangeMe123!'')
                        (ex_db ex_user ''SYSTEM_ADMIN'')))) = None"
proof -
  let ?req = "ex_req ''ChangeMe123!''"
  let ?st = "ex_db ex_user ''SYSTEM_ADMIN''"
  let ?m = "\<lparr>uo_UserID = 1, uo_OrganizationID = 1, uo_Role = ''SYSTEM_ADMIN'',
             uo_IsPrimary = True, uo_Organization = Some ex_org\<rparr>"
  have found: "GetByEmailOrUsername ?st (req_Username ?req) = Some ex_user"
    by (simp add: ex_defs query_defs)
  have unlocked: "\<not> is_locked 1000 ex_user" by (simp add: ex_defs query_defs)
  have active: "u_IsActive ex_user" by (simp add: ex_defs)
  have password: "CompareHashAndPassword (u_Password ex_user) (req_Password ?req)"
    by (simp add: ex_defs)
  have member: "GetUserOrganization ?st (u_ID ex_user) (req_OrganizationID ?req) = Some ?m"
    by (simp add: ex_defs query_defs)
  have role: "uo_Role ?m = [] \<or> uo_Role ?m = OrganizationRoleSystemAdmin"
    by (simp add: OrganizationRoleSystemAdmin_def)
  have org: "GetOrganizationByID ?st (req_OrganizationID ?req) = Some ex_org"
    by (simp add: ex_defs query_defs)
  have depts: "map ud_DepartmentID (ListUserDepartments ?st (u_ID ex_user)) = [1]"
    by (simp add: ex_defs ListUserDepartments_def query_defs)
  have omitted: "req_DepartmentID ?req = 0" by (simp add: ex_req_def)
  have unmatched: "\<not> list_ex (\<lambda>m. ud_DepartmentID m = req_DepartmentID ?req)
                        (ListUserDepartments ?st (u_ID ex_user))"
    by (simp add: ex_defs ListUserDepartments_def query_defs)
  from Login_unmatched_department [OF found unlocked active password member role org unmatched,
      where cfg = ex_cfg and jtiA = "''a''" and jtiR = "''r''"]
  have run: "\<not> isl (fst (Login ex_cfg 1000 ''a'' ''r'' ?req ?st))"
    "resp_LoggedDepartment (projr (fst (Login ex_cfg 1000 ''a'' ''r'' ?req ?st))) = None"
    by auto
  from found unlocked active password member org depts omitted unmatched run
  show ?thesis by simp
qed

text \<open>
  C10 as the specification states it fails: correct credentials and a membership in
  the requested organization do not make the login succeed. The account below is a
  member of organization 1 with the role \<open>CEO\<close>; its request omits \<open>department_id\<close>,
  which matches none of its department memberships; the login is refused on the role.
\<close>

theorem Login_unmatched_department_other_role:
  "GetByEmailOrUsername (ex_db ex_user ''CEO'') (req_Username (ex_req ''ChangeMe123!''))
     = Some ex_user
   \<and> CompareHashAndPassword (u_Password ex_user) (req_Password (ex_req ''ChangeMe123!''))
   \<and> GetUserOrganization (ex_db ex_user ''CEO'') (u_ID ex_user)
         (req_OrganizationID (ex_req ''ChangeMe123!''))
       = Some \<lparr>uo_UserID = 1, uo_OrganizationID = 1, uo_Role = ''CEO'',
               uo_IsPrimary = True, uo_Organization = Some ex_org\<rparr>
   \<and> req_DepartmentID (ex_req ''ChangeMe123!'') = 0
   \<and> map ud_DepartmentID (ListUserDepartments (ex_db ex_user ''CEO'') (u_ID ex_user)) = [1]
   \<and> Login ex_cfg 1000 ''a'' ''r'' (ex_req ''ChangeMe123!'') (ex_db ex_user ''CEO'')
       = (Inl (Errorf ''user does not have the required role in the organization''),
          ex_db ex_user ''CEO'')"
proof -
  let ?req = "ex_req ''ChangeMe123!''"
  let ?st = "ex_db ex_user ''CEO''"
  let ?m = "\<lparr>uo_UserID = 1, uo_OrganizationID = 1, uo_Role = ''CEO'',
             uo_IsPrimary = True, uo_Organization = Some ex_org\<rparr>"
  have found: "GetByEmailOrUsername ?st (req_Username ?req) = Some ex_user"
    by (simp add: ex_defs query_defs)
  have unlocked: "\<not> is_locked 1000 ex_user" by (simp add: ex_defs query_defs)
  have active: "u_IsActive ex_user" by (simp add: ex_defs)
  have password: "CompareHashAndPassword (u_Password ex_user) (req_Password ?req)"
    by (simp add: ex_defs)
  have member: "GetUserOrganization ?st (u_ID ex_user) (req_OrganizationID ?req) = Some ?m"
    by (simp add: ex_defs query_defs)
  have omitted: "req_DepartmentID ?req = 0" by (simp add: ex_req_def)
  have depts: "map ud_DepartmentID (ListUserDepartments ?st (u_ID ex_user)) = [1]"
    by (simp add: ex_defs ListUserDepartments_def query_defs)
  have refused: "Login ex_cfg 1000 ''a'' ''r'' ?req ?st
      = (Inl (Errorf ''user does not have the required role in the organization''), ?st)"
    by (simp add: Login_password_ok [OF found unlocked active password] member
          OrganizationRoleSystemAdmin_def)
  from found password member omitted depts refused show ?thesis by simp
qed

section \<open>The wire contract of login\<close>




text \<open>
  The comment on \<open>LoginRequest.RoleID\<close> reads "at least role_id or department_id is
  required", and both fields are tagged \<open>omitempty\<close>. The guard of the handler tests
  \<open>role_id\<close> alone, so it also refuses a request that names its department and leaves
  the role out.
\<close>

lemma login_with_department_only_is_refused:
  "req_DepartmentID ((ex_req ''ChangeMe123!'')\<lparr>req_RoleID := 0, req_DepartmentID := 1\<rparr>) = 1
   \<and> AuthenticationHandler_Login ex_cfg 1000 ''a'' ''r''
         (Some ((ex_req ''ChangeMe123!'')\<lparr>req_RoleID := 0, req_DepartmentID := 1\<rparr>))
         (ex_db ex_user ''SYSTEM_ADMIN'')
       = (ValidationError ''Organization ID and Role ID are required'',
          ex_db ex_user ''SYSTEM_ADMIN'')"
  by (simp add: AuthenticationHandler_Login_def ex_req_def)

section \<open>Tokens\<close>

lemma access_claims_type:
  "map_of (access_claims cfg now jti user orgs depts) ''type'' = Some (JString ''access'')"
  by (simp add: access_claims_def)

lemma access_claims_user_id:
  "map_of (access_claims cfg now jti user orgs depts) ''user_id''
     = Some (JNumber (int (u_ID user)))"
  by (simp add: access_claims_def)

lemma refresh_claims_user_id:
  "map_of (refresh_claims cfg now jti user) ''user_id'' = Some (JNumber (int (u_ID user)))"
  by (simp add: refresh_claims_def)

lemma jwt_Parse_SignedString:
  "jwt_Parse secret t (SignedString key cl) =
     (if key = secret \<and> exp_ok t cl \<and> nbf_ok t cl then Some cl else None)"
  by (auto simp: jwt_Parse_def SignedString_def)

text \<open>
  What holds of the round trip. A token signed with another secret, or whose claims
  differ from the signed ones, is rejected; but so is every token the issuance path
  makes, at any time and under any configuration, because \<open>user_id\<close> is issued as a
  number and read as a string. The refresh path has the same mismatch.
\<close>

lemma ValidateToken_other_secret:
  "cfg_JWTSecret cfg \<noteq> key \<Longrightarrow> ValidateToken cfg t (SignedString key cl) = Inl ErrInvalidToken"
  by (simp add: ValidateToken_def jwt_Parse_SignedString)

lemma ValidateToken_altered_payload:
  "cl' \<noteq> cl \<Longrightarrow> ValidateToken cfg t (Compact alg cl' (MAC alg' key cl)) = Inl ErrInvalidToken"
  by (simp add: ValidateToken_def jwt_Parse_def)

lemma ValidateToken_rejects_every_issued_token:
  "ValidateToken cfg t (generateAccessToken cfg' now jti user orgs depts) = Inl ErrInvalidToken"
  by (simp add: ValidateToken_def generateAccessToken_def jwt_Parse_SignedString
        access_claims_type access_claims_user_id)

lemma RefreshToken_rejects_every_issued_token:
  "RefreshToken cfg t jtiA jtiR (generateRefreshToken cfg' now jti user) st = Inl ErrInvalidToken"
  by (simp add: RefreshToken_def generateRefreshToken_def jwt_Parse_SignedString
        refresh_claims_user_id split: option.splits json.splits)

text \<open>
  C1. The round trip the claim asks for does not hold in the code. The access token
  issued at second 1 for the bootstrap administrator (account 1), with the memberships
  the store lists for it, is presented one second later under the same configuration:
  the library accepts it (signature, \<open>exp\<close> and \<open>nbf\<close> are in order) and its type
  is \<open>access\<close>, yet \<open>ValidateToken\<close> answers \<open>ErrInvalidToken\<close> where the claim
  expects the account identifier 1.
\<close>

theorem ValidateToken_rejects_issued_access_token:
  "jwt_Parse (cfg_JWTSecret ex_cfg) 2000000000
      (generateAccessToken ex_cfg 1000000000 ''jti-1'' ex_user
         (ListUserOrganizations (ex_db ex_user ''SYSTEM_ADMIN'') 1)
         (ListUserDepartments (ex_db ex_user ''SYSTEM_ADMIN'') 1))
     = Some (access_claims ex_cfg 1000000000 ''jti-1'' ex_user
         (ListUserOrganizations (ex_db ex_user ''SYSTEM_ADMIN'') 1)
         (ListUserDepartments (ex_db ex_user ''SYSTEM_ADMIN'') 1))
   \<and> map_of (access_claims ex_cfg 1000000000 ''jti-1'' ex_user
         (ListUserOrganizations (ex_db ex_user ''SYSTEM_ADMIN'') 1)
         (ListUserDepartments (ex_db ex_user ''SYSTEM_ADMIN'') 1)) ''user_id''
     = Some (JNumber 1)
   \<and> ValidateToken ex_cfg 2000000000
      (generateAccessToken ex_cfg 1000000000 ''jti-1'' ex_user
         (ListUserOrganizations (ex_db ex_user ''SYSTEM_ADMIN'') 1)
         (ListUserDepartments (ex_db ex_user ''SYSTEM_ADMIN'') 1))
     = Inl ErrInvalidToken"
proof -
  let ?orgs = "ListUserOrganizations (ex_db ex_user ''SYSTEM_ADMIN'') 1"
  let ?depts = "ListUserDepartments (ex_db ex_user ''SYSTEM_ADMIN'') 1"
  let ?cl = "access_claims ex_cfg 1000000000 ''jti-1'' ex_user ?orgs ?depts"
  have exp: "exp_ok 2000000000 ?cl"
    by (simp add: access_claims_def exp_ok_def Unix_def ex_cfg_def)
  have nbf: "nbf_ok 2000000000 ?cl"
    by (simp add: access_claims_def nbf_ok_def Unix_def)
  have parsed: "jwt_Parse (cfg_JWTSecret ex_cfg) 2000000000
                  (generateAccessToken ex_cfg 1000000000 ''jti-1'' ex_user ?orgs ?depts) = Some ?cl"
    using exp nbf by (simp add: generateAccessToken_def jwt_Parse_SignedString)
  have uid: "map_of ?cl ''user_id'' = Some (JNumber 1)"
    by (simp add: access_claims_user_id ex_user_def)
  have rejected: "ValidateToken ex_cfg 2000000000
      (generateAccessToken ex_cfg 1000000000 ''jti-1'' ex_user ?orgs ?depts) = Inl ErrInvalidToken"
    using parsed uid by (simp add: ValidateToken_def access_claims_type)
  from parsed uid rejected show ?thesis by simp
qed

text \<open>
  C7. A token the library accepts (well formed, signed with the configured secret by
  an HMAC method, not expired, not before its time) is rejected with \<open>ErrInvalidToken\<close>
  by \<open>RefreshToken\<close> when its \<open>type\<close> claim is not the string \<open>refresh\<close>, and by
  \<open>ValidateToken\<close> when it is not the string \<open>access\<close>.
\<close>

theorem token_type_is_checked:
  assumes "jwt_Parse (cfg_JWTSecret cfg) now tok = Some cl"
  shows "(map_of cl ''type'' \<noteq> Some (JString ''refresh'') \<longrightarrow>
            RefreshToken cfg now jtiA jtiR tok st = Inl ErrInvalidToken)
       \<and> (map_of cl ''type'' \<noteq> Some (JString ''access'') \<longrightarrow>
            ValidateToken cfg now tok = Inl ErrInvalidToken)"
  using assms
  by (auto simp: RefreshToken_def ValidateToken_def split: option.splits json.splits)

theorem token_type_is_checked_witness:
  "jwt_Parse (cfg_JWTSecret ex_cfg) 2000000000 (ex_token ''access'')
     = Some [(''exp'', JNumber 901), (''nbf'', JNumber 1), (''type'', JString ''access''),
             (''user_id'', JString ''1'')]
   \<and> ValidateToken ex_cfg 2000000000 (ex_token ''access'') = Inr 1
   \<and> RefreshToken ex_cfg 2000000000 ''a'' ''r'' (ex_token ''access'')
        (ex_db ex_user ''SYSTEM_ADMIN'') = Inl ErrInvalidToken
   \<and> jwt_Parse (cfg_JWTSecret ex_cfg) 2000000000 (ex_token ''refresh'')
     = Some [(''exp'', JNumber 901), (''nbf'', JNumber 1), (''type'', JString ''refresh''),
             (''user_id'', JString ''1'')]
   \<and> \<not> isl (RefreshToken ex_cfg 2000000000 ''a'' ''r'' (ex_token ''refresh'')
              (ex_db ex_user ''SYSTEM_ADMIN''))
   \<and> ValidateToken ex_cfg 2000000000 (ex_token ''refresh'') = Inl ErrInvalidToken"
proof -
  let ?st = "ex_db ex_user ''SYSTEM_ADMIN''"
  have parsed: "jwt_Parse (cfg_JWTSecret ex_cfg) 2000000000 (ex_token ty)
     = Some [(''exp'', JNumber 901), (''nbf'', JNumber 1), (''type'', JString ty),
             (''user_id'', JString ''1'')]" for ty
    by (simp add: ex_token_def ex_cfg_def jwt_Parse_SignedString exp_ok_def nbf_ok_def)
  have one: "ParseUint64 ''1'' = Some 1"
    by (simp add: ParseUint64_def digit_val_def)
  have accepted_a: "ValidateToken ex_cfg 2000000000 (ex_token ''access'') = Inr 1"
    by (simp add: ValidateToken_def parsed one)
  have accepted_r: "\<not> isl (RefreshToken ex_cfg 2000000000 ''a'' ''r'' (ex_token ''refresh'') ?st)"
    unfolding RefreshToken_def parsed
    by (simp add: one ex_defs query_defs collectMemberships_def)
  have rejected_a: "RefreshToken ex_cfg 2000000000 ''a'' ''r'' (ex_token ''access'') ?st
                      = Inl ErrInvalidToken"
    using token_type_is_checked [OF parsed [of "''access''"], of "''a''" "''r''" ?st]
    by simp
  have rejected_r: "ValidateToken ex_cfg 2000000000 (ex_token ''refresh'') = Inl ErrInvalidToken"
    using token_type_is_checked [OF parsed [of "''refresh''"], of "''a''" "''r''" ?st]
    by simp
  from parsed accepted_a accepted_r rejected_a rejected_r show ?thesis by simp
qed

section \<open>Tenant provisioning\<close>

lemma leading_space_iff:
  "leading_space s \<noteq> 0 \<longleftrightarrow> (\<exists>e \<in> set space_encodings. take (length e) s = e)"
proof
  assume "leading_space s \<noteq> 0"
  then obtain e where "find (\<lambda>e. take (length e) s = e) space_encodings = Some e"
    by (auto simp: leading_space_def split: option.splits)
  from find_Some_set [OF this] show "\<exists>e \<in> set space_encodings. take (length e) s = e" by blast
next
  assume "\<exists>e \<in> set space_encodings. take (length e) s = e"
  then have "find (\<lambda>e. take (length e) s = e) space_encodings \<noteq> None"
    by (auto simp: find_None_iff)
  then obtain e where f: "find (\<lambda>e. take (length e) s = e) space_encodings = Some e" by auto
  from find_Some_set [OF f] space_encodings_nonempty have "e \<noteq> []" by blast
  with f show "leading_space s \<noteq> 0" by (simp add: leading_space_def)
qed

lemma trailing_space_iff:
  "trailing_space s \<noteq> 0 \<longleftrightarrow> (\<exists>e \<in> set space_encodings. drop (length s - length e) s = e)"
proof
  assume "trailing_space s \<noteq> 0"
  then obtain e where "find (\<lambda>e. drop (length s - length e) s = e) space_encodings = Some e"
    by (auto simp: trailing_space_def split: option.splits)
  from find_Some_set [OF this]
  show "\<exists>e \<in> set space_encodings. drop (length s - length e) s = e" by blast
next
  assume "\<exists>e \<in> set space_encodings. drop (length s - length e) s = e"
  then have "find (\<lambda>e. drop (length s - length e) s = e) space_encodings \<noteq> None"
    by (auto simp: find_None_iff)
  then obtain e where f: "find (\<lambda>e. drop (length s - length e) s = e) space_encodings = Some e"
    by auto
  from find_Some_set [OF f] space_encodings_nonempty have "e \<noteq> []" by blast
  with f show "trailing_space s \<noteq> 0" by (simp add: trailing_space_def)
qed

lemma leading_space_TrimLeft: "leading_space (TrimLeft s) = 0"
  by (induction s rule: TrimLeft.induct) (subst TrimLeft.simps, simp)

lemma trailing_space_TrimRight: "trailing_space (TrimRight s) = 0"
  by (induction s rule: TrimRight.induct) (subst TrimRight.simps, simp)

lemma leading_space_take:
  assumes "leading_space s = 0"
  shows "leading_space (take n s) = 0"
proof (rule ccontr)
  assume "leading_space (take n s) \<noteq> 0"
  then have "\<exists>e \<in> set space_encodings. take (length e) (take n s) = e"
    by (simp only: leading_space_iff)
  then obtain e where e: "e \<in> set space_encodings" and t: "take (length e) (take n s) = e"
    by blast
  from t have "length (take (length e) (take n s)) = length e" by simp
  then have "length e \<le> n" by simp
  with t have "take (length e) s = e" by (simp add: min_def)
  with e have "\<exists>e \<in> set space_encodings. take (length e) s = e" by blast
  then have "leading_space s \<noteq> 0" by (simp only: leading_space_iff)
  with assms show False by simp
qed

lemma leading_space_TrimRight:
  "leading_space s = 0 \<Longrightarrow> leading_space (TrimRight s) = 0"
proof (induction s rule: TrimRight.induct)
  case (1 s)
  show ?case
  proof (cases "trailing_space s = 0")
    case True
    with 1 show ?thesis by (subst TrimRight.simps) simp
  next
    case False
    have "leading_space (take (length s - trailing_space s) s) = 0"
      by (rule leading_space_take [OF "1.prems"])
    with 1 False show ?thesis by (subst TrimRight.simps) simp
  qed
qed

lemma TrimSpace_idem [simp]: "TrimSpace (TrimSpace s) = TrimSpace s"
proof -
  let ?u = "TrimRight (TrimLeft s)"
  have "leading_space ?u = 0"
    by (rule leading_space_TrimRight [OF leading_space_TrimLeft])
  then have l: "TrimLeft ?u = ?u" by (subst TrimLeft.simps) simp
  have "trailing_space ?u = 0" by (rule trailing_space_TrimRight)
  then have r: "TrimRight ?u = ?u" by (subst TrimRight.simps) simp
  show ?thesis by (simp add: TrimSpace_def l r)
qed

lemma TrimSpace_Nil [simp]: "TrimSpace [] = []"
proof -
  have "leading_space [] = 0" using leading_space_le [of "[]"] by simp
  then have l: "TrimLeft [] = []" by (subst TrimLeft.simps) simp
  have "trailing_space [] = 0" using trailing_space_le [of "[]"] by simp
  then have r: "TrimRight [] = []" by (subst TrimRight.simps) simp
  show ?thesis by (simp add: TrimSpace_def l r)
qed

lemma find_append:
  "find P (xs @ ys) = (case find P xs of None \<Rightarrow> find P ys | Some x \<Rightarrow> Some x)"
  by (induction xs) auto

lemma find_mem: "find P xs = Some x \<Longrightarrow> x \<in> set xs"
  by (induction xs) (auto split: if_splits)

lemma find_unique:
  assumes "x \<in> set xs" and "P x" and "\<And>y. y \<in> set xs \<Longrightarrow> P y \<Longrightarrow> y = x"
  shows "find P xs = Some x"
  using assms
proof (induction xs)
  case Nil
  then show ?case by simp
next
  case (Cons a xs)
  show ?case
  proof (cases "P a")
    case True
    then have "a = x" by (intro Cons.prems(3)) simp_all
    with True show ?thesis by simp
  next
    case False
    with Cons.prems(1,2) have "x \<in> set xs" by auto
    then have "find P xs = Some x"
      by (intro Cons.IH Cons.prems(2,3)) simp_all
    with False show ?thesis by simp
  qed
qed

lemma distinct_key_eq:
  assumes "distinct (map k xs)" and "x \<in> set xs" and "y \<in> set xs" and "k x = k y"
  shows "x = y"
  using assms by (simp add: distinct_map inj_on_def)

lemma foldr_max_ge: "i \<in> set ids \<Longrightarrow> i \<le> foldr max ids (0::nat)"
  by (induction ids) (auto simp: max_def)

lemma next_id_greater: "i \<in> set ids \<Longrightarrow> i < next_id ids"
  unfolding next_id_def using foldr_max_ge [of i ids] by simp

lemma next_id_fresh: "next_id ids \<notin> set ids"
  using next_id_greater [of "next_id ids" ids] by auto

lemma updateOrganizationDefaults_alt:
  "updateOrganizationDefaults org description domain isActive st =
     (if (TrimSpace domain \<noteq> [] \<and> o_Domain org \<noteq> TrimSpace domain) \<and>
         list_ex (\<lambda>r. o_ID r \<noteq> o_ID org \<and> o_Domain r = TrimSpace domain) (organizations st)
      then (Inl (ErrDuplicatedKey ''organizations.domain''), st)
      else case find (\<lambda>r. o_ID r = o_ID org)
                  (org_updates org description domain isActive (organizations st)) of
             None \<Rightarrow> (Inl (Errorf ''record not found''),
                      st\<lparr>organizations :=
                           org_updates org description domain isActive (organizations st)\<rparr>)
           | Some org' \<Rightarrow> (Inr org',
                      st\<lparr>organizations :=
                           org_updates org description domain isActive (organizations st)\<rparr>))"
  by (simp add: updateOrganizationDefaults_def Let_def org_updates_def org_update_def
        cong: if_cong option.case_cong)

lemma org_updates_ids [simp]:
  "map o_ID (org_updates org description domain isActive rows) = map o_ID rows"
  by (simp add: org_updates_def org_update_def comp_def cong: if_cong)

lemma find_id_org_updates:
  assumes "distinct (map o_ID rows)" and "org \<in> set rows"
  shows "find (\<lambda>r. o_ID r = o_ID org) (org_updates org description domain isActive rows)
           = Some (org_update org description domain isActive org)"
proof (rule find_unique)
  show "org_update org description domain isActive org
          \<in> set (org_updates org description domain isActive rows)"
    using assms(2) by (force simp: org_updates_def)
  show "o_ID (org_update org description domain isActive org) = o_ID org"
    by (simp add: org_update_def)
next
  fix y
  assume y: "y \<in> set (org_updates org description domain isActive rows)"
     and id: "o_ID y = o_ID org"
  from y obtain r where r: "r \<in> set rows"
    and yr: "y = (if o_ID r = o_ID org then org_update org description domain isActive r else r)"
    by (auto simp: org_updates_def)
  from yr id have "o_ID r = o_ID org" by (auto simp: org_update_def split: if_splits)
  with assms r have "r = org" by (intro distinct_key_eq [of o_ID rows r org]) simp_all
  with yr show "y = org_update org description domain isActive org" by simp
qed

lemma org_update_fixed:
  assumes "o_IsActive org"
      and "TrimSpace domain = [] \<or> o_Domain org = TrimSpace domain"
      and "TrimSpace description = [] \<or> o_Description org = TrimSpace description
           \<or> o_Description org = description"
  shows "org_update org description domain True org = org"
  using assms by (auto simp: org_update_def)

lemma org_updates_fixed:
  assumes "distinct (map o_ID rows)" and "org \<in> set rows"
      and "org_update org description domain isActive org = org"
  shows "org_updates org description domain isActive rows = rows"
  unfolding org_updates_def
proof (rule map_idI)
  fix r assume r: "r \<in> set rows"
  show "(if o_ID r = o_ID org then org_update org description domain isActive r else r) = r"
  proof (cases "o_ID r = o_ID org")
    case True
    with assms(1,2) r have "r = org" by (intro distinct_key_eq [of o_ID rows r org]) simp_all
    with assms(3) show ?thesis by simp
  next
    case False
    then show ?thesis by simp
  qed
qed

lemma EnsureOrganization_ensured:
  assumes "ensured name description domain st org"
  shows "EnsureOrganization name description domain st = (Inr org, st)"
proof -
  let ?rows = "organizations st"
  let ?cd = "TrimSpace domain"
  from assms have name: "TrimSpace name \<noteq> []"
    and dist: "distinct (map o_ID ?rows)"
    and act: "o_IsActive org"
    and desc: "TrimSpace description = [] \<or> o_Description org = TrimSpace description
               \<or> o_Description org = description"
    by (simp_all add: ensured_def)
  from assms have found:
    "(if ?cd \<noteq> [] then find (\<lambda>r. o_Domain r = ?cd) ?rows = Some org
      else find (\<lambda>r. o_Name r = TrimSpace name) ?rows = Some org)"
    by (simp add: ensured_def)
  have mem: "org \<in> set ?rows"
    using found by (cases "?cd = []") (auto dest: find_mem)
  have dom: "TrimSpace ?cd = [] \<or> o_Domain org = TrimSpace ?cd"
    using found by (cases "?cd = []") (auto dest: find_SomeD)
  have fixed: "org_update org description ?cd True org = org"
    by (rule org_update_fixed [OF act dom desc])
  have rows: "org_updates org description ?cd True ?rows = ?rows"
    by (rule org_updates_fixed [OF dist mem fixed])
  have byid: "find (\<lambda>r. o_ID r = o_ID org) ?rows = Some org"
    using find_id_org_updates [OF dist mem, of description ?cd True] by (simp add: rows fixed)
  have upd: "updateOrganizationDefaults org description ?cd True st = (Inr org, st)"
    using dom by (auto simp: updateOrganizationDefaults_alt rows byid)
  show ?thesis
  proof (cases "?cd = []")
    case True
    with found have "find (\<lambda>r. o_Name r = TrimSpace name) ?rows = Some org" by simp
    with True name upd show ?thesis
      by (simp add: EnsureOrganization_def)
  next
    case False
    with found have "find (\<lambda>r. o_Domain r = ?cd) ?rows = Some org" by simp
    with False name upd show ?thesis
      by (simp add: EnsureOrganization_def)
  qed
qed

lemma updateOrganizationDefaults_success:
  assumes dist: "distinct (map o_ID (organizations st))"
      and mem: "org0 \<in> set (organizations st)"
      and run: "updateOrganizationDefaults org0 description domain isActive st = (Inr org, st1)"
  shows "org = org_update org0 description domain isActive org0
         \<and> st1 = st\<lparr>organizations :=
                      org_updates org0 description domain isActive (organizations st)\<rparr>
         \<and> \<not> ((TrimSpace domain \<noteq> [] \<and> o_Domain org0 \<noteq> TrimSpace domain) \<and>
               list_ex (\<lambda>r. o_ID r \<noteq> o_ID org0 \<and> o_Domain r = TrimSpace domain)
                 (organizations st))"
  using run
  by (auto simp: updateOrganizationDefaults_alt find_id_org_updates [OF dist mem]
        split: if_splits)

lemma ensured_after_update:
  assumes name: "TrimSpace name \<noteq> []"
      and dist: "distinct (map o_ID (organizations st))"
      and mem: "org0 \<in> set (organizations st)"
      and how: "if TrimSpace domain = []
                then find (\<lambda>r. o_Name r = TrimSpace name) (organizations st) = Some org0
                else if o_Domain org0 = TrimSpace domain
                then find (\<lambda>r. o_Domain r = TrimSpace domain) (organizations st) = Some org0
                else find (\<lambda>r. o_Domain r = TrimSpace domain) (organizations st) = None"
  shows "ensured name description domain
           (st\<lparr>organizations :=
                 org_updates org0 description (TrimSpace domain) True (organizations st)\<rparr>)
           (org_update org0 description (TrimSpace domain) True org0)"
proof -
  let ?rows = "organizations st"
  let ?cd = "TrimSpace domain"
  let ?g = "\<lambda>r. if o_ID r = o_ID org0 then org_update org0 description ?cd True r else r"
  let ?org = "org_update org0 description ?cd True org0"
  have in_rows: "?org \<in> set (org_updates org0 description ?cd True ?rows)"
    using mem by (force simp: org_updates_def)
  have descr: "TrimSpace description = [] \<or> o_Description ?org = TrimSpace description
               \<or> o_Description ?org = description"
    by (simp add: org_update_def)
  have lookup: "if ?cd \<noteq> []
        then find (\<lambda>r. o_Domain r = ?cd) (org_updates org0 description ?cd True ?rows) = Some ?org
        else find (\<lambda>r. o_Name r = TrimSpace name) (org_updates org0 description ?cd True ?rows)
               = Some ?org"
  proof (cases "?cd = []")
    case True
    with how have "find (\<lambda>r. o_Name r = TrimSpace name) ?rows = Some org0" by simp
    then have "find (\<lambda>r. o_Name r = TrimSpace name) (map ?g ?rows) = Some (?g org0)"
      by (rule find_map_update) (simp add: org_update_def)
    with True show ?thesis by (simp add: org_updates_def cong: if_cong)
  next
    case False
    show ?thesis
    proof (cases "o_Domain org0 = ?cd")
      case True
      with False how have "find (\<lambda>r. o_Domain r = ?cd) ?rows = Some org0" by simp
      then have "find (\<lambda>r. o_Domain r = ?cd) (map ?g ?rows) = Some (?g org0)"
        by (rule find_map_update) (use True in \<open>simp add: org_update_def\<close>)
      with False show ?thesis by (simp add: org_updates_def)
    next
      case other: False
      with False how have none: "find (\<lambda>r. o_Domain r = ?cd) ?rows = None" by simp
      have "find (\<lambda>r. o_Domain r = ?cd) (org_updates org0 description ?cd True ?rows) = Some ?org"
      proof (rule find_unique [OF in_rows])
        show "o_Domain ?org = ?cd" using False other by (simp add: org_update_def)
      next
        fix y
        assume y: "y \<in> set (org_updates org0 description ?cd True ?rows)"
           and d: "o_Domain y = ?cd"
        from y obtain r where r: "r \<in> set ?rows" and yr: "y = ?g r"
          by (auto simp: org_updates_def)
        show "y = ?org"
        proof (cases "o_ID r = o_ID org0")
          case True
          with dist r mem have "r = org0"
            by (intro distinct_key_eq [of o_ID ?rows r org0]) simp_all
          with yr show ?thesis by simp
        next
          case False
          with yr d have "o_Domain r = ?cd" by simp
          with r none show ?thesis by (simp add: find_None_iff)
        qed
      qed
      with False show ?thesis by simp
    qed
  qed
  have act: "o_IsActive ?org" by (simp add: org_update_def)
  have dist': "distinct (map o_ID (org_updates org0 description ?cd True ?rows))"
    using dist by simp
  show ?thesis
    unfolding ensured_def
    using name dist' act descr lookup by (simp cong: if_cong)
qed

lemma EnsureOrganization_establishes:
  assumes dist: "distinct (map o_ID (organizations st))"
      and run: "EnsureOrganization name description domain st = (Inr org, st1)"
  shows "ensured name description domain st1 org \<and> st1 = st\<lparr>organizations := organizations st1\<rparr>"
proof -
  let ?rows = "organizations st"
  let ?cd = "TrimSpace domain"
  let ?cn = "TrimSpace name"
  have name: "?cn \<noteq> []"
    using run by (auto simp: EnsureOrganization_def split: if_splits)
  have updated: "ensured name description domain st1 org \<and> st1 = st\<lparr>organizations := organizations st1\<rparr>"
    if mem: "org0 \<in> set ?rows"
      and how: "if ?cd = [] then find (\<lambda>r. o_Name r = ?cn) ?rows = Some org0
                else if o_Domain org0 = ?cd then find (\<lambda>r. o_Domain r = ?cd) ?rows = Some org0
                else find (\<lambda>r. o_Domain r = ?cd) ?rows = None"
      and upd: "updateOrganizationDefaults org0 description ?cd True st = (Inr org, st1)"
    for org0
  proof -
    from updateOrganizationDefaults_success [OF dist mem upd]
    have org: "org = org_update org0 description ?cd True org0"
      and st1: "st1 = st\<lparr>organizations := org_updates org0 description ?cd True ?rows\<rparr>"
      by simp_all
    from ensured_after_update [OF name dist mem how, of description]
    show ?thesis unfolding org st1 by simp
  qed
  show ?thesis
  proof (cases "?cd \<noteq> [] \<and> find (\<lambda>r. o_Domain r = ?cd) ?rows \<noteq> None")
    case True
    then obtain org0 where f: "find (\<lambda>r. o_Domain r = ?cd) ?rows = Some org0" by auto
    have d: "o_Domain org0 = ?cd" using find_SomeD [OF f] .
    have upd: "updateOrganizationDefaults org0 description ?cd True st = (Inr org, st1)"
      using run name True f by (simp add: EnsureOrganization_def)
    show ?thesis
      by (rule updated [OF find_mem [OF f] _ upd]) (use True f d in simp)
  next
    case False
    then have none: "?cd = [] \<or> find (\<lambda>r. o_Domain r = ?cd) ?rows = None" by auto
    then have lookup: "(if ?cd \<noteq> [] then find (\<lambda>r. o_Domain r = ?cd) ?rows else None) = None"
      by auto
    show ?thesis
    proof (cases "find (\<lambda>r. o_Name r = ?cn) ?rows")
      case (Some org0)
      have upd: "updateOrganizationDefaults org0 description ?cd True st = (Inr org, st1)"
        using run name lookup Some by (simp add: EnsureOrganization_def)
      have nd: "?cd \<noteq> [] \<Longrightarrow> o_Domain org0 \<noteq> ?cd"
        using none find_mem [OF Some] by (auto simp: find_None_iff)
      show ?thesis
        by (rule updated [OF find_mem [OF Some] _ upd]) (use none Some nd in auto)
    next
      case None
      let ?new = "\<lparr>o_ID = next_id (map o_ID ?rows), o_Name = ?cn,
                   o_Description = TrimSpace description, o_Domain = ?cd, o_IsActive = True,
                   o_ParentID = None\<rparr>"
      have created: "org = ?new" "st1 = st\<lparr>organizations := ?rows @ [?new]\<rparr>"
        using run name lookup None
        by (auto simp: EnsureOrganization_def CreateOrganization_def Let_def split: if_splits)
      have fresh: "distinct (map o_ID (?rows @ [?new]))"
        using dist next_id_fresh [of "map o_ID ?rows"] by simp
      have look: "if ?cd \<noteq> [] then find (\<lambda>r. o_Domain r = ?cd) (?rows @ [?new]) = Some ?new
                  else find (\<lambda>r. o_Name r = ?cn) (?rows @ [?new]) = Some ?new"
        using none None by (auto simp: find_append)
      show ?thesis
        unfolding created ensured_def using name fresh look by (simp cong: if_cong)
    qed
  qed
qed

lemma EnsureOrganization_idempotent:
  assumes "distinct (map o_ID (organizations st))"
      and "EnsureOrganization name description domain st = (Inr org, st1)"
  shows "EnsureOrganization name description domain st1 = (Inr org, st1)"
  using EnsureOrganization_establishes [OF assms] EnsureOrganization_ensured by blast

lemma update_users_fixed:
  assumes "list_all (\<lambda>u. u_ID u = uid \<longrightarrow> f u = u) (users st)"
  shows "update_users uid f st = st"
proof -
  have "map (\<lambda>u. if u_ID u = uid then f u else u) (users st) = users st"
    using assms by (intro map_idI) (auto simp: list_all_iff)
  then show ?thesis by (simp add: update_users_def)
qed

lemma save_organization_found:
  "find (\<lambda>r. o_ID r = orgID) (organizations st) = Some org \<Longrightarrow> save_organization org st = st"
  by (auto simp: save_organization_def list_ex_iff dest: find_mem)

lemma save_department_found:
  "find (\<lambda>d. d_ID d = deptID) (departments st) = Some dept \<Longrightarrow> save_department dept st = st"
  by (auto simp: save_department_def list_ex_iff dest: find_mem)

lemma record_same_department:
  "u_PrimaryDepartmentID user = Some deptID \<Longrightarrow> user\<lparr>u_PrimaryDepartmentID := Some deptID\<rparr> = user"
  by (cases user) simp

lemma record_same_organization:
  "u_PrimaryOrganizationID user = Some orgID \<Longrightarrow>
   user\<lparr>u_PrimaryOrganizationID := Some orgID\<rparr> = user"
  by (cases user) simp

text \<open>
  Save of a struct whose associations were preloaded from the store it is saved to:
  the associations are rows of the store, so saving them changes nothing, and the
  department key they set is the one the struct has. What remains is the organization
  key, taken from the preloaded organization when there is one, and the row write.
\<close>

lemma Update_preloaded:
  assumes dept: "u_PrimaryDepartmentID user = u_PrimaryDepartmentID user0"
  shows "Update user (baseQuery st user0) st =
     (let user' = (case ua_PrimaryOrganization (baseQuery st user0) of
                     None \<Rightarrow> user
                   | Some org \<Rightarrow> user\<lparr>u_PrimaryOrganizationID := Some (o_ID org)\<rparr>)
      in if list_ex (\<lambda>u. u_ID u \<noteq> u_ID user \<and> u_Email u = u_Email user) (users st)
           then (Inl (ErrDuplicatedKey ''users.email''), st)
         else if list_ex (\<lambda>u. u_ID u \<noteq> u_ID user \<and> u_Username u = u_Username user) (users st)
           then (Inl (ErrDuplicatedKey ''users.username''), st)
         else (Inr user', update_users (u_ID user) (\<lambda>_. user') st))"
proof -
  let ?po = "ua_PrimaryOrganization (baseQuery st user0)"
  let ?pd = "ua_PrimaryDepartment (baseQuery st user0)"
  let ?user1 = "case ?po of None \<Rightarrow> user
                | Some org \<Rightarrow> user\<lparr>u_PrimaryOrganizationID := Some (o_ID org)\<rparr>"
  have org_step: "(case ?po of None \<Rightarrow> (user, st)
                   | Some org \<Rightarrow> (user\<lparr>u_PrimaryOrganizationID := Some (o_ID org)\<rparr>,
                                 save_organization org st)) = (?user1, st)"
    by (auto simp: baseQuery_def save_organization_found split: option.splits)
  have pd1: "u_PrimaryDepartmentID ?user1 = u_PrimaryDepartmentID user0"
    using dept by (simp split: option.splits)
  have dept_step: "(case ?pd of None \<Rightarrow> (?user1, st)
                    | Some dept \<Rightarrow> (?user1\<lparr>u_PrimaryDepartmentID := Some (d_ID dept)\<rparr>,
                                   save_department dept st)) = (?user1, st)"
  proof (cases ?pd)
    case None
    then show ?thesis by simp
  next
    case (Some dept)
    then obtain deptID where k: "u_PrimaryDepartmentID user0 = Some deptID"
      and f: "find (\<lambda>d. d_ID d = deptID) (departments st) = Some dept"
      by (auto simp: baseQuery_def split: option.splits)
    from find_SomeD [OF f] have "d_ID dept = deptID" .
    with pd1 k have "?user1\<lparr>u_PrimaryDepartmentID := Some (d_ID dept)\<rparr> = ?user1"
      by (intro record_same_department) simp
    with Some save_department_found [OF f] show ?thesis by simp
  qed
  have ids: "u_ID ?user1 = u_ID user" "u_Email ?user1 = u_Email user"
    "u_Username ?user1 = u_Username user"
    by (simp_all split: option.splits)
  show ?thesis
    by (simp add: Update_def Let_def org_step dept_step ids)
qed

lemma Update_fixed:
  assumes "admin_account input orgID st user"
  shows "Update (user\<lparr>u_PrimaryOrganizationID := Some k\<rparr>) (baseQuery st user) st = (Inr user, st)"
proof -
  from assms have
    e: "\<not> list_ex (\<lambda>u. u_ID u \<noteq> u_ID user \<and> u_Email u = admin_email input) (users st)"
    and n: "\<not> list_ex (\<lambda>u. u_ID u \<noteq> u_ID user \<and> u_Username u = admin_username input) (users st)"
    and a: "list_all (\<lambda>u. u_ID u = u_ID user \<longrightarrow> u = user) (users st)"
    and un: "u_Username user = admin_username input"
    and f: "GetByEmail st (admin_email input) = Some user"
    and p: "u_PrimaryOrganizationID user = Some orgID"
    and o: "find (\<lambda>r. o_ID r = orgID) (organizations st) \<noteq> None"
    by (simp_all add: admin_account_def)
  have em: "u_Email user = admin_email input"
    using find_SomeD [OF f [unfolded GetByEmail_def]] .
  from o obtain org where org: "find (\<lambda>r. o_ID r = orgID) (organizations st) = Some org"
    by auto
  have key: "o_ID org = orgID" using find_SomeD [OF org] .
  have po: "ua_PrimaryOrganization (baseQuery st user) = Some org"
    using p org by (simp add: baseQuery_def)
  have again: "user\<lparr>u_PrimaryOrganizationID := Some k, u_PrimaryOrganizationID := Some orgID\<rparr> = user"
    using p by (cases user) simp
  have same: "update_users (u_ID user) (\<lambda>_. user) st = st"
    by (rule update_users_fixed) (use a in \<open>auto simp: list_all_iff\<close>)
  show ?thesis
    using e n by (simp add: Update_preloaded po key again same em un)
qed

lemma updateAdmin_fixed:
  assumes acc: "admin_account input orgID st user"
      and noforce: "\<not> in_ForcePasswordReset input"
  shows "updateAdmin cfg salt input org (admin_username input) user (baseQuery st user) st
           = (Inr user, st)"
proof -
  from acc have fields: "u_Username user = admin_username input"
    "TrimSpace (in_AdminFirstName input) = []
       \<or> u_FirstName user = TrimSpace (in_AdminFirstName input)"
    "TrimSpace (in_AdminLastName input) = []
       \<or> u_LastName user = TrimSpace (in_AdminLastName input)"
    "u_IsActive user" "u_IsVerified user" "u_IsSuperAdmin user"
    and pw: "CompareHashAndPassword (u_Password user) (in_AdminPassword input)"
    by (simp_all add: admin_account_def)
  let ?user1 = "user\<lparr>u_Username := admin_username input,
      u_FirstName := (if TrimSpace (in_AdminFirstName input) = [] then u_FirstName user
                      else TrimSpace (in_AdminFirstName input)),
      u_LastName := (if TrimSpace (in_AdminLastName input) = [] then u_LastName user
                     else TrimSpace (in_AdminLastName input)),
      u_IsActive := True, u_IsVerified := True, u_IsSuperAdmin := True,
      u_PrimaryOrganizationID := Some (o_ID org)\<rparr>"
  have same: "?user1 = user\<lparr>u_PrimaryOrganizationID := Some (o_ID org)\<rparr>"
    using fields by (cases user) auto
  show ?thesis
    unfolding updateAdmin_def Let_def same
    using pw noforce by (simp add: Update_fixed [OF acc])
qed

lemma UpsertUserOrganization_fixed:
  assumes "admin_membership orgID st user"
  shows "UpsertUserOrganization (u_ID user) orgID OrganizationRoleSystemAdmin True st = st"
proof -
  let ?P = "\<lambda>m. uo_UserID m = u_ID user \<and> uo_OrganizationID m = orgID"
  from assms have ex: "list_ex ?P (user_organizations st)"
    and al: "list_all (\<lambda>m. ?P m \<longrightarrow> uo_Role m = OrganizationRoleSystemAdmin \<and> uo_IsPrimary m)
               (user_organizations st)"
    by (simp_all add: admin_membership_def)
  have "map (\<lambda>m. if ?P m then m\<lparr>uo_Role := OrganizationRoleSystemAdmin, uo_IsPrimary := True\<rparr>
                  else m) (user_organizations st) = user_organizations st"
    using al by (intro map_idI) (auto simp: list_all_iff)
  with ex show ?thesis by (simp add: UpsertUserOrganization_def)
qed

lemma SetUserPrimaryOrganization_fixed:
  assumes "admin_account input orgID st user"
  shows "SetUserPrimaryOrganization (u_ID user) orgID st = st"
  unfolding SetUserPrimaryOrganization_def
proof (rule update_users_fixed)
  from assms have a: "list_all (\<lambda>u. u_ID u = u_ID user \<longrightarrow> u = user) (users st)"
    and p: "u_PrimaryOrganizationID user = Some orgID"
    by (simp_all add: admin_account_def)
  have "u\<lparr>u_PrimaryOrganizationID := Some orgID\<rparr> = u"
    if "u \<in> set (users st)" "u_ID u = u_ID user" for u
  proof -
    from a that have "u = user" by (simp add: list_all_iff)
    with p show ?thesis by (simp add: record_same_organization)
  qed
  then show "list_all (\<lambda>u. u_ID u = u_ID user \<longrightarrow> u\<lparr>u_PrimaryOrganizationID := Some orgID\<rparr> = u)
               (users st)"
    by (simp add: list_all_iff)
qed

text \<open>
  A store in which the organization is ensured, the account points at organization
  \<open>orgID\<close> and holds the administrator membership of it is a fixed point: the call
  returns the ensured organization under the key \<open>orgID\<close>, and the account.
\<close>

lemma BootstrapAdmin_fixed:
  assumes org: "ensured (in_OrganizationName input) (in_OrganizationDescription input)
                  (in_OrganizationDomain input) st org"
      and acc: "admin_account input orgID st user"
      and mem: "admin_membership orgID st user"
      and email: "admin_email input \<noteq> []"
      and len: "\<not> int (length (in_AdminPassword input))
                   < (if cfg_PasswordMinLength cfg \<le> 0 then 8 else cfg_PasswordMinLength cfg)"
      and noforce: "\<not> in_ForcePasswordReset input"
  shows "BootstrapAdmin cfg salt (Some input) st = (Inr (org\<lparr>o_ID := orgID\<rparr>, user), st)"
proof -
  from acc have found: "GetByEmail st (TrimSpace (in_AdminEmail input)) = Some user"
    and p: "u_PrimaryOrganizationID user = Some orgID"
    by (simp_all add: admin_account_def admin_email_def)
  have upd: "updateAdmin cfg salt input org
               (if TrimSpace (in_AdminUsername input) = [] then TrimSpace (in_AdminEmail input)
                else TrimSpace (in_AdminUsername input)) user (baseQuery st user) st
             = (Inr user, st)"
    using updateAdmin_fixed [OF acc noforce, of cfg salt org,
        unfolded admin_username_def admin_email_def] .
  show ?thesis
    unfolding BootstrapAdmin_def Let_def
    using email len
    by (simp add: EnsureOrganization_ensured [OF org] admin_email_def found upd p
          UpsertUserOrganization_fixed [OF mem] SetUserPrimaryOrganization_fixed [OF acc])
qed

lemma GenerateFromPassword_verifies:
  "GenerateFromPassword salt password cost = Inr hashed \<Longrightarrow>
   CompareHashAndPassword hashed password"
  by (auto simp: GenerateFromPassword_def split: if_splits)

lemma find_map_replace:
  assumes "find P xs = Some x0" and "P r"
  shows "find P (map (\<lambda>x. if k x = k x0 then r else x) xs) = Some r"
  using assms
proof (induction xs)
  case Nil
  then show ?case by simp
next
  case (Cons a xs)
  show ?case
  proof (cases "k a = k x0")
    case True
    with Cons.prems(2) show ?thesis by simp
  next
    case False
    then have "a \<noteq> x0" by auto
    with Cons.prems(1) have "\<not> P a" "find P xs = Some x0"
      by (auto split: if_splits)
    with False Cons.IH [OF _ Cons.prems(2)] show ?thesis by simp
  qed
qed

lemma ensured_cong:
  "organizations st' = organizations st \<Longrightarrow>
   ensured name description domain st' org = ensured name description domain st org"
  by (simp add: ensured_def)

lemma admin_account_cong:
  "users st' = users st \<Longrightarrow> organizations st' = organizations st \<Longrightarrow>
   admin_account input orgID st' user = admin_account input orgID st user"
  by (simp add: admin_account_def GetByEmail_def)

lemma find_key_mem:
  "x \<in> set xs \<Longrightarrow> find (\<lambda>y. k y = k x) xs \<noteq> None"
  by (auto simp: find_None_iff)

lemma createAdmin_account:
  assumes none: "GetByEmail st (admin_email input) = None"
      and stored: "org \<in> set (organizations st)"
      and run: "createAdmin cfg salt input org (admin_email input) (admin_username input) st
                  = (Inr user, st')"
  shows "admin_account input (o_ID org) st' user \<and> st' = st\<lparr>users := users st'\<rparr>"
proof -
  let ?uid = "next_id (map u_ID (users st))"
  from run obtain hashed where
    hash: "GenerateFromPassword salt (in_AdminPassword input) (cfg_BCryptCost cfg) = Inr hashed"
    by (auto simp: createAdmin_def split: sum.splits)
  then have pw: "CompareHashAndPassword hashed (in_AdminPassword input)"
    by (auto simp: GenerateFromPassword_def split: if_splits)
  let ?new = "\<lparr>u_ID = ?uid, u_Email = admin_email input, u_Username = admin_username input,
      u_Password = hashed,
      u_FirstName = (if TrimSpace (in_AdminFirstName input) = [] then ''System''
                     else TrimSpace (in_AdminFirstName input)),
      u_LastName = (if TrimSpace (in_AdminLastName input) = [] then ''Administrator''
                    else TrimSpace (in_AdminLastName input)),
      u_IsActive = True, u_IsVerified = True, u_IsSuperAdmin = True,
      u_PrimaryOrganizationID = Some (o_ID org), u_PrimaryDepartmentID = None,
      u_LastLogin = None, u_LoginAttempts = 0, u_LockedUntil = None, u_MFAEnabled = False\<rparr>"
  from run hash have created: "user = ?new" "st' = st\<lparr>users := users st @ [?new]\<rparr>"
    and e: "\<not> list_ex (\<lambda>u. u_Email u = admin_email input) (users st)"
    and n: "\<not> list_ex (\<lambda>u. u_Username u = admin_username input) (users st)"
    by (auto simp: createAdmin_def Create_def Let_def split: if_splits)
  have ids: "u \<in> set (users st) \<Longrightarrow> u_ID u \<noteq> ?uid" for u
    using next_id_greater [of "u_ID u" "map u_ID (users st)"] by auto
  have found: "GetByEmail st' (admin_email input) = Some user"
    using none unfolding created by (simp add: GetByEmail_def find_append)
  have e': "\<not> list_ex (\<lambda>u. u_ID u \<noteq> u_ID user \<and> u_Email u = admin_email input) (users st')"
    using e unfolding created by (auto simp: list_ex_iff)
  have n': "\<not> list_ex (\<lambda>u. u_ID u \<noteq> u_ID user \<and> u_Username u = admin_username input) (users st')"
    using n unfolding created by (auto simp: list_ex_iff)
  have a: "list_all (\<lambda>u. u_ID u = u_ID user \<longrightarrow> u = user) (users st')"
    using ids unfolding created by (auto simp: list_all_iff)
  have o: "find (\<lambda>r. o_ID r = o_ID org) (organizations st') \<noteq> None"
    using find_key_mem [OF stored, of o_ID] unfolding created by simp
  have fields: "u_Username user = admin_username input"
    "TrimSpace (in_AdminFirstName input) = []
       \<or> u_FirstName user = TrimSpace (in_AdminFirstName input)"
    "TrimSpace (in_AdminLastName input) = []
       \<or> u_LastName user = TrimSpace (in_AdminLastName input)"
    "u_IsActive user" "u_IsVerified user" "u_IsSuperAdmin user"
    "u_PrimaryOrganizationID user = Some (o_ID org)"
    "CompareHashAndPassword (u_Password user) (in_AdminPassword input)"
    unfolding created using pw by simp_all
  have "admin_account input (o_ID org) st' user"
    unfolding admin_account_def using found fields e' n' a o by blast
  moreover have "st' = st\<lparr>users := users st'\<rparr>" unfolding created by simp
  ultimately show ?thesis by blast
qed

text \<open>
  The update branch leaves the account pointing at the organization that was preloaded
  into it, and only when there was none at the organization just ensured.
\<close>

lemma updateAdmin_account:
  assumes found: "GetByEmail st (admin_email input) = Some user0"
      and stored: "org \<in> set (organizations st)"
      and run: "updateAdmin cfg salt input org (admin_username input) user0 (baseQuery st user0) st
                  = (Inr user, st')"
  shows "\<exists>orgID. admin_account input orgID st' user \<and> st' = st\<lparr>users := users st'\<rparr>"
proof -
  let ?user1 = "user0\<lparr>u_Username := admin_username input,
      u_FirstName := (if TrimSpace (in_AdminFirstName input) = [] then u_FirstName user0
                      else TrimSpace (in_AdminFirstName input)),
      u_LastName := (if TrimSpace (in_AdminLastName input) = [] then u_LastName user0
                     else TrimSpace (in_AdminLastName input)),
      u_IsActive := True, u_IsVerified := True, u_IsSuperAdmin := True,
      u_PrimaryOrganizationID := Some (o_ID org)\<rparr>"
  let ?po = "ua_PrimaryOrganization (baseQuery st user0)"
  have em0: "u_Email user0 = admin_email input"
    using find_SomeD [OF found [unfolded GetByEmail_def]] .
  from run obtain user2 where
    saved: "Update user2 (baseQuery st user0) st = (Inr user, st')"
    and pwd: "(user2 = ?user1
                \<and> CompareHashAndPassword (u_Password user0) (in_AdminPassword input))
              \<or> (\<exists>hashed. GenerateFromPassword salt (in_AdminPassword input) (cfg_BCryptCost cfg)
                             = Inr hashed \<and> user2 = ?user1\<lparr>u_Password := hashed\<rparr>)"
    by (auto simp: updateAdmin_def Let_def split: if_splits sum.splits prod.splits)
  from pwd have pw2: "CompareHashAndPassword (u_Password user2) (in_AdminPassword input)"
    and rest: "user2\<lparr>u_Password := u_Password user0\<rparr> = ?user1"
    by (auto dest: GenerateFromPassword_verifies)
  from rest have
    "u_ID (user2\<lparr>u_Password := u_Password user0\<rparr>) = u_ID ?user1"
    "u_Email (user2\<lparr>u_Password := u_Password user0\<rparr>) = u_Email ?user1"
    "u_Username (user2\<lparr>u_Password := u_Password user0\<rparr>) = u_Username ?user1"
    "u_FirstName (user2\<lparr>u_Password := u_Password user0\<rparr>) = u_FirstName ?user1"
    "u_LastName (user2\<lparr>u_Password := u_Password user0\<rparr>) = u_LastName ?user1"
    "u_IsActive (user2\<lparr>u_Password := u_Password user0\<rparr>) = u_IsActive ?user1"
    "u_IsVerified (user2\<lparr>u_Password := u_Password user0\<rparr>) = u_IsVerified ?user1"
    "u_IsSuperAdmin (user2\<lparr>u_Password := u_Password user0\<rparr>) = u_IsSuperAdmin ?user1"
    "u_PrimaryOrganizationID (user2\<lparr>u_Password := u_Password user0\<rparr>)
       = u_PrimaryOrganizationID ?user1"
    "u_PrimaryDepartmentID (user2\<lparr>u_Password := u_Password user0\<rparr>)
       = u_PrimaryDepartmentID ?user1"
    by simp_all
  then have fields2: "u_ID user2 = u_ID user0" "u_Email user2 = admin_email input"
    "u_Username user2 = admin_username input"
    "TrimSpace (in_AdminFirstName input) = []
       \<or> u_FirstName user2 = TrimSpace (in_AdminFirstName input)"
    "TrimSpace (in_AdminLastName input) = []
       \<or> u_LastName user2 = TrimSpace (in_AdminLastName input)"
    "u_IsActive user2" "u_IsVerified user2" "u_IsSuperAdmin user2"
    "u_PrimaryOrganizationID user2 = Some (o_ID org)"
    "u_PrimaryDepartmentID user2 = u_PrimaryDepartmentID user0"
    using em0 by simp_all
  let ?user' = "case ?po of None \<Rightarrow> user2
                | Some p \<Rightarrow> user2\<lparr>u_PrimaryOrganizationID := Some (o_ID p)\<rparr>"
  from saved [unfolded Update_preloaded [OF fields2(10)] Let_def] have
    e: "\<not> list_ex (\<lambda>u. u_ID u \<noteq> u_ID user2 \<and> u_Email u = u_Email user2) (users st)"
    and n: "\<not> list_ex (\<lambda>u. u_ID u \<noteq> u_ID user2 \<and> u_Username u = u_Username user2) (users st)"
    and user: "user = ?user'"
    and st': "st' = update_users (u_ID user2) (\<lambda>_. user) st"
    by (auto split: if_splits)
  define orgID where "orgID = (case ?po of None \<Rightarrow> o_ID org | Some p \<Rightarrow> o_ID p)"
  have fields: "u_ID user = u_ID user0" "u_Email user = admin_email input"
    "u_Username user = admin_username input"
    "TrimSpace (in_AdminFirstName input) = []
       \<or> u_FirstName user = TrimSpace (in_AdminFirstName input)"
    "TrimSpace (in_AdminLastName input) = []
       \<or> u_LastName user = TrimSpace (in_AdminLastName input)"
    "u_IsActive user" "u_IsVerified user" "u_IsSuperAdmin user"
    "u_PrimaryOrganizationID user = Some orgID"
    "CompareHashAndPassword (u_Password user) (in_AdminPassword input)"
    using fields2 pw2 unfolding user orgID_def by (simp_all split: option.splits)
  have o: "find (\<lambda>r. o_ID r = orgID) (organizations st) \<noteq> None"
  proof (cases ?po)
    case None
    with find_key_mem [OF stored, of o_ID] show ?thesis by (simp add: orgID_def)
  next
    case (Some p)
    then have "p \<in> set (organizations st)"
      by (auto simp: baseQuery_def split: option.splits dest: find_mem)
    from find_key_mem [OF this, of o_ID] Some show ?thesis by (simp add: orgID_def)
  qed
  have rows: "users st' = map (\<lambda>u. if u_ID u = u_ID user0 then user else u) (users st)"
    unfolding st' by (simp add: fields2)
  have orgs: "organizations st' = organizations st"
    unfolding st' by (simp add: update_users_def)
  have found': "GetByEmail st' (admin_email input) = Some user"
    unfolding GetByEmail_def rows
    by (rule find_map_replace [OF found [unfolded GetByEmail_def]]) (simp add: fields)
  have e': "\<not> list_ex (\<lambda>u. u_ID u \<noteq> u_ID user \<and> u_Email u = admin_email input) (users st')"
    using e unfolding rows by (auto simp: list_ex_iff fields fields2)
  have n': "\<not> list_ex (\<lambda>u. u_ID u \<noteq> u_ID user \<and> u_Username u = admin_username input) (users st')"
    using n unfolding rows by (auto simp: list_ex_iff fields fields2)
  have a: "list_all (\<lambda>u. u_ID u = u_ID user \<longrightarrow> u = user) (users st')"
    unfolding rows by (auto simp: list_all_iff fields)
  have "admin_account input orgID st' user"
    unfolding admin_account_def orgs using found' fields(3-10) e' n' a o by blast
  moreover have "st' = st\<lparr>users := users st'\<rparr>" unfolding st' by (simp add: update_users_def)
  ultimately show ?thesis by blast
qed

lemma UpsertUserOrganization_membership:
  "admin_membership orgID
     (UpsertUserOrganization (u_ID user) orgID OrganizationRoleSystemAdmin True st) user"
proof (cases "list_ex (\<lambda>m. uo_UserID m = u_ID user \<and> uo_OrganizationID m = orgID)
                (user_organizations st)")
  case True
  then obtain m where "m \<in> set (user_organizations st)"
    "uo_UserID m = u_ID user" "uo_OrganizationID m = orgID"
    by (auto simp: list_ex_iff)
  then have "\<exists>m' \<in> set (map (\<lambda>m. if uo_UserID m = u_ID user \<and> uo_OrganizationID m = orgID
                       then m\<lparr>uo_Role := OrganizationRoleSystemAdmin, uo_IsPrimary := True\<rparr>
                       else m) (user_organizations st)).
            uo_UserID m' = u_ID user \<and> uo_OrganizationID m' = orgID"
    by (intro bexI [of _ "m\<lparr>uo_Role := OrganizationRoleSystemAdmin, uo_IsPrimary := True\<rparr>"])
       (auto intro!: image_eqI [of _ _ m])
  with True show ?thesis
    by (auto simp: admin_membership_def UpsertUserOrganization_def list_ex_iff list_all_iff)
next
  case False
  then show ?thesis
    by (auto simp: admin_membership_def UpsertUserOrganization_def list_ex_iff list_all_iff)
qed

lemma ensured_stored:
  "ensured name description domain st org \<Longrightarrow> org \<in> set (organizations st)"
  by (auto simp: ensured_def dest: find_mem split: if_splits)

text \<open>
  What a successful call leaves: the organization that the lookups of
  \<open>EnsureOrganization\<close> find, healed, which the call returns under the key the account
  points at; the account; and its administrator membership of that key.
\<close>

lemma BootstrapAdmin_establishes:
  assumes dist: "distinct (map o_ID (organizations st))"
      and run: "BootstrapAdmin cfg salt (Some input) st = (Inr (org, user), stF)"
  shows "\<exists>org0. org = org0\<lparr>o_ID := o_ID org\<rparr>
           \<and> ensured (in_OrganizationName input) (in_OrganizationDescription input)
               (in_OrganizationDomain input) stF org0
           \<and> admin_account input (o_ID org) stF user \<and> admin_membership (o_ID org) stF user
           \<and> admin_email input \<noteq> []
           \<and> \<not> int (length (in_AdminPassword input))
                  < (if cfg_PasswordMinLength cfg \<le> 0 then 8 else cfg_PasswordMinLength cfg)"
proof -
  let ?E = "EnsureOrganization (in_OrganizationName input) (in_OrganizationDescription input)
              (in_OrganizationDomain input) st"
  obtain r st1 where E: "?E = (r, st1)" by (cases ?E)
  with run obtain org0 where r: "r = Inr org0"
    by (cases r) (auto simp: BootstrapAdmin_def)
  from run E r have email: "admin_email input \<noteq> []"
    by (auto simp: BootstrapAdmin_def Let_def admin_email_def split: if_splits)
  from run E r email have len: "\<not> int (length (in_AdminPassword input))
                < (if cfg_PasswordMinLength cfg \<le> 0 then 8 else cfg_PasswordMinLength cfg)"
    by (auto simp: BootstrapAdmin_def Let_def admin_email_def split: if_splits)
  let ?B = "case GetByEmail st1 (admin_email input) of
              None \<Rightarrow> createAdmin cfg salt input org0 (admin_email input) (admin_username input) st1
            | Some user0 \<Rightarrow> updateAdmin cfg salt input org0 (admin_username input) user0
                             (baseQuery st1 user0) st1"
  obtain s st2 where B: "?B = (s, st2)" by (cases ?B)
  have unfolded: "BootstrapAdmin cfg salt (Some input) st =
      (case s of Inl err \<Rightarrow> (Inl err, st2)
       | Inr u \<Rightarrow>
           (Inr (org0\<lparr>o_ID := (case u_PrimaryOrganizationID u of
                                 None \<Rightarrow> o_ID org0 | Some orgID \<Rightarrow> orgID)\<rparr>, u),
            SetUserPrimaryOrganization (u_ID u)
              (case u_PrimaryOrganizationID u of None \<Rightarrow> o_ID org0 | Some orgID \<Rightarrow> orgID)
              (UpsertUserOrganization (u_ID u)
                 (case u_PrimaryOrganizationID u of None \<Rightarrow> o_ID org0 | Some orgID \<Rightarrow> orgID)
                 OrganizationRoleSystemAdmin True st2)))"
    using E r email len B [unfolded admin_username_def admin_email_def]
    by (simp add: BootstrapAdmin_def Let_def admin_email_def split: sum.splits)
  from EnsureOrganization_establishes [OF dist E [unfolded r]]
  have ens1: "ensured (in_OrganizationName input) (in_OrganizationDescription input)
           (in_OrganizationDomain input) st1 org0" by blast
  have stored: "org0 \<in> set (organizations st1)" by (rule ensured_stored [OF ens1])
  from unfolded run have s: "s = Inr user" by (auto split: sum.splits)
  have "\<exists>orgID. admin_account input orgID st2 user \<and> st2 = st1\<lparr>users := users st2\<rparr>"
  proof (cases "GetByEmail st1 (admin_email input)")
    case None
    with B s have "createAdmin cfg salt input org0 (admin_email input) (admin_username input) st1
                     = (Inr user, st2)" by simp
    from createAdmin_account [OF None stored this] show ?thesis by blast
  next
    case (Some user0)
    with B s have "updateAdmin cfg salt input org0 (admin_username input) user0
                     (baseQuery st1 user0) st1 = (Inr user, st2)" by simp
    from updateAdmin_account [OF Some stored this] show ?thesis .
  qed
  then obtain orgID where acc2: "admin_account input orgID st2 user"
    and st2: "st2 = st1\<lparr>users := users st2\<rparr>" by blast
  from acc2 have p: "u_PrimaryOrganizationID user = Some orgID"
    by (simp add: admin_account_def)
  from unfolded run s p have o: "org = org0\<lparr>o_ID := orgID\<rparr>"
    and stF: "stF = SetUserPrimaryOrganization (u_ID user) orgID
                      (UpsertUserOrganization (u_ID user) orgID
                         OrganizationRoleSystemAdmin True st2)"
    by auto
  have key: "o_ID org = orgID" unfolding o by simp
  let ?st3 = "UpsertUserOrganization (u_ID user) orgID OrganizationRoleSystemAdmin True st2"
  have users3: "users ?st3 = users st2" by (simp add: UpsertUserOrganization_def)
  have orgs3: "organizations ?st3 = organizations st2" by (simp add: UpsertUserOrganization_def)
  have acc3: "admin_account input orgID ?st3 user"
    using acc2 admin_account_cong [OF users3 orgs3] by blast
  have stF': "stF = ?st3"
    unfolding stF by (rule SetUserPrimaryOrganization_fixed [OF acc3])
  have "organizations st2 = organizations st1"
    using st2 by (metis db.select_convs(2) db.surjective db.update_convs(1))
  then have orgs: "organizations stF = organizations st1"
    unfolding stF' orgs3 .
  from ens1 ensured_cong [OF orgs] have ens: "ensured (in_OrganizationName input)
      (in_OrganizationDescription input) (in_OrganizationDomain input) stF org0" by blast
  have mem: "admin_membership orgID stF user"
    unfolding stF' by (rule UpsertUserOrganization_membership)
  have shape: "org = org0\<lparr>o_ID := o_ID org\<rparr>" unfolding o by simp
  from shape ens acc3 mem email len show ?thesis unfolding stF' key by blast
qed

text \<open>
  C9. BootstrapAdmin is idempotent under repeated identical input. When a call on a
  store whose organization ids are unique (the primary key) succeeds, and the input
  does not force a password reset, a second call with the same input succeeds, returns
  the same organization and the same account, and leaves every modelled column of the
  store as the first call left it: no second organization, no second account, no second
  membership row, and the stored password hash untouched, whatever salt a rehash would
  have used. This covers the call that finds the account under another primary
  organization: it returns the ensured organization under that organization's key,
  and so does its repetition.
\<close>

theorem BootstrapAdmin_idempotent:
  assumes keys: "distinct (map o_ID (organizations st))"
      and first: "BootstrapAdmin cfg salt (Some input) st = (Inr (org, user), st1)"
      and noforce: "\<not> in_ForcePasswordReset input"
  shows "BootstrapAdmin cfg salt' (Some input) st1 = (Inr (org, user), st1)"
proof -
  from BootstrapAdmin_establishes [OF keys first] obtain org0 where
    shape: "org = org0\<lparr>o_ID := o_ID org\<rparr>"
    and ens: "ensured (in_OrganizationName input) (in_OrganizationDescription input)
                (in_OrganizationDomain input) st1 org0"
    and acc: "admin_account input (o_ID org) st1 user"
    and mem: "admin_membership (o_ID org) st1 user"
    and email: "admin_email input \<noteq> []"
    and len: "\<not> int (length (in_AdminPassword input))
                 < (if cfg_PasswordMinLength cfg \<le> 0 then 8 else cfg_PasswordMinLength cfg)"
    by blast
  from BootstrapAdmin_fixed [OF ens acc mem email len noforce, of salt'] shape
  show ?thesis by simp
qed

theorem BootstrapAdmin_idempotent_witness:
  "distinct (map o_ID (organizations empty_db))
   \<and> BootstrapAdmin ex_cfg 7 (Some ex_input) empty_db = (Inr (ex_org, ex_user), ex_bootstrapped)
   \<and> \<not> in_ForcePasswordReset ex_input
   \<and> BootstrapAdmin ex_cfg 8 (Some ex_input) ex_bootstrapped
       = (Inr (ex_org, ex_user), ex_bootstrapped)
   \<and> length (organizations ex_bootstrapped) = 1
   \<and> length (users ex_bootstrapped) = 1
   \<and> length (user_organizations ex_bootstrapped) = 1
   \<and> map u_Password (users ex_bootstrapped) = [BCrypt 10 7 ''ChangeMe123!'']
   \<and> distinct (map o_ID (organizations ex_bootstrapped))
   \<and> BootstrapAdmin ex_cfg 8 (Some ex_input2) ex_bootstrapped
       = (Inr (ex_org2\<lparr>o_ID := 1\<rparr>, ex_user), ex_rotated)
   \<and> \<not> in_ForcePasswordReset ex_input2
   \<and> BootstrapAdmin ex_cfg 9 (Some ex_input2) ex_rotated
       = (Inr (ex_org2\<lparr>o_ID := 1\<rparr>, ex_user), ex_rotated)"
proof -
  have keys: "distinct (map o_ID (organizations empty_db))"
    by (simp add: empty_db_def)
  have first: "BootstrapAdmin ex_cfg 7 (Some ex_input) empty_db
                 = (Inr (ex_org, ex_user), ex_bootstrapped)"
    by code_simp
  have noforce: "\<not> in_ForcePasswordReset ex_input"
    by (simp add: ex_input_def)
  have second: "BootstrapAdmin ex_cfg 8 (Some ex_input) ex_bootstrapped
                  = (Inr (ex_org, ex_user), ex_bootstrapped)"
    by (rule BootstrapAdmin_idempotent [OF keys first noforce])
  have rows: "length (organizations ex_bootstrapped) = 1" "length (users ex_bootstrapped) = 1"
    "length (user_organizations ex_bootstrapped) = 1"
    "map u_Password (users ex_bootstrapped) = [BCrypt 10 7 ''ChangeMe123!'']"
    by (simp_all add: ex_bootstrapped_def ex_user_def)
  have keys': "distinct (map o_ID (organizations ex_bootstrapped))"
    by (simp add: ex_bootstrapped_def)
  have first': "BootstrapAdmin ex_cfg 8 (Some ex_input2) ex_bootstrapped
                  = (Inr (ex_org2\<lparr>o_ID := 1\<rparr>, ex_user), ex_rotated)"
    by code_simp
  have noforce': "\<not> in_ForcePasswordReset ex_input2"
    by (simp add: ex_input2_def ex_input_def)
  have second': "BootstrapAdmin ex_cfg 9 (Some ex_input2) ex_rotated
                   = (Inr (ex_org2\<lparr>o_ID := 1\<rparr>, ex_user), ex_rotated)"
    by (rule BootstrapAdmin_idempotent [OF keys' first' noforce'])
  from keys first noforce second rows keys' first' noforce' second' show ?thesis by simp
qed

subsection \<open>The primary flag\<close>

text \<open>
  The two assignment operations of the organization service clear the user's primary
  flags before they write a primary membership, so each keeps "at most one primary
  membership per user" (and the composite key unique), whatever its outcome.
\<close>

lemma length_filter_map_le:
  assumes "\<And>x. x \<in> set xs \<Longrightarrow> P (g x) \<Longrightarrow> Q x"
  shows "length (filter P (map g xs)) \<le> length (filter Q xs)"
  using assms by (induction xs) auto

lemma length_filter_key_le_1:
  assumes "distinct (map k xs)"
  shows "length (filter (\<lambda>x. k x = a) xs) \<le> 1"
  using assms
proof (induction xs)
  case Nil
  then show ?case by simp
next
  case (Cons x xs)
  show ?case
  proof (cases "k x = a")
    case True
    from Cons.prems have "k x \<notin> k ` set xs" by simp
    with True have "\<forall>y\<in>set xs. k y \<noteq> a" by blast
    then have "filter (\<lambda>x. k x = a) xs = []"
      by (simp add: filter_empty_conv)
    with True show ?thesis by simp
  next
    case False
    with Cons show ?thesis by simp
  qed
qed

lemma list_ex_map_same:
  assumes "\<And>x. P (g x) = P x"
  shows "list_ex P (map g xs) = list_ex P xs"
  using assms by (induction xs) simp_all

lemma map_key_same:
  assumes "\<And>x. k (g x) = k x"
  shows "map k (map g xs) = map k xs"
  using assms by simp

lemma distinct_snoc_key:
  assumes "distinct (map k xs)" and "k y \<notin> set (map k xs)"
  shows "distinct (map k (xs @ [y]))"
  using assms by simp

lemma AssignUserToOrganization_keeps_one_primary:
  assumes keys: "distinct (organization_keys st)"
      and inv: "length (primary_organizations st u) \<le> 1"
  shows "length (primary_organizations (snd (AssignUserToOrganization input_opt st)) u) \<le> 1
         \<and> distinct (organization_keys (snd (AssignUserToOrganization input_opt st)))"
proof (cases "\<exists>e. fst (AssignUserToOrganization input_opt st) = Inl e")
  case True
  then have "snd (AssignUserToOrganization input_opt st) = st"
    by (auto simp: AssignUserToOrganization_def Let_def split: option.splits if_splits)
  with keys inv show ?thesis by simp
next
  case False
  then obtain input where input: "input_opt = Some input"
    by (cases input_opt) (auto simp: AssignUserToOrganization_def)
  let ?uid = "auo_UserID input" and ?oid = "auo_OrganizationID input"
  let ?rows = "user_organizations st"
  let ?key = "\<lambda>m. uo_UserID m = ?uid \<and> uo_OrganizationID m = ?oid"
  let ?clr = "\<lambda>m. if auo_IsPrimary input \<and> uo_UserID m = ?uid then m\<lparr>uo_IsPrimary := False\<rparr> else m"
  let ?upd = "\<lambda>m. if ?key m then m\<lparr>uo_Role := auo_Role input, uo_IsPrimary := auo_IsPrimary input\<rparr>
                   else m"
  let ?new = "\<lparr>uo_UserID = ?uid, uo_OrganizationID = ?oid, uo_Role = auo_Role input,
               uo_IsPrimary = auo_IsPrimary input, uo_Organization = None\<rparr>"
  let ?P = "\<lambda>m. uo_UserID m = u \<and> uo_IsPrimary m"
  let ?k = "\<lambda>m. (uo_UserID m, uo_OrganizationID m)"
  have kclr: "?k (?clr m) = ?k m" for m by simp
  have kupd: "?k (?upd m) = ?k m" for m by simp
  have keys1: "map ?k (map ?clr ?rows) = map ?k ?rows"
    using kclr by (rule map_key_same)
  have "map ?k (map ?upd (map ?clr ?rows)) = map ?k (map ?clr ?rows)"
    using kupd by (rule map_key_same)
  then have keys2: "map ?k (map ?upd (map ?clr ?rows)) = map ?k ?rows"
    using keys1 by (rule trans)
  have rows1: "map ?clr ?rows
      = (if auo_IsPrimary input
         then map (\<lambda>m. if uo_UserID m = ?uid then m\<lparr>uo_IsPrimary := False\<rparr> else m) ?rows
         else ?rows)"
    by (simp cong: if_cong)
  have result: "user_organizations (snd (AssignUserToOrganization input_opt st))
      = (if list_ex ?key (map ?clr ?rows) then map ?upd (map ?clr ?rows)
         else map ?clr ?rows @ [?new])"
    using False unfolding input rows1
    by (auto simp: AssignUserToOrganization_def Let_def UpsertUserOrganization_def
          ClearPrimaryOrganization_def SetUserPrimaryOrganization_def update_users_def
          split: if_splits)
  have ex: "list_ex ?key (map ?clr ?rows) = list_ex ?key ?rows"
    by (rule list_ex_map_same) simp
  have old: "length (filter ?P ?rows) \<le> 1"
    using inv by (simp add: primary_organizations_def)
  have one: "length (filter ?key ?rows) \<le> 1"
    using length_filter_key_le_1 [of "\<lambda>m. (uo_UserID m, uo_OrganizationID m)" ?rows "(?uid, ?oid)"]
      keys by (simp add: organization_keys_def)
  show ?thesis
  proof (cases "list_ex ?key ?rows")
    case True
    have "length (filter ?P (map (?upd \<circ> ?clr) ?rows)) \<le> 1"
    proof (cases "auo_IsPrimary input \<and> u = ?uid")
      case True
      have "length (filter ?P (map (?upd \<circ> ?clr) ?rows)) \<le> length (filter ?key ?rows)"
        by (rule length_filter_map_le) (use True in \<open>auto split: if_splits\<close>)
      with one show ?thesis by simp
    next
      case False
      have "length (filter ?P (map (?upd \<circ> ?clr) ?rows)) \<le> length (filter ?P ?rows)"
        by (rule length_filter_map_le) (use False in \<open>auto split: if_splits\<close>)
      with old show ?thesis by simp
    qed
    then have count: "length (filter ?P (map ?upd (map ?clr ?rows))) \<le> 1" by simp
    from keys keys2 have "distinct (map ?k (map ?upd (map ?clr ?rows)))"
      by (simp only: organization_keys_def)
    with count True ex show ?thesis
      by (simp add: result primary_organizations_def organization_keys_def)
  next
    case none: False
    have cleared: "length (filter ?P (map ?clr ?rows))
            \<le> length (filter (\<lambda>m. \<not> (auo_IsPrimary input \<and> u = ?uid) \<and> ?P m) ?rows)"
      by (rule length_filter_map_le) (auto split: if_splits)
    have count: "length (filter ?P (map ?clr ?rows @ [?new])) \<le> 1"
    proof (cases "auo_IsPrimary input \<and> u = ?uid")
      case True
      with cleared show ?thesis by simp
    next
      case False
      have "length (filter (\<lambda>m. \<not> (auo_IsPrimary input \<and> u = ?uid) \<and> ?P m) ?rows)
              \<le> length (filter ?P ?rows)"
        using length_filter_map_le [of ?rows "\<lambda>m. \<not> (auo_IsPrimary input \<and> u = ?uid) \<and> ?P m"
                "\<lambda>m. m" ?P] by simp
      with cleared old False show ?thesis
        using False by (auto simp: result)
    qed
    have d1: "distinct (map ?k (map ?clr ?rows))"
      using keys by (simp only: keys1 organization_keys_def)
    have "?k ?new \<notin> set (map ?k (map ?clr ?rows))"
      unfolding keys1 using none by (auto simp: list_ex_iff)
    with d1 have "distinct (map ?k (map ?clr ?rows @ [?new]))"
      by (rule distinct_snoc_key)
    with count none ex show ?thesis
      by (simp add: result primary_organizations_def organization_keys_def)
  qed
qed

lemma AssignUserToDepartment_keeps_one_primary:
  assumes keys: "distinct (department_keys st)"
      and inv: "length (primary_departments st u) \<le> 1"
  shows "length (primary_departments (snd (AssignUserToDepartment input_opt st)) u) \<le> 1
         \<and> distinct (department_keys (snd (AssignUserToDepartment input_opt st)))"
proof (cases "\<exists>e. fst (AssignUserToDepartment input_opt st) = Inl e")
  case True
  then have "snd (AssignUserToDepartment input_opt st) = st"
    by (auto simp: AssignUserToDepartment_def Let_def split: option.splits if_splits)
  with keys inv show ?thesis by simp
next
  case False
  then obtain input uid oid where input: "input_opt = Some input"
      and uid: "aud_UserID input = Some uid" and oid: "aud_DepartmentID input = Some oid"
    by (cases input_opt) (auto simp: AssignUserToDepartment_def split: option.splits)
  let ?uid = uid and ?oid = oid
  let ?rows = "user_departments st"
  let ?key = "\<lambda>m. ud_UserID m = ?uid \<and> ud_DepartmentID m = ?oid"
  let ?clr = "\<lambda>m. if aud_IsPrimary input \<and> ud_UserID m = ?uid then m\<lparr>ud_IsPrimary := False\<rparr> else m"
  let ?upd = "\<lambda>m. if ?key m then m\<lparr>ud_Role := aud_Role input, ud_IsPrimary := aud_IsPrimary input\<rparr>
                   else m"
  let ?new = "\<lparr>ud_UserID = ?uid, ud_DepartmentID = ?oid, ud_Role = aud_Role input,
               ud_IsPrimary = aud_IsPrimary input, ud_Department = None\<rparr>"
  let ?P = "\<lambda>m. ud_UserID m = u \<and> ud_IsPrimary m"
  let ?k = "\<lambda>m. (ud_UserID m, ud_DepartmentID m)"
  have kclr: "?k (?clr m) = ?k m" for m by simp
  have kupd: "?k (?upd m) = ?k m" for m by simp
  have keys1: "map ?k (map ?clr ?rows) = map ?k ?rows"
    using kclr by (rule map_key_same)
  have "map ?k (map ?upd (map ?clr ?rows)) = map ?k (map ?clr ?rows)"
    using kupd by (rule map_key_same)
  then have keys2: "map ?k (map ?upd (map ?clr ?rows)) = map ?k ?rows"
    using keys1 by (rule trans)
  have rows1: "map ?clr ?rows
      = (if aud_IsPrimary input
         then map (\<lambda>m. if ud_UserID m = ?uid then m\<lparr>ud_IsPrimary := False\<rparr> else m) ?rows
         else ?rows)"
    by (simp cong: if_cong)
  have result: "user_departments (snd (AssignUserToDepartment input_opt st))
      = (if list_ex ?key (map ?clr ?rows) then map ?upd (map ?clr ?rows)
         else map ?clr ?rows @ [?new])"
    using False unfolding input rows1
    by (auto simp: uid oid AssignUserToDepartment_def Let_def UpsertUserDepartment_def
          ClearPrimaryDepartment_def SetUserPrimaryDepartment_def update_users_def
          split: if_splits)
  have ex: "list_ex ?key (map ?clr ?rows) = list_ex ?key ?rows"
    by (rule list_ex_map_same) simp
  have old: "length (filter ?P ?rows) \<le> 1"
    using inv by (simp add: primary_departments_def)
  have one: "length (filter ?key ?rows) \<le> 1"
    using length_filter_key_le_1 [of "\<lambda>m. (ud_UserID m, ud_DepartmentID m)" ?rows "(?uid, ?oid)"]
      keys by (simp add: department_keys_def)
  show ?thesis
  proof (cases "list_ex ?key ?rows")
    case True
    have "length (filter ?P (map (?upd \<circ> ?clr) ?rows)) \<le> 1"
    proof (cases "aud_IsPrimary input \<and> u = ?uid")
      case True
      have "length (filter ?P (map (?upd \<circ> ?clr) ?rows)) \<le> length (filter ?key ?rows)"
        by (rule length_filter_map_le) (use True in \<open>auto split: if_splits\<close>)
      with one show ?thesis by simp
    next
      case False
      have "length (filter ?P (map (?upd \<circ> ?clr) ?rows)) \<le> length (filter ?P ?rows)"
        by (rule length_filter_map_le) (use False in \<open>auto split: if_splits\<close>)
      with old show ?thesis by simp
    qed
    then have count: "length (filter ?P (map ?upd (map ?clr ?rows))) \<le> 1" by simp
    from keys keys2 have "distinct (map ?k (map ?upd (map ?clr ?rows)))"
      by (simp only: department_keys_def)
    with count True ex show ?thesis
      by (simp add: result primary_departments_def department_keys_def)
  next
    case none: False
    have cleared: "length (filter ?P (map ?clr ?rows))
            \<le> length (filter (\<lambda>m. \<not> (aud_IsPrimary input \<and> u = ?uid) \<and> ?P m) ?rows)"
      by (rule length_filter_map_le) (auto split: if_splits)
    have count: "length (filter ?P (map ?clr ?rows @ [?new])) \<le> 1"
    proof (cases "aud_IsPrimary input \<and> u = ?uid")
      case True
      with cleared show ?thesis by simp
    next
      case False
      have "length (filter (\<lambda>m. \<not> (aud_IsPrimary input \<and> u = ?uid) \<and> ?P m) ?rows)
              \<le> length (filter ?P ?rows)"
        using length_filter_map_le [of ?rows "\<lambda>m. \<not> (aud_IsPrimary input \<and> u = ?uid) \<and> ?P m"
                "\<lambda>m. m" ?P] by simp
      with cleared old False show ?thesis
        using False by (auto simp: result)
    qed
    have d1: "distinct (map ?k (map ?clr ?rows))"
      using keys by (simp only: keys1 department_keys_def)
    have "?k ?new \<notin> set (map ?k (map ?clr ?rows))"
      unfolding keys1 using none by (auto simp: list_ex_iff)
    with d1 have "distinct (map ?k (map ?clr ?rows @ [?new]))"
      by (rule distinct_snoc_key)
    with count none ex show ?thesis
      by (simp add: result primary_departments_def department_keys_def)
  qed
qed


text \<open>
  BootstrapAdmin touches the membership table once, in the upsert of its last but one
  statement. The lemmas below say which row that is and conclude that the call keeps
  "at most one primary membership" whenever the primary memberships of the account
  it finds are those of the organization the account points at, that organization
  being in the store (and no membership row of an account not yet created is primary).
\<close>

lemma updateOrganizationDefaults_frame:
  assumes "updateOrganizationDefaults org description domain isActive st = (r, st1)"
  shows "users st1 = users st \<and> user_organizations st1 = user_organizations st
         \<and> map o_ID (organizations st1) = map o_ID (organizations st)"
  using assms
  by (auto simp: updateOrganizationDefaults_alt split: if_splits option.splits)

lemma EnsureOrganization_frame:
  assumes "EnsureOrganization name description domain st = (r, st1)"
  shows "users st1 = users st \<and> user_organizations st1 = user_organizations st
         \<and> set (map o_ID (organizations st)) \<subseteq> set (map o_ID (organizations st1))"
proof (cases "TrimSpace name = []")
  case True
  with assms show ?thesis by (simp add: EnsureOrganization_def)
next
  case False
  let ?byDomain = "if TrimSpace domain \<noteq> []
                   then find (\<lambda>r. o_Domain r = TrimSpace domain) (organizations st) else None"
  show ?thesis
  proof (cases ?byDomain)
    case (Some org)
    with assms False
    have "updateOrganizationDefaults org description (TrimSpace domain) True st = (r, st1)"
      by (simp add: EnsureOrganization_def)
    from updateOrganizationDefaults_frame [OF this] show ?thesis by simp
  next
    case None
    show ?thesis
    proof (cases "find (\<lambda>r. o_Name r = TrimSpace name) (organizations st)")
      case (Some org)
      with assms False None
      have "updateOrganizationDefaults org description (TrimSpace domain) True st = (r, st1)"
        by (simp add: EnsureOrganization_def)
      from updateOrganizationDefaults_frame [OF this] show ?thesis by simp
    next
      case none: None
      with assms False None show ?thesis
        by (auto simp: EnsureOrganization_def CreateOrganization_def Let_def split: if_splits)
    qed
  qed
qed


lemma Update_frame:
  assumes "Update user assoc st = (r, st')"
  shows "user_organizations st' = user_organizations st"
  using assms
  by (auto simp: Update_def Let_def save_organization_def save_department_def update_users_def
        split: option.splits if_splits prod.splits)

lemma createAdmin_frame:
  assumes "createAdmin cfg salt input org email username st = (r, st')"
  shows "user_organizations st' = user_organizations st
         \<and> (\<forall>user. r = Inr user \<longrightarrow>
                u_ID user = next_id (map u_ID (users st))
                \<and> u_PrimaryOrganizationID user = Some (o_ID org))"
  using assms
  by (auto simp: createAdmin_def Create_def Let_def split: sum.splits if_splits)

lemma updateAdmin_frame:
  assumes "updateAdmin cfg salt input org username user0 (baseQuery st user0) st = (r, st')"
  shows "user_organizations st' = user_organizations st
         \<and> (\<forall>user. r = Inr user \<longrightarrow>
                u_ID user = u_ID user0
                \<and> u_PrimaryOrganizationID user =
                    Some (case ua_PrimaryOrganization (baseQuery st user0) of
                            None \<Rightarrow> o_ID org | Some p \<Rightarrow> o_ID p))"
proof -
  let ?user1 = "user0\<lparr>u_Username := username,
      u_FirstName := (if TrimSpace (in_AdminFirstName input) = [] then u_FirstName user0
                      else TrimSpace (in_AdminFirstName input)),
      u_LastName := (if TrimSpace (in_AdminLastName input) = [] then u_LastName user0
                     else TrimSpace (in_AdminLastName input)),
      u_IsActive := True, u_IsVerified := True, u_IsSuperAdmin := True,
      u_PrimaryOrganizationID := Some (o_ID org)\<rparr>"
  have saved: "user_organizations st' = user_organizations st
         \<and> (\<forall>user. r = Inr user \<longrightarrow>
                u_ID user = u_ID user0
                \<and> u_PrimaryOrganizationID user =
                    Some (case ua_PrimaryOrganization (baseQuery st user0) of
                            None \<Rightarrow> o_ID org | Some p \<Rightarrow> o_ID p))"
    if fields: "u_ID user2 = u_ID user0" "u_PrimaryOrganizationID user2 = Some (o_ID org)"
         "u_PrimaryDepartmentID user2 = u_PrimaryDepartmentID user0"
      and upd: "Update user2 (baseQuery st user0) st = (r', st')"
      and res: "r = (case r' of Inl err \<Rightarrow> Inl (Wrap ''update admin user'' err)
                     | Inr user3 \<Rightarrow> Inr user3)"
    for user2 r'
  proof -
    from Update_frame [OF upd] have f: "user_organizations st' = user_organizations st" .
    from upd [unfolded Update_preloaded [OF fields(3)] Let_def] res fields(1,2)
    have "\<forall>user. r = Inr user \<longrightarrow>
                u_ID user = u_ID user0
                \<and> u_PrimaryOrganizationID user =
                    Some (case ua_PrimaryOrganization (baseQuery st user0) of
                            None \<Rightarrow> o_ID org | Some p \<Rightarrow> o_ID p)"
      by (auto split: if_splits option.splits)
    with f show ?thesis by blast
  qed
  show ?thesis
  proof (cases "in_ForcePasswordReset input
             \<or> \<not> CompareHashAndPassword (u_Password ?user1) (in_AdminPassword input)")
    case False
    obtain r' st2 where U: "Update ?user1 (baseQuery st user0) st = (r', st2)"
      by (cases "Update ?user1 (baseQuery st user0) st")
    with assms False have "st' = st2"
      "r = (case r' of Inl err \<Rightarrow> Inl (Wrap ''update admin user'' err) | Inr user3 \<Rightarrow> Inr user3)"
      by (auto simp: updateAdmin_def Let_def split: sum.splits)
    with U show ?thesis by (intro saved [of ?user1 r']) simp_all
  next
    case True
    show ?thesis
    proof (cases "GenerateFromPassword salt (in_AdminPassword input) (cfg_BCryptCost cfg)")
      case (Inl err)
      with assms True show ?thesis by (auto simp: updateAdmin_def Let_def)
    next
      case (Inr hashed)
      let ?user2 = "?user1\<lparr>u_Password := hashed\<rparr>"
      obtain r' st2 where U: "Update ?user2 (baseQuery st user0) st = (r', st2)"
        by (cases "Update ?user2 (baseQuery st user0) st")
      with assms True Inr have "st' = st2"
        "r = (case r' of Inl err \<Rightarrow> Inl (Wrap ''update admin user'' err) | Inr user3 \<Rightarrow> Inr user3)"
        by (auto simp: updateAdmin_def Let_def split: sum.splits)
      with U show ?thesis by (intro saved [of ?user2 r']) simp_all
    qed
  qed
qed

lemma UpsertUserOrganization_rows:
  "user_organizations st' = user_organizations st \<Longrightarrow>
   user_organizations (UpsertUserOrganization userID orgID role isPrimary st')
     = user_organizations (UpsertUserOrganization userID orgID role isPrimary st)"
  by (simp add: UpsertUserOrganization_def)

text \<open>
  Which membership a call of BootstrapAdmin writes: none when it fails; when it
  succeeds, that of the account returned and of the organization key returned, which
  is the key the account found pointed at whenever that organization is in the store.
\<close>

lemma BootstrapAdmin_memberships:
  assumes run: "BootstrapAdmin cfg salt (Some input) st = (r, stF)"
  shows "case r of
           Inl err \<Rightarrow> user_organizations stF = user_organizations st
         | Inr (org, user) \<Rightarrow>
             user_organizations stF
               = user_organizations
                   (UpsertUserOrganization (u_ID user) (o_ID org) OrganizationRoleSystemAdmin True st)
             \<and> (case GetByEmail st (admin_email input) of
                  None \<Rightarrow> u_ID user = next_id (map u_ID (users st))
                | Some user0 \<Rightarrow>
                    u_ID user = u_ID user0
                    \<and> (\<forall>p. u_PrimaryOrganizationID user0 = Some p
                              \<and> p \<in> set (map o_ID (organizations st)) \<longrightarrow> o_ID org = p))"
proof -
  let ?E = "EnsureOrganization (in_OrganizationName input) (in_OrganizationDescription input)
              (in_OrganizationDomain input) st"
  obtain re st1 where E: "?E = (re, st1)" by (cases ?E)
  from EnsureOrganization_frame [OF E] have
    us: "users st1 = users st" and ms: "user_organizations st1 = user_organizations st"
    and ids: "set (map o_ID (organizations st)) \<subseteq> set (map o_ID (organizations st1))"
    by simp_all
  show ?thesis
  proof (cases re)
    case (Inl err)
    with run E ms show ?thesis by (auto simp: BootstrapAdmin_def)
  next
    case (Inr org0)
    let ?min = "if cfg_PasswordMinLength cfg \<le> 0 then 8 else cfg_PasswordMinLength cfg"
    show ?thesis
    proof (cases "admin_email input = [] \<or> int (length (in_AdminPassword input)) < ?min")
      case True
      with run E Inr ms show ?thesis
        by (auto simp: BootstrapAdmin_def Let_def admin_email_def split: if_splits)
    next
      case False
      let ?B = "case GetByEmail st1 (admin_email input) of
                  None \<Rightarrow> createAdmin cfg salt input org0 (admin_email input)
                            (admin_username input) st1
                | Some user0 \<Rightarrow> updateAdmin cfg salt input org0 (admin_username input) user0
                                 (baseQuery st1 user0) st1"
      obtain s st2 where B: "?B = (s, st2)" by (cases ?B)
      have unfolded: "BootstrapAdmin cfg salt (Some input) st =
          (case s of Inl err \<Rightarrow> (Inl err, st2)
           | Inr u \<Rightarrow>
               (Inr (org0\<lparr>o_ID := (case u_PrimaryOrganizationID u of
                                     None \<Rightarrow> o_ID org0 | Some orgID \<Rightarrow> orgID)\<rparr>, u),
                SetUserPrimaryOrganization (u_ID u)
                  (case u_PrimaryOrganizationID u of None \<Rightarrow> o_ID org0 | Some orgID \<Rightarrow> orgID)
                  (UpsertUserOrganization (u_ID u)
                     (case u_PrimaryOrganizationID u of None \<Rightarrow> o_ID org0 | Some orgID \<Rightarrow> orgID)
                     OrganizationRoleSystemAdmin True st2)))"
        using E Inr False B [unfolded admin_username_def admin_email_def]
        by (simp add: BootstrapAdmin_def Let_def admin_email_def split: sum.splits)
      have same_lookup: "GetByEmail st1 (admin_email input) = GetByEmail st (admin_email input)"
        by (simp add: GetByEmail_def us)
      have branch: "user_organizations st2 = user_organizations st
          \<and> (\<forall>user. s = Inr user \<longrightarrow>
                (case GetByEmail st (admin_email input) of
                   None \<Rightarrow> u_ID user = next_id (map u_ID (users st))
                               \<and> u_PrimaryOrganizationID user \<noteq> None
                 | Some user0 \<Rightarrow>
                     u_ID user = u_ID user0 \<and> u_PrimaryOrganizationID user \<noteq> None
                     \<and> (\<forall>p. u_PrimaryOrganizationID user0 = Some p
                               \<and> p \<in> set (map o_ID (organizations st))
                            \<longrightarrow> u_PrimaryOrganizationID user = Some p)))"
      proof (cases "GetByEmail st (admin_email input)")
        case None
        with B same_lookup
        have c: "createAdmin cfg salt input org0 (admin_email input) (admin_username input) st1
                   = (s, st2)" by simp
        from createAdmin_frame [OF c] None ms us show ?thesis by simp
      next
        case (Some user0)
        with B same_lookup
        have u: "updateAdmin cfg salt input org0 (admin_username input) user0
                   (baseQuery st1 user0) st1 = (s, st2)" by simp
        have pre: "(case ua_PrimaryOrganization (baseQuery st1 user0) of
                      None \<Rightarrow> o_ID org0 | Some q \<Rightarrow> o_ID q) = p"
          if "u_PrimaryOrganizationID user0 = Some p" "p \<in> set (map o_ID (organizations st))"
          for p
        proof -
          from that(2) ids have "p \<in> set (map o_ID (organizations st1))" by blast
          then have "find (\<lambda>r. o_ID r = p) (organizations st1) \<noteq> None"
            by (auto simp: find_None_iff)
          then obtain q where q: "find (\<lambda>r. o_ID r = p) (organizations st1) = Some q" by auto
          from find_SomeD [OF q] have "o_ID q = p" .
          with q that(1) show ?thesis by (simp add: baseQuery_def)
        qed
        from updateAdmin_frame [OF u] have
          f: "user_organizations st2 = user_organizations st1"
          and res: "\<And>user. s = Inr user \<Longrightarrow>
                u_ID user = u_ID user0
                \<and> u_PrimaryOrganizationID user =
                    Some (case ua_PrimaryOrganization (baseQuery st1 user0) of
                            None \<Rightarrow> o_ID org0 | Some p \<Rightarrow> o_ID p)"
          by blast+
        show ?thesis
        proof (intro conjI allI impI)
          show "user_organizations st2 = user_organizations st" using f ms by simp
        next
          fix user assume s: "s = Inr user"
          from res [OF s] have id: "u_ID user = u_ID user0"
            and ptr: "u_PrimaryOrganizationID user =
                    Some (case ua_PrimaryOrganization (baseQuery st1 user0) of
                            None \<Rightarrow> o_ID org0 | Some p \<Rightarrow> o_ID p)"
            by simp_all
          have "\<forall>p. u_PrimaryOrganizationID user0 = Some p
                     \<and> p \<in> set (map o_ID (organizations st))
                  \<longrightarrow> u_PrimaryOrganizationID user = Some p"
          proof (intro allI impI)
            fix p
            assume a: "u_PrimaryOrganizationID user0 = Some p
                       \<and> p \<in> set (map o_ID (organizations st))"
            then have "(case ua_PrimaryOrganization (baseQuery st1 user0) of
                          None \<Rightarrow> o_ID org0 | Some q \<Rightarrow> o_ID q) = p"
              by (intro pre) simp_all
            with ptr show "u_PrimaryOrganizationID user = Some p" by simp
          qed
          with id ptr Some
          show "case GetByEmail st (admin_email input) of
                   None \<Rightarrow> u_ID user = next_id (map u_ID (users st))
                               \<and> u_PrimaryOrganizationID user \<noteq> None
                 | Some user0 \<Rightarrow>
                     u_ID user = u_ID user0 \<and> u_PrimaryOrganizationID user \<noteq> None
                     \<and> (\<forall>p. u_PrimaryOrganizationID user0 = Some p
                               \<and> p \<in> set (map o_ID (organizations st))
                            \<longrightarrow> u_PrimaryOrganizationID user = Some p)"
            by simp
        qed
      qed
      then have rows2: "user_organizations st2 = user_organizations st"
        and res: "\<And>user. s = Inr user \<Longrightarrow>
                (case GetByEmail st (admin_email input) of
                   None \<Rightarrow> u_ID user = next_id (map u_ID (users st))
                               \<and> u_PrimaryOrganizationID user \<noteq> None
                 | Some user0 \<Rightarrow>
                     u_ID user = u_ID user0 \<and> u_PrimaryOrganizationID user \<noteq> None
                     \<and> (\<forall>p. u_PrimaryOrganizationID user0 = Some p
                               \<and> p \<in> set (map o_ID (organizations st))
                            \<longrightarrow> u_PrimaryOrganizationID user = Some p))"
        by blast+
      show ?thesis
      proof (cases s)
        case (Inl err)
        with unfolded run rows2 show ?thesis by auto
      next
        case (Inr u)
        from res [OF Inr] obtain k where k: "u_PrimaryOrganizationID u = Some k"
          by (auto split: option.splits)
        from unfolded run Inr k have r: "r = Inr (org0\<lparr>o_ID := k\<rparr>, u)"
          and stF: "stF = SetUserPrimaryOrganization (u_ID u) k
                      (UpsertUserOrganization (u_ID u) k OrganizationRoleSystemAdmin True st2)"
          by auto
        have "user_organizations stF
                = user_organizations
                    (UpsertUserOrganization (u_ID u) k OrganizationRoleSystemAdmin True st2)"
          unfolding stF by (simp add: SetUserPrimaryOrganization_def update_users_def)
        also have "\<dots> = user_organizations
                    (UpsertUserOrganization (u_ID u) k OrganizationRoleSystemAdmin True st)"
          by (rule UpsertUserOrganization_rows [OF rows2])
        finally have rows: "user_organizations stF
                = user_organizations
                    (UpsertUserOrganization (u_ID u) k OrganizationRoleSystemAdmin True st)" .
        from res [OF Inr] k rows show ?thesis
          unfolding r by (auto split: option.splits)
      qed
    qed
  qed
qed


lemma filter_map_unchanged:
  assumes "\<And>x. x \<in> set xs \<Longrightarrow> P (g x) = P x" and "\<And>x. x \<in> set xs \<Longrightarrow> P x \<Longrightarrow> g x = x"
  shows "filter P (map g xs) = filter P xs"
  using assms by (induction xs) auto

lemma UpsertUserOrganization_keys:
  assumes "distinct (organization_keys st)"
  shows "distinct (organization_keys (UpsertUserOrganization userID orgID role isPrimary st))"
proof -
  let ?k = "\<lambda>m. (uo_UserID m, uo_OrganizationID m)"
  let ?upd = "\<lambda>m. if uo_UserID m = userID \<and> uo_OrganizationID m = orgID
                   then m\<lparr>uo_Role := role, uo_IsPrimary := isPrimary\<rparr> else m"
  have kupd: "?k (?upd m) = ?k m" for m by simp
  have same: "map ?k (map ?upd (user_organizations st)) = map ?k (user_organizations st)"
    using kupd by (rule map_key_same)
  show ?thesis
  proof (cases "list_ex (\<lambda>m. uo_UserID m = userID \<and> uo_OrganizationID m = orgID)
                  (user_organizations st)")
    case True
    have d: "distinct (map ?k (map ?upd (user_organizations st)))"
      using assms by (simp only: same organization_keys_def)
    have rows: "user_organizations (UpsertUserOrganization userID orgID role isPrimary st)
                  = map ?upd (user_organizations st)"
      using True by (simp add: UpsertUserOrganization_def)
    show ?thesis unfolding organization_keys_def rows by (rule d)
  next
    case False
    then have "(userID, orgID) \<notin> set (map ?k (user_organizations st))"
      by (auto simp: list_ex_iff)
    with assms False show ?thesis
      by (simp add: UpsertUserOrganization_def organization_keys_def)
  qed
qed

lemma UpsertUserOrganization_other_user:
  assumes "u \<noteq> userID"
  shows "primary_organizations (UpsertUserOrganization userID orgID role isPrimary st) u
           = primary_organizations st u"
proof -
  let ?P = "\<lambda>m. uo_UserID m = u \<and> uo_IsPrimary m"
  let ?upd = "\<lambda>m. if uo_UserID m = userID \<and> uo_OrganizationID m = orgID
                   then m\<lparr>uo_Role := role, uo_IsPrimary := isPrimary\<rparr> else m"
  have "filter ?P (map ?upd (user_organizations st)) = filter ?P (user_organizations st)"
    by (rule filter_map_unchanged) (use assms in auto)
  with assms show ?thesis
    by (simp add: UpsertUserOrganization_def primary_organizations_def)
qed

lemma UpsertUserOrganization_one_primary:
  assumes keys: "distinct (organization_keys st)"
      and old: "\<And>m. m \<in> set (primary_organizations st userID) \<Longrightarrow> uo_OrganizationID m = orgID"
  shows "length (primary_organizations (UpsertUserOrganization userID orgID role isPrimary st)
           userID) \<le> 1"
proof -
  let ?st' = "UpsertUserOrganization userID orgID role isPrimary st"
  let ?k = "\<lambda>m. (uo_UserID m, uo_OrganizationID m)"
  have at_key: "uo_OrganizationID m = orgID"
    if m: "m \<in> set (user_organizations ?st')" and p: "uo_UserID m = userID" "uo_IsPrimary m"
    for m
  proof (rule ccontr)
    assume other: "uo_OrganizationID m \<noteq> orgID"
    with m have "m \<in> set (user_organizations st)"
      by (auto simp: UpsertUserOrganization_def split: if_splits)
    with p have "m \<in> set (primary_organizations st userID)"
      by (simp add: primary_organizations_def)
    from old [OF this] other show False by simp
  qed
  have "length (filter (\<lambda>m. uo_UserID m = userID \<and> uo_IsPrimary m) (map (\<lambda>m. m) (user_organizations ?st')))
          \<le> length (filter (\<lambda>m. ?k m = (userID, orgID)) (user_organizations ?st'))"
    by (rule length_filter_map_le) (use at_key in auto)
  also have "\<dots> \<le> 1"
    using UpsertUserOrganization_keys [OF keys, of userID orgID role isPrimary]
    by (intro length_filter_key_le_1) (simp add: organization_keys_def)
  finally show ?thesis by (simp add: primary_organizations_def)
qed

lemma primary_organizations_rows:
  "user_organizations st' = user_organizations st \<Longrightarrow>
   primary_organizations st' u = primary_organizations st u"
  by (simp add: primary_organizations_def)

lemma organization_keys_rows:
  "user_organizations st' = user_organizations st \<Longrightarrow>
   organization_keys st' = organization_keys st"
  by (simp add: organization_keys_def)

lemma BootstrapAdmin_keeps_one_primary:
  assumes keys: "distinct (organization_keys st)"
      and inv: "length (primary_organizations st u) \<le> 1"
      and agree: "\<And>user0 m. GetByEmail st (admin_email input) = Some user0 \<Longrightarrow>
                   m \<in> set (primary_organizations st (u_ID user0)) \<Longrightarrow>
                   u_PrimaryOrganizationID user0 = Some (uo_OrganizationID m)
                   \<and> uo_OrganizationID m \<in> set (map o_ID (organizations st))"
      and fresh: "GetByEmail st (admin_email input) = None \<Longrightarrow>
                  primary_organizations st (next_id (map u_ID (users st))) = []"
  shows "length (primary_organizations (snd (BootstrapAdmin cfg salt (Some input) st)) u) \<le> 1
         \<and> distinct (organization_keys (snd (BootstrapAdmin cfg salt (Some input) st)))"
proof -
  obtain r stF where run: "BootstrapAdmin cfg salt (Some input) st = (r, stF)"
    by (cases "BootstrapAdmin cfg salt (Some input) st")
  note written = BootstrapAdmin_memberships [OF run]
  have "length (primary_organizations stF u) \<le> 1 \<and> distinct (organization_keys stF)"
  proof (cases r)
    case (Inl err)
    with written have rows: "user_organizations stF = user_organizations st" by simp
    from keys inv show ?thesis
      by (simp add: primary_organizations_rows [OF rows] organization_keys_rows [OF rows])
  next
    case (Inr pair)
    obtain org user where pair: "pair = (org, user)" by (cases pair)
    let ?st' = "UpsertUserOrganization (u_ID user) (o_ID org) OrganizationRoleSystemAdmin True st"
    from written Inr pair have rows: "user_organizations stF = user_organizations ?st'"
      and who: "case GetByEmail st (admin_email input) of
                  None \<Rightarrow> u_ID user = next_id (map u_ID (users st))
                | Some user0 \<Rightarrow>
                    u_ID user = u_ID user0
                    \<and> (\<forall>p. u_PrimaryOrganizationID user0 = Some p
                              \<and> p \<in> set (map o_ID (organizations st)) \<longrightarrow> o_ID org = p)"
      by simp_all
    have k: "distinct (organization_keys ?st')"
      by (rule UpsertUserOrganization_keys [OF keys])
    have "length (primary_organizations ?st' u) \<le> 1"
    proof (cases "u = u_ID user")
      case False
      with inv show ?thesis by (simp add: UpsertUserOrganization_other_user)
    next
      case True
      have old: "uo_OrganizationID m = o_ID org"
        if m: "m \<in> set (primary_organizations st (u_ID user))" for m
      proof (cases "GetByEmail st (admin_email input)")
        case None
        with who have "u_ID user = next_id (map u_ID (users st))" by simp
        with fresh [OF None] m show ?thesis by simp
      next
        case (Some user0)
        with who have id: "u_ID user = u_ID user0"
          and ptr: "\<forall>p. u_PrimaryOrganizationID user0 = Some p
                         \<and> p \<in> set (map o_ID (organizations st)) \<longrightarrow> o_ID org = p"
          by simp_all
        from agree [OF Some, of m] m id
        have "u_PrimaryOrganizationID user0 = Some (uo_OrganizationID m)
              \<and> uo_OrganizationID m \<in> set (map o_ID (organizations st))" by simp
        with ptr show ?thesis by simp
      qed
      show ?thesis
        unfolding True by (rule UpsertUserOrganization_one_primary [OF keys old])
    qed
    with k show ?thesis
      by (simp add: primary_organizations_rows [OF rows] organization_keys_rows [OF rows])
  qed
  with run show ?thesis by simp
qed

text \<open>
  Two runs in which the flags and the account's key agree before the call. The
  membership marked is that of the organization the account points at, since Save puts
  the preloaded organization's key back: a bootstrap under another organization leaves
  the administrator in the first, and a bootstrap after a completed reassignment
  confirms the second. One membership is primary after each.
\<close>

lemma BootstrapAdmin_rotation_keeps_first_organization:
  "BootstrapAdmin ex_cfg 8 (Some ex_input2) ex_bootstrapped
     = (Inr (ex_org2\<lparr>o_ID := 1\<rparr>, ex_user), ex_rotated)
   \<and> map uo_OrganizationID (user_organizations ex_rotated) = [1]
   \<and> map uo_OrganizationID (primary_organizations ex_rotated 1) = [1]
   \<and> map u_PrimaryOrganizationID (users ex_rotated) = [Some 1]"
proof -
  have a: "BootstrapAdmin ex_cfg 8 (Some ex_input2) ex_bootstrapped
             = (Inr (ex_org2\<lparr>o_ID := 1\<rparr>, ex_user), ex_rotated)"
    by code_simp
  have b: "map uo_OrganizationID (user_organizations ex_rotated) = [1]"
    "map uo_OrganizationID (primary_organizations ex_rotated 1) = [1]"
    "map u_PrimaryOrganizationID (users ex_rotated) = [Some 1]"
    by (simp_all add: ex_rotated_def ex_bootstrapped_def primary_organizations_def ex_user_def)
  from a b show ?thesis by simp
qed

lemma BootstrapAdmin_after_reassignment:
  "map u_PrimaryOrganizationID (users ex_reassigned) = [Some 2]
   \<and> map uo_OrganizationID (primary_organizations ex_reassigned 1) = [2]
   \<and> \<not> isl (fst (BootstrapAdmin ex_cfg 8 (Some ex_input) ex_reassigned))
   \<and> map uo_OrganizationID
        (primary_organizations (snd (BootstrapAdmin ex_cfg 8 (Some ex_input) ex_reassigned)) 1)
       = [2]"
proof -
  have p: "map u_PrimaryOrganizationID (users ex_reassigned) = [Some 2]"
    by code_simp
  have a: "map uo_OrganizationID (primary_organizations ex_reassigned 1) = [2]"
    by code_simp
  have b: "\<not> isl (fst (BootstrapAdmin ex_cfg 8 (Some ex_input) ex_reassigned))"
    by code_simp
  have c: "map uo_OrganizationID
        (primary_organizations (snd (BootstrapAdmin ex_cfg 8 (Some ex_input) ex_reassigned)) 1)
       = [2]"
    by code_simp
  from p a b c show ?thesis by simp
qed

text \<open>
  C3. The invariant does not survive BootstrapAdmin, which writes its primary
  membership without the clearing step of the assignment operations: where the flags
  and the account's key disagree, it marks a second membership. In the store below
  account 1 is the bootstrap administrator, still pointing at organization 1, and its
  one primary membership is that of organization 2: the state an assignment to
  organization 2 leaves when it stops after its upsert. The store satisfies the
  invariant and its membership keys are unique. The bootstrap that every service start
  runs, with the defaults, succeeds and marks the membership of organization 1 primary
  without clearing the other: account 1 then has two organization memberships with
  \<open>is_primary = true\<close>, where the claim allows one.
\<close>

theorem BootstrapAdmin_leaves_two_primary_memberships:
  "map (\<lambda>m. (uo_UserID m, uo_OrganizationID m, uo_IsPrimary m)) (user_organizations ex_interrupted)
     = [(1, 1, False), (1, 2, True)]
   \<and> map u_PrimaryOrganizationID (users ex_interrupted) = [Some 1]
   \<and> distinct (organization_keys ex_interrupted)
   \<and> map uo_OrganizationID (primary_organizations ex_interrupted 1) = [2]
   \<and> \<not> isl (fst (BootstrapAdmin ex_cfg 8 (Some ex_input) ex_interrupted))
   \<and> map uo_OrganizationID
        (primary_organizations (snd (BootstrapAdmin ex_cfg 8 (Some ex_input) ex_interrupted)) 1)
       = [1, 2]"
proof -
  have a: "map (\<lambda>m. (uo_UserID m, uo_OrganizationID m, uo_IsPrimary m))
             (user_organizations ex_interrupted) = [(1, 1, False), (1, 2, True)]"
    by code_simp
  have b: "map u_PrimaryOrganizationID (users ex_interrupted) = [Some 1]"
    by code_simp
  have c: "distinct (organization_keys ex_interrupted)"
    by code_simp
  have d: "map uo_OrganizationID (primary_organizations ex_interrupted 1) = [2]"
    by code_simp
  have e: "\<not> isl (fst (BootstrapAdmin ex_cfg 8 (Some ex_input) ex_interrupted))"
    by code_simp
  have f: "map uo_OrganizationID
        (primary_organizations (snd (BootstrapAdmin ex_cfg 8 (Some ex_input) ex_interrupted)) 1)
       = [1, 2]"
    by code_simp
  from a b c d e f show ?thesis by simp
qed

end
